theory Spec2Isabelle
  imports Main
begin

unbundle bit_operations_syntax

section \<open>Paths\<close>

text \<open>
  The program manipulates \<^verbatim>\<open>pathlib.Path\<close> values on a POSIX system. A path is
  its anchor (the empty string for a relative path, \<^verbatim>\<open>/\<close> or \<^verbatim>\<open>//\<close> for an
  absolute one) and its list of components. All operations of \<^verbatim>\<open>pathlib\<close> used by the
  program are lexical: \<^verbatim>\<open>parent\<close> drops the last component and never resolves
  \<^verbatim>\<open>..\<close>; the operator \<^verbatim>\<open>/\<close> with a string splits the string at slashes and drops
  empty components and single dots.
\<close>

datatype path = Path (anchor: string) (parts: "string list")

fun split_slash :: "string \<Rightarrow> string list" where
  "split_slash [] = [[]]"
| "split_slash (c # cs) =
     (if c = CHR ''/'' then [] # split_slash cs
      else (case split_slash cs of [] \<Rightarrow> [[c]] | w # ws \<Rightarrow> (c # w) # ws))"

definition anchor_of :: "string \<Rightarrow> string" where
  "anchor_of s =
     (if take 2 s = ''//'' \<and> take 3 s \<noteq> ''///'' then ''//''
      else if take 1 s = ''/'' then ''/''
      else [])"

definition parse_path :: "string \<Rightarrow> path" where
  "parse_path s = Path (anchor_of s) (filter (\<lambda>w. w \<noteq> [] \<and> w \<noteq> ''.'') (split_slash s))"

text \<open>\<^verbatim>\<open>Path()\<close>, the empty relative path.\<close>

definition Path_empty :: path where
  "Path_empty = Path [] []"

text \<open>\<^verbatim>\<open>p / q\<close> with a path on the right: an anchored right operand replaces the left one.\<close>

definition joinpath :: "path \<Rightarrow> path \<Rightarrow> path" where
  "joinpath p q = (if anchor q \<noteq> [] then q else Path (anchor p) (parts p @ parts q))"

text \<open>\<^verbatim>\<open>p / s\<close> with a string on the right.\<close>

definition join_str :: "path \<Rightarrow> string \<Rightarrow> path" where
  "join_str p s = joinpath p (parse_path s)"

definition parent :: "path \<Rightarrow> path" where
  "parent p = Path (anchor p) (butlast (parts p))"

text \<open>\<^verbatim>\<open>p.name\<close>: the last component, the empty string when there is none.\<close>

definition name_of :: "path \<Rightarrow> string" where
  "name_of p = (if parts p = [] then [] else last (parts p))"

fun intercalate_slash :: "string list \<Rightarrow> string" where
  "intercalate_slash [] = []"
| "intercalate_slash [w] = w"
| "intercalate_slash (w # ws) = w @ ''/'' @ intercalate_slash ws"

text \<open>\<^verbatim>\<open>str(p)\<close>.\<close>

definition path_str :: "path \<Rightarrow> string" where
  "path_str p =
     (if anchor p = [] \<and> parts p = [] then ''.''
      else anchor p @ intercalate_slash (parts p))"

text \<open>\<^verbatim>\<open>name.endswith(suffix)\<close>.\<close>

definition endswith :: "string \<Rightarrow> string \<Rightarrow> bool" where
  "endswith s suffix = (length suffix \<le> length s \<and> drop (length s - length suffix) s = suffix)"

text \<open>
  \<open>beneath d p\<close>: the path \<open>p\<close> is \<open>d\<close> or lies below it (lexically). This is the set of
  paths a recursive deletion of \<open>d\<close> concerns.
\<close>

definition beneath :: "path \<Rightarrow> path \<Rightarrow> bool" where
  "beneath d p = (anchor p = anchor d \<and> take (length (parts d)) (parts p) = parts d)"

section \<open>The file system\<close>

text \<open>
  A file system maps a path to what \<^verbatim>\<open>stat\<close> finds there: a regular file with its
  content and permission bits, or a directory with its permission bits. Paths are
  compared lexically, in the normal form of \<^verbatim>\<open>pathlib\<close>: the model has no symbolic
  links and does not resolve \<^verbatim>\<open>..\<close>.
\<close>

datatype node = File (content: string) (mode: int) | Dir (dmode: int)

type_synonym fs = "path \<Rightarrow> node option"

definition exists_p :: "fs \<Rightarrow> path \<Rightarrow> bool" where
  "exists_p f p = (case f p of None \<Rightarrow> False | Some _ \<Rightarrow> True)"

definition is_file :: "fs \<Rightarrow> path \<Rightarrow> bool" where
  "is_file f p = (case f p of Some (File _ _) \<Rightarrow> True | _ \<Rightarrow> False)"

definition is_dir :: "fs \<Rightarrow> path \<Rightarrow> bool" where
  "is_dir f p = (case f p of Some (Dir _) \<Rightarrow> True | _ \<Rightarrow> False)"

section \<open>Candidate locations\<close>

definition BUILDPROP_LOCATIONS :: "path list" where
  "BUILDPROP_LOCATIONS =
     [join_str Path_empty ''default.prop'', join_str Path_empty ''prop.default'']
     @ map (\<lambda>dir. join_str (join_str Path_empty dir) ''build.prop'') [''system'', ''vendor'']
     @ map (\<lambda>dir. join_str (join_str (join_str Path_empty dir) ''etc'') ''build.prop'')
         [''system'', ''vendor'']"

text \<open>The list \<^verbatim>\<open>extended_locations\<close> built in the loop body for one dump directory.\<close>

definition extended_locations :: "path \<Rightarrow> path list" where
  "extended_locations dump_dir =
     [ join_str (join_str (join_str dump_dir ''system'') ''system'') ''build.prop'',
       join_str (join_str dump_dir ''system'') ''build.prop'',
       join_str (join_str dump_dir ''vendor'') ''build.prop'',
       join_str (join_str (join_str dump_dir ''vendor_boot'') ''ramdisk'') ''default.prop'',
       join_str (join_str (join_str dump_dir ''vendor_boot'') ''ramdisk'') ''prop.default'',
       join_str (join_str (join_str dump_dir ''vendor_boot'') ''ramdisk'') ''build.prop'',
       join_str (join_str (join_str (join_str dump_dir ''vendor_boot'') ''ramdisk'') ''system'')
         ''build.prop'',
       join_str (join_str (join_str (join_str dump_dir ''vendor_boot'') ''ramdisk'') ''vendor'')
         ''build.prop'',
       join_str (join_str (join_str dump_dir ''system'') ''etc'') ''build.prop'',
       join_str (join_str (join_str dump_dir ''vendor'') ''etc'') ''build.prop'',
       join_str (join_str dump_dir ''product'') ''build.prop'',
       join_str (join_str dump_dir ''system_ext'') ''build.prop'',
       join_str (join_str dump_dir ''odm'') ''build.prop'',
       join_str (join_str (join_str dump_dir ''boot'') ''ramdisk'') ''default.prop'',
       join_str (join_str (join_str dump_dir ''boot'') ''ramdisk'') ''prop.default'',
       join_str (join_str (join_str dump_dir ''recovery'') ''ramdisk'') ''default.prop'',
       join_str (join_str (join_str dump_dir ''recovery'') ''ramdisk'') ''prop.default'' ]"

text \<open>
  \<^verbatim>\<open>get_extended_buildprop_locations\<close>: the first loop appends the ramdisk-relative
  candidates one by one, the second loop visits the three dump directories and extends
  the list for each one that exists.
\<close>

definition get_extended_buildprop_locations :: "fs \<Rightarrow> path \<Rightarrow> path list" where
  "get_extended_buildprop_locations f base_path =
     (let locations = foldl (\<lambda>acc location. acc @ [joinpath base_path location]) []
                        BUILDPROP_LOCATIONS;
          dump_path = parent base_path;
          possible_dump_paths = [dump_path, parent dump_path, parent (parent dump_path)]
      in foldl (\<lambda>acc dump_dir.
                  if \<not> exists_p f dump_dir then acc else acc @ extended_locations dump_dir)
           locations possible_dump_paths)"

definition FSTAB_LOCATIONS :: "path list" where
  "FSTAB_LOCATIONS =
     [join_str (join_str Path_empty ''etc'') ''recovery.fstab'']
     @ map (\<lambda>dir. join_str (join_str (join_str Path_empty dir) ''etc'') ''recovery.fstab'')
         [''system'', ''vendor'']"

definition INIT_RC_LOCATIONS :: "path list" where
  "INIT_RC_LOCATIONS =
     [Path_empty]
     @ map (\<lambda>dir. join_str (join_str (join_str Path_empty dir) ''etc'') ''init'')
         [''system'', ''vendor'']"

section \<open>Errors, collaborators and the device tree\<close>

datatype error =
    FileNotFoundError string
  | AssertionError string
  | FileExistsError string
  | NotADirectoryError string
  | IsADirectoryError string
  | SameFileError string
  | GitCommandError string
  | CollaboratorError string

record image_info =
  kernel :: "path option"
  dt :: "path option"
  dtb :: "path option"
  dtbo :: "path option"
  ramdisk :: "path option"
  vendor_ramdisk :: "path option"

record device_info =
  manufacturer :: string
  codename :: string

type_synonym props = "(string \<times> string) list"

type_synonym fstab = "string list"

record render_ctx =
  comment_prefix :: string
  ctx_current_year :: string
  ctx_device_info :: device_info
  ctx_fstab :: fstab
  ctx_image_info :: image_info
  ctx_version :: string

text \<open>
  The collaborators the program imports from other packages, and the behaviour of the
  operating system it depends on, are parameters:
  \<^item> \<open>unpackimg\<close>: \<^verbatim>\<open>AIKManager.unpackimg\<close>, which unpacks the image on disk;
  \<^item> \<open>import_props\<close>: \<^verbatim>\<open>BuildProp.import_props\<close>, from the properties so far and a
    file's content to the properties afterwards;
  \<^item> \<open>make_device_info\<close>: \<^verbatim>\<open>DeviceInfo(build_prop)\<close>;
  \<^item> \<open>parse_fstab\<close> and \<open>format_fstab\<close>: \<^verbatim>\<open>Fstab(path)\<close> on a file's content, which
    raises on a file it cannot parse, and \<^verbatim>\<open>fstab.format(twrp=True)\<close>;
  \<^item> \<open>iterdir\<close>: the entry names of a directory, in the order the operating system
    lists them;
  \<^item> \<open>now_year\<close>: \<^verbatim>\<open>datetime.now().year\<close>;
  \<^item> \<open>render\<close>: the text a named template renders to in a context;
  \<^item> \<open>version\<close>: the package's version string;
  \<^item> \<open>umask\<close>: the process's file mode creation mask;
  \<^item> \<open>undeletable\<close>: the paths whose removal the operating system refuses.
\<close>

record env =
  unpackimg :: "fs \<Rightarrow> path \<Rightarrow> error + (image_info \<times> fs)"
  import_props :: "props \<Rightarrow> string \<Rightarrow> props"
  make_device_info :: "props \<Rightarrow> error + device_info"
  parse_fstab :: "string \<Rightarrow> error + fstab"
  format_fstab :: "fstab \<Rightarrow> string"
  iterdir :: "path \<Rightarrow> string list"
  now_year :: nat
  render :: "string \<Rightarrow> render_ctx \<Rightarrow> string"
  version :: string
  umask :: int
  undeletable :: "path list"

record device_tree =
  image :: path
  current_year :: string
  dt_image_info :: image_info
  build_prop :: props
  dt_device_info :: device_info
  dt_fstab :: fstab
  init_rcs :: "path list"

text \<open>
  What a run of the constructor does besides computing its result: the messages it
  logs with \<^verbatim>\<open>LOGD\<close>, the \<^verbatim>\<open>is_file\<close> probes of the discovery loops, and the files
  whose content a parser reads.
\<close>

datatype event = LOGD string | Probe path | Read path

text \<open>\<^verbatim>\<open>str(n)\<close> of a natural number, as the f-strings print it.\<close>

function str_nat :: "nat \<Rightarrow> string" where
  "str_nat n =
     (if n < 10 then [''0123456789'' ! n]
      else str_nat (n div 10) @ [''0123456789'' ! (n mod 10)])"
  by pat_completeness auto
termination
  by (relation "measure id") auto

declare str_nat.simps [simp del]

section \<open>The constructor\<close>

text \<open>The choice of the ramdisk: the primary one when it is a directory, else the vendor one.\<close>

definition select_ramdisk :: "fs \<Rightarrow> image_info \<Rightarrow> error + (event list \<times> path)" where
  "select_ramdisk f info =
     (case ramdisk info of
        Some r \<Rightarrow>
          if is_dir f r then Inr ([LOGD ''Using standard ramdisk''], r)
          else (case vendor_ramdisk info of
                  Some v \<Rightarrow>
                    if is_dir f v
                    then Inr ([LOGD ''Using vendor_ramdisk (vendor_boot v4 detected)''], v)
                    else Inl (AssertionError
                           ''No valid ramdisk found (neither ramdisk nor vendor_ramdisk)'')
                | None \<Rightarrow> Inl (AssertionError
                           ''No valid ramdisk found (neither ramdisk nor vendor_ramdisk)''))
      | None \<Rightarrow>
          (case vendor_ramdisk info of
             Some v \<Rightarrow>
               if is_dir f v
               then Inr ([LOGD ''Using vendor_ramdisk (vendor_boot v4 detected)''], v)
               else Inl (AssertionError
                      ''No valid ramdisk found (neither ramdisk nor vendor_ramdisk)'')
           | None \<Rightarrow> Inl (AssertionError
                      ''No valid ramdisk found (neither ramdisk nor vendor_ramdisk)'')))"

text \<open>
  The loop over \<^verbatim>\<open>search_locations\<close>: a candidate that is not a regular file is skipped;
  the first one that is a file is logged, imported, and ends the loop. The result is the
  events, the properties, and the flag \<^verbatim>\<open>build_prop_found\<close>.
\<close>

fun load_build_prop :: "env \<Rightarrow> fs \<Rightarrow> props \<Rightarrow> path list \<Rightarrow> event list \<times> props \<times> bool" where
  "load_build_prop e f bp [] = ([], bp, False)"
| "load_build_prop e f bp (loc # locs) =
     (case f loc of
        Some (File c m) \<Rightarrow>
          ([Probe loc, LOGD (''Loading build.prop from '' @ path_str loc), Read loc],
           import_props e bp c, True)
      | _ \<Rightarrow>
          (case load_build_prop e f bp locs of
             (evs, r) \<Rightarrow> (Probe loc # evs, r)))"

text \<open>
  The loop over the partition-table candidates: a candidate that is not a regular file
  is skipped; the first one that is a file is logged and parsed, and ends the loop. The
  result is the events and either the exception \<^verbatim>\<open>Fstab(path)\<close> raised or the value of
  \<^verbatim>\<open>fstab\<close>, \<open>None\<close> being \<^verbatim>\<open>fstab is None\<close>.
\<close>

fun find_fstab :: "env \<Rightarrow> fs \<Rightarrow> path list \<Rightarrow> event list \<times> (error + fstab option)" where
  "find_fstab e f [] = ([], Inr None)"
| "find_fstab e f (loc # locs) =
     (case f loc of
        Some (File c m) \<Rightarrow>
          ([Probe loc,
            LOGD (''Generating fstab using '' @ path_str loc @ '' as reference...''),
            Read loc],
           (case parse_fstab e c of
              Inl err \<Rightarrow> Inl err
            | Inr tab \<Rightarrow> Inr (Some tab)))
      | _ \<Rightarrow>
          (case find_fstab e f locs of
             (evs, r) \<Rightarrow> (Probe loc # evs, r)))"

text \<open>An entry that \<^verbatim>\<open>iterdir\<close> yields: the directory's path with the entry's name added.\<close>

definition child :: "path \<Rightarrow> string \<Rightarrow> path" where
  "child d n = Path (anchor d) (parts d @ [n])"

text \<open>The scan for boot scripts: the three directories in order, each one's entries in
  the order the operating system lists them.\<close>

definition collect_init_rcs :: "env \<Rightarrow> fs \<Rightarrow> path \<Rightarrow> path list" where
  "collect_init_rcs e f ramdisk_path =
     foldl (\<lambda>acc init_rc_path.
              if \<not> is_dir f init_rc_path then acc
              else acc @ filter (\<lambda>init_rc. endswith (name_of init_rc) ''.rc''
                                          \<and> name_of init_rc \<noteq> ''init.rc'')
                           (map (child init_rc_path) (iterdir e init_rc_path)))
       [] (map (joinpath ramdisk_path) INIT_RC_LOCATIONS)"

definition searched_line :: "fs \<Rightarrow> path \<Rightarrow> event" where
  "searched_line f location =
     LOGD (''  - '' @ path_str location @ '' (''
           @ (if exists_p f location then ''EXISTS'' else ''NOT FOUND'') @ '')'')"

text \<open>
  \<^verbatim>\<open>DeviceTree.__init__\<close>. The result is the events of the run, the file system after
  it, and either the exception raised or the object built.
\<close>

definition DeviceTree_init :: "env \<Rightarrow> fs \<Rightarrow> path \<Rightarrow> event list \<times> fs \<times> (error + device_tree)" where
  "DeviceTree_init e f img =
     (if \<not> is_file f img then ([], f, Inl (FileNotFoundError ''Specified file doesn't exist''))
      else
        (case unpackimg e f img of
           Inl err \<Rightarrow> ([], f, Inl err)
         | Inr (info, f1) \<Rightarrow>
             (case select_ramdisk f1 info of
                Inl err \<Rightarrow> ([], f1, Inl err)
              | Inr (ev1, ramdisk_path) \<Rightarrow>
                  (let search_locations = get_extended_buildprop_locations f1 ramdisk_path;
                       ev2 = ev1 @ [LOGD ''Getting device infos...'',
                                    LOGD (''Searching for build.prop in ''
                                          @ str_nat (length search_locations)
                                          @ '' locations...'')]
                   in (case load_build_prop e f1 [] search_locations of
                         (ev3, bp, build_prop_found) \<Rightarrow>
                           if \<not> build_prop_found then
                             (ev2 @ ev3 @ LOGD ''Searched locations:''
                                # map (searched_line f1) search_locations,
                              f1,
                              Inl (AssertionError
                                ''No build.prop file found in any of the searched locations''))
                           else
                             (case make_device_info e bp of
                                Inl err \<Rightarrow> (ev2 @ ev3, f1, Inl err)
                              | Inr di \<Rightarrow>
                                  (case find_fstab e f1
                                          (map (joinpath ramdisk_path) FSTAB_LOCATIONS) of
                                     (ev4, Inl err) \<Rightarrow> (ev2 @ ev3 @ ev4, f1, Inl err)
                                   | (ev4, Inr None) \<Rightarrow>
                                       (ev2 @ ev3 @ ev4, f1,
                                        Inl (AssertionError ''fstab not found''))
                                   | (ev4, Inr (Some tab)) \<Rightarrow>
                                       (ev2 @ ev3 @ ev4, f1,
                                        Inr \<lparr> image = img,
                                              current_year = str_nat (now_year e),
                                              dt_image_info = info,
                                              build_prop = bp,
                                              dt_device_info = di,
                                              dt_fstab = tab,
                                              init_rcs = collect_init_rcs e f1 ramdisk_path
                                            \<rparr>))))))))"

section \<open>Operations on the file system\<close>

text \<open>The permission bits of the module \<^verbatim>\<open>stat\<close>, and the modes of new entries.\<close>

definition S_IRWXU :: int where "S_IRWXU = 448"

definition S_IRGRP :: int where "S_IRGRP = 32"

definition S_IROTH :: int where "S_IROTH = 4"

definition default_file_mode :: "env \<Rightarrow> int" where
  "default_file_mode e = 438 AND NOT (umask e)"

definition default_dir_mode :: "env \<Rightarrow> int" where
  "default_dir_mode e = 511 AND NOT (umask e)"

text \<open>
  \<^verbatim>\<open>os.mkdir\<close>: the entry must not exist and its parent must be a directory. The
  model looks at the entry and at its parent only: it does not tell a missing parent
  from a parent below a regular file, which the operating system reports as
  \<^verbatim>\<open>NotADirectoryError\<close>.
\<close>

definition mkdir1 :: "int \<Rightarrow> fs \<Rightarrow> path \<Rightarrow> error + fs" where
  "mkdir1 md f p =
     (case f p of
        Some _ \<Rightarrow> Inl (FileExistsError (path_str p))
      | None \<Rightarrow>
          (case f (parent p) of
             None \<Rightarrow> Inl (FileNotFoundError (path_str p))
           | Some (File _ _) \<Rightarrow> Inl (NotADirectoryError (path_str p))
           | Some (Dir _) \<Rightarrow> Inr (f(p \<mapsto> Dir md))))"

text \<open>\<^verbatim>\<open>Path.mkdir(parents=False, exist_ok=...)\<close>.\<close>

definition mkdir_noparents :: "int \<Rightarrow> bool \<Rightarrow> fs \<Rightarrow> path \<Rightarrow> error + fs" where
  "mkdir_noparents md exist_ok f p =
     (case mkdir1 md f p of
        Inr f' \<Rightarrow> Inr f'
      | Inl (FileNotFoundError m) \<Rightarrow> Inl (FileNotFoundError m)
      | Inl err \<Rightarrow> if \<not> exist_ok \<or> \<not> is_dir f p then Inl err else Inr f)"

text \<open>
  \<^verbatim>\<open>Path.mkdir(parents=True, exist_ok=...)\<close>: when the parent is missing it is created
  first, tolerating that it exists, and the directory is then made without
  \<^verbatim>\<open>parents\<close>.
\<close>

function mkdir_parents :: "int \<Rightarrow> bool \<Rightarrow> fs \<Rightarrow> path \<Rightarrow> error + fs" where
  "mkdir_parents md exist_ok f p =
     (case mkdir1 md f p of
        Inr f' \<Rightarrow> Inr f'
      | Inl (FileNotFoundError m) \<Rightarrow>
          if parent p = p then Inl (FileNotFoundError m)
          else (case mkdir_parents md True f (parent p) of
                  Inl err \<Rightarrow> Inl err
                | Inr f' \<Rightarrow> mkdir_noparents md exist_ok f' p)
      | Inl err \<Rightarrow> if \<not> exist_ok \<or> \<not> is_dir f p then Inl err else Inr f)"
  by pat_completeness auto
termination
proof (relation "measure (\<lambda>(md, ok, f, p). length (parts p))")
  show "wf (measure (\<lambda>(md, ok, f, p). length (parts p)))"
    by simp
next
  fix md :: int and exist_ok :: bool and f :: fs and p :: path
  assume "parent p \<noteq> p"
  then have "parts p \<noteq> []"
    by (cases p) (auto simp: parent_def)
  then show "((md, True, f, parent p), (md, exist_ok, f, p))
               \<in> measure (\<lambda>(md, ok, f, p). length (parts p))"
    by (simp add: parent_def)
qed

declare mkdir_parents.simps [simp del]

text \<open>\<^verbatim>\<open>open(p, 'w').write(text)\<close>: an existing file keeps its mode.\<close>

definition write_text :: "int \<Rightarrow> fs \<Rightarrow> path \<Rightarrow> string \<Rightarrow> error + fs" where
  "write_text fm f p txt =
     (case f p of
        Some (Dir _) \<Rightarrow> Inl (IsADirectoryError (path_str p))
      | Some (File _ m) \<Rightarrow> Inr (f(p \<mapsto> File txt m))
      | None \<Rightarrow>
          (case f (parent p) of
             None \<Rightarrow> Inl (FileNotFoundError (path_str p))
           | Some (File _ _) \<Rightarrow> Inl (NotADirectoryError (path_str p))
           | Some (Dir _) \<Rightarrow> Inr (f(p \<mapsto> File txt fm))))"

text \<open>\<^verbatim>\<open>os.chmod\<close>.\<close>

definition chmod :: "fs \<Rightarrow> path \<Rightarrow> int \<Rightarrow> error + fs" where
  "chmod f p m =
     (case f p of
        None \<Rightarrow> Inl (FileNotFoundError (path_str p))
      | Some (File c _) \<Rightarrow> Inr (f(p \<mapsto> File c m))
      | Some (Dir _) \<Rightarrow> Inr (f(p \<mapsto> Dir m)))"

text \<open>
  \<^verbatim>\<open>shutil.copyfile\<close>: source and destination must differ, the source is opened for
  reading and the destination for writing; permission bits are not copied.
\<close>

definition copyfile :: "int \<Rightarrow> fs \<Rightarrow> path \<Rightarrow> path \<Rightarrow> error + fs" where
  "copyfile fm f src dst =
     (if src = dst \<and> exists_p f src then Inl (SameFileError (path_str src))
      else
        (case f src of
           None \<Rightarrow> Inl (FileNotFoundError (path_str src))
         | Some (Dir _) \<Rightarrow> Inl (IsADirectoryError (path_str src))
         | Some (File c _) \<Rightarrow> write_text fm f dst c))"

text \<open>
  \<^verbatim>\<open>shutil.rmtree(d, ignore_errors=True)\<close>: every entry at or below \<open>d\<close> is removed,
  except the entries the operating system refuses to remove and the directories that
  still hold one of them. No error is reported.
\<close>

definition rmtree_ignore_errors :: "path list \<Rightarrow> fs \<Rightarrow> path \<Rightarrow> fs" where
  "rmtree_ignore_errors stuck f d =
     (\<lambda>p. if beneath d p \<and> \<not> list_ex (\<lambda>q. beneath p q \<and> exists_p f q) stuck
          then None else f p)"

text \<open>
  Modelled from the spec: \<^verbatim>\<open>twrpdtgen.templates.render_template\<close>, which is not among
  the source files. It renders the named template in the given context and writes the
  text into the directory, under the template's name unless an output name is given.
\<close>

definition render_template :: "env \<Rightarrow> path \<Rightarrow> string \<Rightarrow> string \<Rightarrow> render_ctx \<Rightarrow> fs \<Rightarrow> error + fs" where
  "render_template e device_tree_path template_file out_file ctx f =
     write_text (default_file_mode e) f
       (join_str device_tree_path (if out_file = [] then template_file else out_file))
       (render e template_file ctx)"

text \<open>The same with \<^verbatim>\<open>to_file=False\<close>: the rendered text is returned.\<close>

definition render_template_text :: "env \<Rightarrow> string \<Rightarrow> render_ctx \<Rightarrow> string" where
  "render_template_text e template_file ctx = render e template_file ctx"

section \<open>Writing the device tree\<close>

text \<open>The context \<^verbatim>\<open>_render_template\<close> passes on.\<close>

definition make_ctx :: "env \<Rightarrow> device_tree \<Rightarrow> string \<Rightarrow> render_ctx" where
  "make_ctx e self cp =
     \<lparr> comment_prefix = cp,
       ctx_current_year = current_year self,
       ctx_device_info = dt_device_info self,
       ctx_fstab = dt_fstab self,
       ctx_image_info = dt_image_info self,
       ctx_version = version e \<rparr>"

text \<open>\<^verbatim>\<open>DeviceTree._render_template\<close>, writing to a file.\<close>

definition DeviceTree_render_template ::
  "env \<Rightarrow> device_tree \<Rightarrow> path \<Rightarrow> string \<Rightarrow> string \<Rightarrow> string \<Rightarrow> fs \<Rightarrow> error + fs" where
  "DeviceTree_render_template e self folder template_file cp out_file f =
     render_template e folder template_file out_file (make_ctx e self cp) f"

text \<open>
  A block of statements on the file system: they run in order, and the first exception
  ends the block, leaving the file system as the statements before it made it.
\<close>

fun run_steps :: "(fs \<Rightarrow> error + fs) list \<Rightarrow> fs \<Rightarrow> error option \<times> fs" where
  "run_steps [] f = (None, f)"
| "run_steps (s # ss) f =
     (case s f of
        Inl err \<Rightarrow> (Some err, f)
      | Inr f' \<Rightarrow> run_steps ss f')"

text \<open>
  The statements of \<^verbatim>\<open>dump_to_folder\<close> up to the test of \<^verbatim>\<open>git\<close>, in the order of
  the source. The calls of \<^verbatim>\<open>LOGD\<close> there print fixed messages and are left out.
\<close>

definition assembly :: "env \<Rightarrow> device_tree \<Rightarrow> path \<Rightarrow> (fs \<Rightarrow> error + fs) list" where
  "assembly e self device_tree_folder =
     (let prebuilt_path = join_str device_tree_folder ''prebuilt'';
          recovery_root_path = join_str (join_str device_tree_folder ''recovery'') ''root'';
          tmpl = DeviceTree_render_template e self device_tree_folder
      in
       [ (\<lambda>f. Inr (if is_dir f device_tree_folder
                    then rmtree_ignore_errors (undeletable e) f device_tree_folder else f)),
         (\<lambda>f. mkdir_parents (default_dir_mode e) False f device_tree_folder),
         (\<lambda>f. mkdir_parents (default_dir_mode e) False f prebuilt_path),
         (\<lambda>f. mkdir_parents (default_dir_mode e) False f recovery_root_path),
         tmpl ''Android.bp'' ''//'' [],
         tmpl ''Android.mk'' ''#'' [],
         tmpl ''AndroidProducts.mk'' ''#'' [],
         tmpl ''BoardConfig.mk'' ''#'' [],
         tmpl ''device.mk'' ''#'' [],
         tmpl ''extract-files.sh'' ''#'' [],
         tmpl ''omni_device.mk'' ''#''
           (''omni_'' @ codename (dt_device_info self) @ ''.mk''),
         tmpl ''README.md'' ''#'' [],
         tmpl ''setup-makefiles.sh'' ''#'' [],
         tmpl ''vendorsetup.sh'' ''#'' [],
         (\<lambda>f. chmod f (join_str device_tree_folder ''extract-files.sh'')
                 (S_IRWXU OR S_IRGRP OR S_IROTH)),
         (\<lambda>f. chmod f (join_str device_tree_folder ''setup-makefiles.sh'')
                 (S_IRWXU OR S_IRGRP OR S_IROTH)),
         (\<lambda>f. case kernel (dt_image_info self) of
                 None \<Rightarrow> Inr f
               | Some src \<Rightarrow>
                   copyfile (default_file_mode e) f src (join_str prebuilt_path ''kernel'')),
         (\<lambda>f. case dt (dt_image_info self) of
                 None \<Rightarrow> Inr f
               | Some src \<Rightarrow>
                   copyfile (default_file_mode e) f src (join_str prebuilt_path ''dt.img'')),
         (\<lambda>f. case dtb (dt_image_info self) of
                 None \<Rightarrow> Inr f
               | Some src \<Rightarrow>
                   copyfile (default_file_mode e) f src (join_str prebuilt_path ''dtb.img'')),
         (\<lambda>f. case dtbo (dt_image_info self) of
                 None \<Rightarrow> Inr f
               | Some src \<Rightarrow>
                   copyfile (default_file_mode e) f src (join_str prebuilt_path ''dtbo.img'')),
         (\<lambda>f. write_text (default_file_mode e) f
                 (join_str device_tree_folder ''recovery.fstab'')
                 (format_fstab e (dt_fstab self))) ]
       @ map (\<lambda>init_rc f.
                copyfile (default_file_mode e) f init_rc
                  (join_str recovery_root_path (name_of init_rc)))
           (init_rcs self))"

section \<open>The snapshot\<close>

text \<open>
  The state of \<^verbatim>\<open>git\<close>: a repository has its own configuration and its commits
  (their messages). Configuration set outside the repository (system and user level) is
  \<open>git_outer\<close>; the program never writes it. A reader sees the repository's value of an
  option when there is one, and the outer value otherwise.
\<close>

record git_repo =
  repo_config :: "(string \<times> string) \<Rightarrow> string option"
  commits :: "string list"

record world =
  files :: fs
  git_outer :: "(string \<times> string) \<Rightarrow> string option"
  repos :: "path \<Rightarrow> git_repo option"

definition empty_repo :: git_repo where
  "empty_repo = \<lparr> repo_config = Map.empty, commits = [] \<rparr>"

text \<open>\<^verbatim>\<open>Repo.init\<close>: an existing repository is reused, a missing one is created.\<close>

definition Repo_init :: "env \<Rightarrow> world \<Rightarrow> path \<Rightarrow> error + world" where
  "Repo_init e w folder =
     (case files w (join_str folder ''.git'') of
        Some (Dir _) \<Rightarrow>
          Inr (case repos w folder of
                 Some _ \<Rightarrow> w
               | None \<Rightarrow> w\<lparr>repos := (repos w)(folder \<mapsto> empty_repo)\<rparr>)
      | Some (File _ _) \<Rightarrow> Inl (GitCommandError (path_str folder))
      | None \<Rightarrow>
          Inr (w\<lparr>files := (files w)(join_str folder ''.git'' \<mapsto> Dir (default_dir_mode e)),
                 repos := (repos w)(folder \<mapsto> empty_repo)\<rparr>))"

text \<open>\<^verbatim>\<open>config_reader().get_value(section, option)\<close>: a missing option raises.\<close>

definition get_value :: "world \<Rightarrow> path \<Rightarrow> string \<Rightarrow> string \<Rightarrow> error + string" where
  "get_value w folder sec opt =
     (case (case repos w folder of None \<Rightarrow> None | Some r \<Rightarrow> repo_config r (sec, opt)) of
        Some v \<Rightarrow> Inr v
      | None \<Rightarrow>
          (case git_outer w (sec, opt) of
             Some v \<Rightarrow> Inr v
           | None \<Rightarrow> Inl (CollaboratorError (''No option '' @ opt @ '' in section '' @ sec))))"

text \<open>\<^verbatim>\<open>config_writer().set_value(section, option, value)\<close>, at the repository's level.\<close>

definition set_value :: "world \<Rightarrow> path \<Rightarrow> string \<Rightarrow> string \<Rightarrow> string \<Rightarrow> world" where
  "set_value w folder sec opt v =
     (case repos w folder of
        None \<Rightarrow> w
      | Some r \<Rightarrow>
          w\<lparr>repos := (repos w)(folder \<mapsto> r\<lparr>repo_config := (repo_config r)((sec, opt) \<mapsto> v)\<rparr>)\<rparr>)"

text \<open>\<^verbatim>\<open>index.add(["*"])\<close> followed by \<^verbatim>\<open>index.commit(message)\<close>.\<close>

definition index_commit :: "world \<Rightarrow> path \<Rightarrow> string \<Rightarrow> world" where
  "index_commit w folder msg =
     (case repos w folder of
        None \<Rightarrow> w
      | Some r \<Rightarrow> w\<lparr>repos := (repos w)(folder \<mapsto> r\<lparr>commits := commits r @ [msg]\<rparr>)\<rparr>)"

text \<open>
  The identity read in the \<^verbatim>\<open>try\<close> block: when either \<^verbatim>\<open>get_value\<close> raises, both
  variables are set to \<^verbatim>\<open>None\<close>.
\<close>

definition read_identity :: "world \<Rightarrow> path \<Rightarrow> string option \<times> string option" where
  "read_identity w folder =
     (case get_value w folder ''user'' ''email'' of
        Inl _ \<Rightarrow> (None, None)
      | Inr git_global_email \<Rightarrow>
          (case get_value w folder ''user'' ''name'' of
             Inl _ \<Rightarrow> (None, None)
           | Inr git_global_name \<Rightarrow> (Some git_global_email, Some git_global_name)))"

text \<open>The part of \<^verbatim>\<open>dump_to_folder\<close> after the test of \<^verbatim>\<open>git\<close>.\<close>

definition git_snapshot :: "env \<Rightarrow> device_tree \<Rightarrow> path \<Rightarrow> world \<Rightarrow> (error + path) \<times> world" where
  "git_snapshot e self device_tree_folder w =
     (case Repo_init e w device_tree_folder of
        Inl err \<Rightarrow> (Inl err, w)
      | Inr w1 \<Rightarrow>
          (case read_identity w1 device_tree_folder of
             (git_global_email, git_global_name) \<Rightarrow>
               (let w2 = (if git_global_email = None \<or> git_global_name = None
                          then set_value
                                 (set_value w1 device_tree_folder ''user'' ''email''
                                    ''barezzisebastiano@gmail.com'')
                                 device_tree_folder ''user'' ''name'' ''Sebastiano Barezzi''
                          else w1);
                    commit_message =
                      render_template_text e ''commit_message'' (make_ctx e self ''#'')
                in (Inr device_tree_folder,
                    index_commit w2 device_tree_folder commit_message))))"

text \<open>
  \<^verbatim>\<open>DeviceTree.dump_to_folder\<close>: the exception raised or the path returned, and the
  world the run leaves.
\<close>

definition dump_to_folder ::
  "env \<Rightarrow> device_tree \<Rightarrow> world \<Rightarrow> path \<Rightarrow> bool \<Rightarrow> (error + path) \<times> world" where
  "dump_to_folder e self w output_path git =
     (let device_tree_folder =
            join_str (join_str output_path (manufacturer (dt_device_info self)))
              (codename (dt_device_info self))
      in (case run_steps (assembly e self device_tree_folder) (files w) of
            (Some err, f') \<Rightarrow> (Inl err, w\<lparr>files := f'\<rparr>)
          | (None, f') \<Rightarrow>
              if \<not> git then (Inr device_tree_folder, w\<lparr>files := f'\<rparr>)
              else git_snapshot e self device_tree_folder (w\<lparr>files := f'\<rparr>)))"

section \<open>Notions used in the statements\<close>

text \<open>
  A component of a \<^verbatim>\<open>pathlib\<close> path is never empty, never a single dot, and holds no
  slash; the entry names a directory listing yields are of this kind.
\<close>

definition plain :: "string \<Rightarrow> bool" where
  "plain n = (n \<noteq> [] \<and> n \<noteq> ''.'' \<and> CHR ''/'' \<notin> set n)"

text \<open>An entry below a directory exists only when the directory exists.\<close>

definition no_orphans :: "fs \<Rightarrow> path \<Rightarrow> bool" where
  "no_orphans f d = (\<forall>p. beneath d p \<longrightarrow> exists_p f p \<longrightarrow> exists_p f d)"

text \<open>The content of a regular file, the empty string elsewhere.\<close>

definition content_of :: "fs \<Rightarrow> path \<Rightarrow> string" where
  "content_of f p = (case f p of Some (File c _) \<Rightarrow> c | _ \<Rightarrow> [])"

text \<open>The file system after the deletion attempt that opens \<^verbatim>\<open>dump_to_folder\<close>.\<close>

definition after_rmtree :: "env \<Rightarrow> fs \<Rightarrow> path \<Rightarrow> fs" where
  "after_rmtree e f d =
     (if is_dir f d then rmtree_ignore_errors (undeletable e) f d else f)"


text \<open>
  The tree a run builds in a fresh target directory \<open>d\<close>, written out entry by entry:
  the three directories and the ten rendered files (the two scripts with the mode set
  by \<^verbatim>\<open>chmod\<close>), then the artifacts that are present, the partition table, and the
  boot scripts in the order of the list. Contents of copied files are read in \<open>src\<close>.
\<close>

definition base_tree :: "env \<Rightarrow> device_tree \<Rightarrow> path \<Rightarrow> fs \<Rightarrow> fs" where
  "base_tree e self d f =
     f(child d ''prebuilt'' \<mapsto> Dir (default_dir_mode e),
       child d ''recovery'' \<mapsto> Dir (default_dir_mode e),
       child (child d ''recovery'') ''root'' \<mapsto> Dir (default_dir_mode e),
       child d ''Android.bp'' \<mapsto>
         File (render e ''Android.bp'' (make_ctx e self ''//'')) (default_file_mode e),
       child d ''Android.mk'' \<mapsto>
         File (render e ''Android.mk'' (make_ctx e self ''#'')) (default_file_mode e),
       child d ''AndroidProducts.mk'' \<mapsto>
         File (render e ''AndroidProducts.mk'' (make_ctx e self ''#'')) (default_file_mode e),
       child d ''BoardConfig.mk'' \<mapsto>
         File (render e ''BoardConfig.mk'' (make_ctx e self ''#'')) (default_file_mode e),
       child d ''device.mk'' \<mapsto>
         File (render e ''device.mk'' (make_ctx e self ''#'')) (default_file_mode e),
       child d (''omni_'' @ codename (dt_device_info self) @ ''.mk'') \<mapsto>
         File (render e ''omni_device.mk'' (make_ctx e self ''#'')) (default_file_mode e),
       child d ''README.md'' \<mapsto>
         File (render e ''README.md'' (make_ctx e self ''#'')) (default_file_mode e),
       child d ''vendorsetup.sh'' \<mapsto>
         File (render e ''vendorsetup.sh'' (make_ctx e self ''#'')) (default_file_mode e),
       child d ''extract-files.sh'' \<mapsto>
         File (render e ''extract-files.sh'' (make_ctx e self ''#''))
           (S_IRWXU OR S_IRGRP OR S_IROTH),
       child d ''setup-makefiles.sh'' \<mapsto>
         File (render e ''setup-makefiles.sh'' (make_ctx e self ''#''))
           (S_IRWXU OR S_IRGRP OR S_IROTH))"

definition artifact_node :: "env \<Rightarrow> fs \<Rightarrow> path option \<Rightarrow> node option" where
  "artifact_node e src k =
     (case k of None \<Rightarrow> None
      | Some p \<Rightarrow> Some (File (content_of src p) (default_file_mode e)))"

definition with_prebuilts :: "env \<Rightarrow> device_tree \<Rightarrow> path \<Rightarrow> fs \<Rightarrow> fs \<Rightarrow> fs" where
  "with_prebuilts e self d src f =
     f(child (child d ''prebuilt'') ''kernel'' := artifact_node e src (kernel (dt_image_info self)),
       child (child d ''prebuilt'') ''dt.img'' := artifact_node e src (dt (dt_image_info self)),
       child (child d ''prebuilt'') ''dtb.img'' := artifact_node e src (dtb (dt_image_info self)),
       child (child d ''prebuilt'') ''dtbo.img'' := artifact_node e src (dtbo (dt_image_info self)))"

definition with_fstab :: "env \<Rightarrow> device_tree \<Rightarrow> path \<Rightarrow> fs \<Rightarrow> fs" where
  "with_fstab e self d f =
     f(child d ''recovery.fstab'' \<mapsto>
         File (format_fstab e (dt_fstab self)) (default_file_mode e))"

definition with_scripts :: "env \<Rightarrow> path \<Rightarrow> fs \<Rightarrow> path list \<Rightarrow> fs \<Rightarrow> fs" where
  "with_scripts e d src rcs f =
     foldl (\<lambda>h rc. h(child (child (child d ''recovery'') ''root'') (name_of rc) \<mapsto>
                        File (content_of src rc) (default_file_mode e)))
       f rcs"

definition generated :: "env \<Rightarrow> device_tree \<Rightarrow> path \<Rightarrow> fs \<Rightarrow> fs" where
  "generated e self d f =
     with_scripts e d f (init_rcs self)
       (with_fstab e self d (with_prebuilts e self d f (base_tree e self d f)))"

section \<open>A concrete run\<close>

text \<open>
  An unpacked image on disk and concrete collaborators, on which the theorems below are
  instantiated.
\<close>

definition demo_ramdisk :: path where
  "demo_ramdisk = Path ''/'' [''tmp'', ''aik'', ''ramdisk'']"

definition demo_image :: path where
  "demo_image = Path ''/'' [''tmp'', ''aik'', ''boot.img'']"

definition demo_info :: "path \<Rightarrow> image_info" where
  "demo_info img =
     \<lparr> kernel = Some (child (parent img) ''kernel.bin''), dt = None, dtb = None, dtbo = None,
       ramdisk = Some (child (parent img) ''ramdisk''), vendor_ramdisk = None \<rparr>"

definition demo_env :: env where
  "demo_env =
     \<lparr> unpackimg = (\<lambda>f img. Inr (demo_info img, f)),
       import_props = (\<lambda>bp c. bp @ [(takeWhile (\<lambda>x. x \<noteq> CHR ''='') c,
                                     drop 1 (dropWhile (\<lambda>x. x \<noteq> CHR ''='') c))]),
       make_device_info = (\<lambda>bp. case map_of bp ''ro.product.device'' of
                                   None \<Rightarrow> Inl (AssertionError ''no codename'')
                                 | Some cn \<Rightarrow> Inr \<lparr> manufacturer = ''acme'', codename = cn \<rparr>),
       parse_fstab = (\<lambda>c. if c = [] then Inl (CollaboratorError ''empty fstab'') else Inr [c]),
       format_fstab = concat,
       iterdir = (\<lambda>d. if d = Path ''/'' [''tmp'', ''aik'', ''ramdisk'']
                       then [''init.rc'', ''init.usb.rc'', ''ueventd.rc'']
                       else if d = Path ''/'' [''tmp'', ''aik'', ''ramdisk'', ''vendor'', ''etc'', ''init'']
                       then [''init.usb.rc'', ''notes.txt'']
                       else []),
       now_year = 2022,
       render = (\<lambda>t ctx. comment_prefix ctx @ '' '' @ t),
       version = ''3.0'',
       umask = 18,
       undeletable = [] \<rparr>"

definition demo_fs :: fs where
  "demo_fs = map_of
     [ (Path ''/'' [], Dir 493),
       (Path ''/'' [''tmp''], Dir 493),
       (Path ''/'' [''tmp'', ''aik''], Dir 493),
       (Path ''/'' [''tmp'', ''aik'', ''boot.img''], File ''ANDROID!'' 420),
       (Path ''/'' [''tmp'', ''aik'', ''kernel.bin''], File ''zImage'' 420),
       (Path ''/'' [''tmp'', ''aik'', ''ramdisk''], Dir 493),
       (Path ''/'' [''tmp'', ''aik'', ''ramdisk'', ''prop.default''],
          File ''ro.product.device=alpha'' 420),
       (Path ''/'' [''tmp'', ''aik'', ''ramdisk'', ''init.rc''], File ''main'' 420),
       (Path ''/'' [''tmp'', ''aik'', ''ramdisk'', ''init.usb.rc''], File ''usb root'' 420),
       (Path ''/'' [''tmp'', ''aik'', ''ramdisk'', ''ueventd.rc''], File ''uevent'' 420),
       (Path ''/'' [''tmp'', ''aik'', ''ramdisk'', ''system''], Dir 493),
       (Path ''/'' [''tmp'', ''aik'', ''ramdisk'', ''system'', ''build.prop''],
          File ''ro.product.device=beta'' 420),
       (Path ''/'' [''tmp'', ''aik'', ''ramdisk'', ''system'', ''etc''], Dir 493),
       (Path ''/'' [''tmp'', ''aik'', ''ramdisk'', ''system'', ''etc'', ''recovery.fstab''],
          File ''/data ext4'' 420),
       (Path ''/'' [''tmp'', ''aik'', ''ramdisk'', ''vendor''], Dir 493),
       (Path ''/'' [''tmp'', ''aik'', ''ramdisk'', ''vendor'', ''etc''], Dir 493),
       (Path ''/'' [''tmp'', ''aik'', ''ramdisk'', ''vendor'', ''etc'', ''recovery.fstab''],
          File ''/data f2fs'' 420),
       (Path ''/'' [''tmp'', ''aik'', ''ramdisk'', ''vendor'', ''etc'', ''init''], Dir 493),
       (Path ''/'' [''tmp'', ''aik'', ''ramdisk'', ''vendor'', ''etc'', ''init'', ''init.usb.rc''],
          File ''usb vendor'' 420),
       (Path ''/'' [''tmp'', ''aik'', ''ramdisk'', ''vendor'', ''etc'', ''init'', ''notes.txt''],
          File ''n'' 420),
       (Path ''/'' [''tmp'', ''aik'', ''odm''], Dir 493),
       (Path ''/'' [''tmp'', ''aik'', ''odm'', ''build.prop''],
          File ''ro.product.device=gamma'' 420) ]"

definition demo_fs_nofstab :: fs where
  "demo_fs_nofstab =
     demo_fs
       (Path ''/'' [''tmp'', ''aik'', ''ramdisk'', ''system'', ''etc'', ''recovery.fstab''] := None,
        Path ''/'' [''tmp'', ''aik'', ''ramdisk'', ''vendor'', ''etc'', ''recovery.fstab''] := None)"

definition demo_fs_badfstab :: fs where
  "demo_fs_badfstab =
     demo_fs
       (Path ''/'' [''tmp'', ''aik'', ''ramdisk'', ''etc''] \<mapsto> Dir 493,
        Path ''/'' [''tmp'', ''aik'', ''ramdisk'', ''etc'', ''recovery.fstab''] \<mapsto> File [] 420)"

definition deep_fs :: fs where
  "deep_fs = map_of
     [ (Path ''/'' [], Dir 493),
       (Path ''/'' [''a''], Dir 493),
       (Path ''/'' [''a'', ''b''], Dir 493),
       (Path ''/'' [''a'', ''b'', ''ramdisk''], Dir 493) ]"

definition bare_fs :: fs where
  "bare_fs = map_of
     [ (Path ''/'' [], Dir 493),
       (Path ''/'' [''a''], Dir 493),
       (Path ''/'' [''a'', ''boot.img''], File ''ANDROID!'' 420),
       (Path ''/'' [''a'', ''ramdisk''], Dir 493),
       (Path ''/'' [''b''], Dir 493),
       (Path ''/'' [''b'', ''boot.img''], File ''ANDROID!'' 420),
       (Path ''/'' [''b'', ''ramdisk''], Dir 493),
       (Path ''/'' [''c''], Dir 493),
       (Path ''/'' [''c'', ''boot.img''], File ''ANDROID!'' 420),
       (Path ''/'' [''c'', ''ramdisk''], Dir 493),
       (Path ''/'' [''c'', ''ramdisk'', ''default.prop''], File ''ro.product.device=gamma'' 420),
       (Path ''/'' [''d''], Dir 493),
       (Path ''/'' [''d'', ''boot.img''], File ''ANDROID!'' 420),
       (Path ''/'' [''d'', ''ramdisk''], Dir 493),
       (Path ''/'' [''d'', ''ramdisk'', ''default.prop''], File ''ro.product.device=delta'' 420) ]"

definition demo_tree :: device_tree where
  "demo_tree =
     \<lparr> image = demo_image,
       current_year = ''2022'',
       dt_image_info = demo_info demo_image,
       build_prop = [(''ro.product.device'', ''alpha'')],
       dt_device_info = \<lparr> manufacturer = ''acme'', codename = ''alpha'' \<rparr>,
       dt_fstab = [''/data ext4''],
       init_rcs =
         [Path ''/'' [''tmp'', ''aik'', ''ramdisk'', ''init.usb.rc''],
          Path ''/'' [''tmp'', ''aik'', ''ramdisk'', ''ueventd.rc''],
          Path ''/'' [''tmp'', ''aik'', ''ramdisk'', ''vendor'', ''etc'', ''init'', ''init.usb.rc'']]
     \<rparr>"

definition demo_out :: path where
  "demo_out = Path ''/'' [''out'']"

definition demo_folder :: path where
  "demo_folder = Path ''/'' [''out'', ''acme'', ''alpha'']"

definition stale_fs :: fs where
  "stale_fs =
     demo_fs
       (Path ''/'' [''out''] \<mapsto> Dir 493,
        Path ''/'' [''out'', ''acme''] \<mapsto> Dir 493,
        Path ''/'' [''out'', ''acme'', ''alpha''] \<mapsto> Dir 493,
        Path ''/'' [''out'', ''acme'', ''alpha'', ''stale.txt''] \<mapsto> File ''old'' 420)"

definition demo_world :: "fs \<Rightarrow> world" where
  "demo_world f = \<lparr> files = f, git_outer = Map.empty, repos = Map.empty \<rparr>"

definition stuck_env :: env where
  "stuck_env = demo_env \<lparr> undeletable := [Path ''/'' [''out'', ''acme'', ''alpha'', ''stale.txt'']] \<rparr>"

definition demo_made :: fs where
  "demo_made =
     demo_fs
       (Path ''/'' [''out''] \<mapsto> Dir 493,
        Path ''/'' [''out'', ''acme''] \<mapsto> Dir 493,
        Path ''/'' [''out'', ''acme'', ''alpha''] \<mapsto> Dir 493)"

definition stale_made :: fs where
  "stale_made =
     (after_rmtree demo_env stale_fs demo_folder) (demo_folder \<mapsto> Dir 493)"

definition no_artifacts_tree :: device_tree where
  "no_artifacts_tree =
     demo_tree \<lparr> dt_image_info :=
       \<lparr> kernel = None, dt = None, dtb = None, dtbo = None,
         ramdisk = Some demo_ramdisk, vendor_ramdisk = None \<rparr> \<rparr>"

definition configured_world :: world where
  "configured_world =
     \<lparr> files = demo_fs,
       git_outer = [(''user'', ''email'') \<mapsto> ''dev@example.org'', (''user'', ''name'') \<mapsto> ''Dev''],
       repos = Map.empty \<rparr>"

definition partial_world :: world where
  "partial_world =
     \<lparr> files = demo_fs,
       git_outer = [(''user'', ''email'') \<mapsto> ''dev@example.org''],
       repos = Map.empty \<rparr>"

section \<open>Paths and candidate lists\<close>

lemma split_slash_noslash: "CHR ''/'' \<notin> set s \<Longrightarrow> split_slash s = [s]"
  by (induction s) auto

lemma anchor_of_noslash: "CHR ''/'' \<notin> set s \<Longrightarrow> anchor_of s = []"
  by (cases s) (auto simp: anchor_of_def)

lemma join_str_plain:
  "CHR ''/'' \<notin> set s \<Longrightarrow> s \<noteq> [] \<Longrightarrow> s \<noteq> ''.'' \<Longrightarrow> join_str p s = child p s"
  by (simp add: join_str_def joinpath_def parse_path_def split_slash_noslash anchor_of_noslash child_def)

lemma BUILDPROP_LOCATIONS_eq:
  "BUILDPROP_LOCATIONS =
     [Path [] [''default.prop''], Path [] [''prop.default''],
      Path [] [''system'', ''build.prop''], Path [] [''vendor'', ''build.prop''],
      Path [] [''system'', ''etc'', ''build.prop''], Path [] [''vendor'', ''etc'', ''build.prop'']]"
  by (simp add: BUILDPROP_LOCATIONS_def join_str_plain child_def Path_empty_def)

lemma extended_locations_eq:
  "extended_locations d = map (\<lambda>ws. Path (anchor d) (parts d @ ws))
     [[''system'', ''system'', ''build.prop''],
      [''system'', ''build.prop''],
      [''vendor'', ''build.prop''],
      [''vendor_boot'', ''ramdisk'', ''default.prop''],
      [''vendor_boot'', ''ramdisk'', ''prop.default''],
      [''vendor_boot'', ''ramdisk'', ''build.prop''],
      [''vendor_boot'', ''ramdisk'', ''system'', ''build.prop''],
      [''vendor_boot'', ''ramdisk'', ''vendor'', ''build.prop''],
      [''system'', ''etc'', ''build.prop''],
      [''vendor'', ''etc'', ''build.prop''],
      [''product'', ''build.prop''],
      [''system_ext'', ''build.prop''],
      [''odm'', ''build.prop''],
      [''boot'', ''ramdisk'', ''default.prop''],
      [''boot'', ''ramdisk'', ''prop.default''],
      [''recovery'', ''ramdisk'', ''default.prop''],
      [''recovery'', ''ramdisk'', ''prop.default'']]"
  by (simp add: extended_locations_def join_str_plain child_def)

lemma foldl_snoc_map: "foldl (\<lambda>acc x. acc @ [g x]) acc xs = acc @ map g xs"
  by (induction xs arbitrary: acc) auto

lemma foldl_extend_filter:
  "foldl (\<lambda>acc d. if \<not> P d then acc else acc @ g d) acc ds = acc @ concat (map g (filter P ds))"
  by (induction ds arbitrary: acc) auto

lemma locations_closed_form:
  "get_extended_buildprop_locations f base_path =
     map (joinpath base_path) BUILDPROP_LOCATIONS
     @ concat (map extended_locations
         (filter (exists_p f)
            [parent base_path, parent (parent base_path), parent (parent (parent base_path))]))"
  unfolding get_extended_buildprop_locations_def Let_def foldl_snoc_map foldl_extend_filter
  by simp

section \<open>The discovery loops\<close>

lemma load_build_prop_skip:
  "\<forall>q\<in>set pre. \<not> is_file f q \<Longrightarrow>
   load_build_prop e f bp (pre @ rest) =
     (case load_build_prop e f bp rest of (evs, r) \<Rightarrow> (map Probe pre @ evs, r))"
  by (induction pre) (auto simp: is_file_def split: option.splits node.splits prod.splits)

lemma load_build_prop_none:
  "\<forall>q\<in>set L. \<not> is_file f q \<Longrightarrow> load_build_prop e f bp L = (map Probe L, bp, False)"
  by (induction L) (auto simp: is_file_def split: option.splits node.splits)

lemma load_build_prop_hit:
  "\<forall>q\<in>set pre. \<not> is_file f q \<Longrightarrow> f p = Some (File c m) \<Longrightarrow>
   load_build_prop e f bp (pre @ p # post) =
     (map Probe pre @ [Probe p, LOGD (''Loading build.prop from '' @ path_str p), Read p],
      import_props e bp c, True)"
  by (simp add: load_build_prop_skip)

lemma find_fstab_skip:
  "\<forall>q\<in>set pre. \<not> is_file f q \<Longrightarrow>
   find_fstab e f (pre @ rest) =
     (case find_fstab e f rest of (evs, r) \<Rightarrow> (map Probe pre @ evs, r))"
  by (induction pre) (auto simp: is_file_def split: option.splits node.splits prod.splits)

lemma find_fstab_none:
  "\<forall>q\<in>set L. \<not> is_file f q \<Longrightarrow> find_fstab e f L = (map Probe L, Inr None)"
  by (induction L) (auto simp: is_file_def split: option.splits node.splits)

lemma find_fstab_hit:
  "\<forall>q\<in>set pre. \<not> is_file f q \<Longrightarrow> f p = Some (File c m) \<Longrightarrow>
   find_fstab e f (pre @ p # post) =
     (map Probe pre
      @ [Probe p, LOGD (''Generating fstab using '' @ path_str p @ '' as reference...''), Read p],
      (case parse_fstab e c of Inl err \<Rightarrow> Inl err | Inr tab \<Rightarrow> Inr (Some tab)))"
  by (simp add: find_fstab_skip)

lemma find_fstab_reads: "Read q \<in> set (fst (find_fstab e f L)) \<Longrightarrow> q \<in> set L"
  by (induction L) (auto split: option.splits node.splits prod.splits)

lemma select_ramdisk_logs:
  "select_ramdisk f info = Inr (ev1, rd) \<Longrightarrow> Read q \<notin> set ev1"
  by (auto simp: select_ramdisk_def split: option.splits if_splits)

lemma FSTAB_LOCATIONS_eq:
  "FSTAB_LOCATIONS =
     [Path [] [''etc'', ''recovery.fstab''],
      Path [] [''system'', ''etc'', ''recovery.fstab''],
      Path [] [''vendor'', ''etc'', ''recovery.fstab'']]"
  by (simp add: FSTAB_LOCATIONS_def join_str_plain child_def Path_empty_def)

lemma fstab_candidates:
  "map (joinpath rd) FSTAB_LOCATIONS =
     [Path (anchor rd) (parts rd @ [''etc'', ''recovery.fstab'']),
      Path (anchor rd) (parts rd @ [''system'', ''etc'', ''recovery.fstab'']),
      Path (anchor rd) (parts rd @ [''vendor'', ''etc'', ''recovery.fstab''])]"
  by (simp add: FSTAB_LOCATIONS_eq joinpath_def)

lemma init_no_build_prop:
  assumes "is_file f0 img" and "unpackimg e f0 img = Inr (info, f)"
    and "select_ramdisk f info = Inr (ev1, rd)"
    and "\<forall>q\<in>set (get_extended_buildprop_locations f rd). \<not> is_file f q"
  shows "DeviceTree_init e f0 img =
           (ev1 @ [LOGD ''Getting device infos...'',
                   LOGD (''Searching for build.prop in ''
                         @ str_nat (length (get_extended_buildprop_locations f rd))
                         @ '' locations...'')]
              @ map Probe (get_extended_buildprop_locations f rd)
              @ LOGD ''Searched locations:''
                # map (searched_line f) (get_extended_buildprop_locations f rd),
            f,
            Inl (AssertionError ''No build.prop file found in any of the searched locations''))"
  using assms by (simp add: DeviceTree_init_def Let_def load_build_prop_none)

lemma init_no_fstab:
  assumes "is_file f0 img" and "unpackimg e f0 img = Inr (info, f)"
    and "select_ramdisk f info = Inr (ev1, rd)"
    and "load_build_prop e f [] (get_extended_buildprop_locations f rd) = (ev3, bp, True)"
    and "make_device_info e bp = Inr di"
    and "\<forall>q\<in>set (map (joinpath rd) FSTAB_LOCATIONS). \<not> is_file f q"
  shows "DeviceTree_init e f0 img =
           (ev1 @ [LOGD ''Getting device infos...'',
                   LOGD (''Searching for build.prop in ''
                         @ str_nat (length (get_extended_buildprop_locations f rd))
                         @ '' locations...'')]
              @ ev3 @ map Probe (map (joinpath rd) FSTAB_LOCATIONS),
            f, Inl (AssertionError ''fstab not found''))"
  using assms(1-5) find_fstab_none [OF assms(6), of e]
  by (simp add: DeviceTree_init_def Let_def)

lemma init_found:
  assumes "is_file f0 img" and "unpackimg e f0 img = Inr (info, f)"
    and "select_ramdisk f info = Inr (ev1, rd)"
    and "load_build_prop e f [] (get_extended_buildprop_locations f rd) = (ev3, bp, True)"
  shows "DeviceTree_init e f0 img =
           (case make_device_info e bp of
              Inl err \<Rightarrow>
                (ev1 @ [LOGD ''Getting device infos...'',
                        LOGD (''Searching for build.prop in ''
                              @ str_nat (length (get_extended_buildprop_locations f rd))
                              @ '' locations...'')] @ ev3,
                 f, Inl err)
            | Inr di \<Rightarrow>
                (ev1 @ [LOGD ''Getting device infos...'',
                        LOGD (''Searching for build.prop in ''
                              @ str_nat (length (get_extended_buildprop_locations f rd))
                              @ '' locations...'')] @ ev3
                   @ fst (find_fstab e f (map (joinpath rd) FSTAB_LOCATIONS)),
                 f,
                 (case snd (find_fstab e f (map (joinpath rd) FSTAB_LOCATIONS)) of
                    Inl err \<Rightarrow> Inl err
                  | Inr None \<Rightarrow> Inl (AssertionError ''fstab not found'')
                  | Inr (Some tab) \<Rightarrow>
                      Inr \<lparr> image = img,
                            current_year = str_nat (now_year e),
                            dt_image_info = info,
                            build_prop = bp,
                            dt_device_info = di,
                            dt_fstab = tab,
                            init_rcs = collect_init_rcs e f rd \<rparr>)))"
  using assms
  by (simp add: DeviceTree_init_def Let_def split: sum.splits prod.splits option.splits)

lemma init_build_prop:
  assumes "is_file f0 img" and "unpackimg e f0 img = Inr (info, f)"
    and "select_ramdisk f info = Inr (ev1, rd)"
    and "load_build_prop e f [] (get_extended_buildprop_locations f rd) = (ev3, bp, b)"
    and "snd (snd (DeviceTree_init e f0 img)) = Inr t"
  shows "build_prop t = bp"
  using assms
  by (auto simp: DeviceTree_init_def Let_def split: if_splits sum.splits prod.splits option.splits)

lemma name_of_append: "ws \<noteq> [] \<Longrightarrow> name_of (Path a (ps @ ws)) = last ws"
  by (simp add: name_of_def)

lemma property_candidate_names:
  "q \<in> set (get_extended_buildprop_locations f rd) \<Longrightarrow>
   name_of q \<in> {''default.prop'', ''prop.default'', ''build.prop''}"
  by (auto simp: locations_closed_form BUILDPROP_LOCATIONS_eq extended_locations_eq
        joinpath_def name_of_append split: if_splits)

lemma fstab_candidate_names:
  "q \<in> set (map (joinpath rd) FSTAB_LOCATIONS) \<Longrightarrow> name_of q = ''recovery.fstab''"
  by (auto simp: fstab_candidates name_of_append)

lemma locations_prefix:
  "get_extended_buildprop_locations f (Path a ps) =
     Path a (ps @ [''default.prop''])
     # Path a (ps @ [''prop.default''])
     # drop 2 (get_extended_buildprop_locations f (Path a ps))"
  by (simp add: locations_closed_form BUILDPROP_LOCATIONS_eq joinpath_def)

lemma locations_length:
  "length (get_extended_buildprop_locations f base_path) =
     6 + 17 * length (filter (exists_p f)
           [parent base_path, parent (parent base_path), parent (parent (parent base_path))])"
  by (simp add: locations_closed_form BUILDPROP_LOCATIONS_eq extended_locations_eq
        length_concat o_def sum_list_const_mult)

section \<open>Discovery of the property file\<close>

text \<open>
  C1. Let the constructor have unpacked the image and chosen the ramdisk root, and let
  \<open>p\<close> be the first candidate of the list that is a regular file: the candidates
  \<open>pre\<close> before it are not, and nothing is assumed about the candidates \<open>post\<close> after
  it, where other property files may exist. Then the constructor probes the candidates
  up to \<open>p\<close> in the order of the list and no candidate after it, and reads \<open>p\<close>; what
  it does afterwards is the search for the partition table. In the whole run no
  candidate of the list other than \<open>p\<close> is read. When the device information can be
  made and a partition table is found, the constructor returns an object whose
  properties are those imported from the content of \<open>p\<close> alone; and whenever it
  returns an object, the properties are these.
\<close>

theorem property_file_first_match:
  assumes img: "is_file f0 img" and un: "unpackimg e f0 img = Inr (info, f)"
    and sel: "select_ramdisk f info = Inr (ev1, ramdisk_path)"
    and locs: "get_extended_buildprop_locations f ramdisk_path = pre @ p # post"
    and pre: "\<forall>q\<in>set pre. \<not> is_file f q"
    and hit: "f p = Some (File c m)"
  shows "fst (DeviceTree_init e f0 img) =
           ev1 @ [LOGD ''Getting device infos...'',
                  LOGD (''Searching for build.prop in '' @ str_nat (length (pre @ p # post))
                        @ '' locations...'')]
           @ map Probe pre
           @ [Probe p, LOGD (''Loading build.prop from '' @ path_str p), Read p]
           @ (case make_device_info e (import_props e [] c) of
                Inl err \<Rightarrow> []
              | Inr di \<Rightarrow> fst (find_fstab e f (map (joinpath ramdisk_path) FSTAB_LOCATIONS)))
         \<and> (\<forall>q\<in>set (pre @ p # post).
               Read q \<in> set (fst (DeviceTree_init e f0 img)) \<longrightarrow> q = p)
         \<and> (\<forall>di tab. make_device_info e (import_props e [] c) = Inr di
               \<and> snd (find_fstab e f (map (joinpath ramdisk_path) FSTAB_LOCATIONS))
                   = Inr (Some tab) \<longrightarrow>
             snd (snd (DeviceTree_init e f0 img)) =
               Inr \<lparr> image = img, current_year = str_nat (now_year e), dt_image_info = info,
                     build_prop = import_props e [] c, dt_device_info = di, dt_fstab = tab,
                     init_rcs = collect_init_rcs e f ramdisk_path \<rparr>)
         \<and> (\<forall>t. snd (snd (DeviceTree_init e f0 img)) = Inr t
               \<longrightarrow> build_prop t = import_props e [] c)"
proof -
  let ?evP = "map Probe pre @ [Probe p, LOGD (''Loading build.prop from '' @ path_str p), Read p]"
  let ?cands = "map (joinpath ramdisk_path) FSTAB_LOCATIONS"
  have l: "load_build_prop e f [] (get_extended_buildprop_locations f ramdisk_path) =
             (?evP, import_props e [] c, True)"
    using pre hit by (simp add: locs load_build_prop_hit)
  note i = init_found [OF img un sel l, unfolded locs]
  have a: "fst (DeviceTree_init e f0 img) =
           ev1 @ [LOGD ''Getting device infos...'',
                  LOGD (''Searching for build.prop in '' @ str_nat (length (pre @ p # post))
                        @ '' locations...'')]
           @ map Probe pre
           @ [Probe p, LOGD (''Loading build.prop from '' @ path_str p), Read p]
           @ (case make_device_info e (import_props e [] c) of
                Inl err \<Rightarrow> []
              | Inr di \<Rightarrow> fst (find_fstab e f ?cands))"
    unfolding i by (simp split: sum.splits)
  have b: "\<forall>q\<in>set (pre @ p # post).
             Read q \<in> set (fst (DeviceTree_init e f0 img)) \<longrightarrow> q = p"
  proof (intro ballI impI)
    fix q
    assume q: "q \<in> set (pre @ p # post)"
      and r: "Read q \<in> set (fst (DeviceTree_init e f0 img))"
    have n: "name_of q \<noteq> ''recovery.fstab''"
      using property_candidate_names [of q f ramdisk_path] q by (auto simp: locs)
    have "q \<notin> set ?cands"
      using fstab_candidate_names [of q ramdisk_path] n by blast
    then have "Read q \<notin> set (fst (find_fstab e f ?cands))"
      using find_fstab_reads by blast
    moreover have "Read q \<notin> set ev1"
      by (rule select_ramdisk_logs [OF sel])
    ultimately show "q = p"
      using r unfolding a by (auto split: sum.splits)
  qed
  have c: "\<forall>di tab. make_device_info e (import_props e [] c) = Inr di
               \<and> snd (find_fstab e f ?cands) = Inr (Some tab) \<longrightarrow>
             snd (snd (DeviceTree_init e f0 img)) =
               Inr \<lparr> image = img, current_year = str_nat (now_year e), dt_image_info = info,
                     build_prop = import_props e [] c, dt_device_info = di, dt_fstab = tab,
                     init_rcs = collect_init_rcs e f ramdisk_path \<rparr>"
    unfolding i by simp
  have d: "\<forall>t. snd (snd (DeviceTree_init e f0 img)) = Inr t
               \<longrightarrow> build_prop t = import_props e [] c"
    using init_build_prop [OF img un sel l] by blast
  show ?thesis
    by (intro conjI) (fact a b c d)+
qed

section \<open>The extended candidate list\<close>

text \<open>
  C3, as the code has it. The list of candidates is the six ramdisk-relative ones
  followed, for each of the three directories above the ramdisk root (its parent, the
  parent's parent and the directory above that, in this order) that exists, by the
  seventeen extended locations below that directory, in their fixed order. The ramdisk
  root itself is not one of the three directories.
\<close>

theorem extended_locations_order:
  "get_extended_buildprop_locations f base_path =
     map (joinpath base_path) BUILDPROP_LOCATIONS
     @ concat (map (\<lambda>d. map (\<lambda>ws. Path (anchor d) (parts d @ ws))
                 [[''system'', ''system'', ''build.prop''],
                  [''system'', ''build.prop''],
                  [''vendor'', ''build.prop''],
                  [''vendor_boot'', ''ramdisk'', ''default.prop''],
                  [''vendor_boot'', ''ramdisk'', ''prop.default''],
                  [''vendor_boot'', ''ramdisk'', ''build.prop''],
                  [''vendor_boot'', ''ramdisk'', ''system'', ''build.prop''],
                  [''vendor_boot'', ''ramdisk'', ''vendor'', ''build.prop''],
                  [''system'', ''etc'', ''build.prop''],
                  [''vendor'', ''etc'', ''build.prop''],
                  [''product'', ''build.prop''],
                  [''system_ext'', ''build.prop''],
                  [''odm'', ''build.prop''],
                  [''boot'', ''ramdisk'', ''default.prop''],
                  [''boot'', ''ramdisk'', ''prop.default''],
                  [''recovery'', ''ramdisk'', ''default.prop''],
                  [''recovery'', ''ramdisk'', ''prop.default'']])
         (filter (exists_p f)
            [parent base_path, parent (parent base_path),
             parent (parent (parent base_path))]))"
proof -
  have "extended_locations = (\<lambda>d. map (\<lambda>ws. Path (anchor d) (parts d @ ws))
                 [[''system'', ''system'', ''build.prop''],
                  [''system'', ''build.prop''],
                  [''vendor'', ''build.prop''],
                  [''vendor_boot'', ''ramdisk'', ''default.prop''],
                  [''vendor_boot'', ''ramdisk'', ''prop.default''],
                  [''vendor_boot'', ''ramdisk'', ''build.prop''],
                  [''vendor_boot'', ''ramdisk'', ''system'', ''build.prop''],
                  [''vendor_boot'', ''ramdisk'', ''vendor'', ''build.prop''],
                  [''system'', ''etc'', ''build.prop''],
                  [''vendor'', ''etc'', ''build.prop''],
                  [''product'', ''build.prop''],
                  [''system_ext'', ''build.prop''],
                  [''odm'', ''build.prop''],
                  [''boot'', ''ramdisk'', ''default.prop''],
                  [''boot'', ''ramdisk'', ''prop.default''],
                  [''recovery'', ''ramdisk'', ''default.prop''],
                  [''recovery'', ''ramdisk'', ''prop.default'']])"
    by (rule ext) (rule extended_locations_eq)
  then show ?thesis
    using locations_closed_form [of f base_path] by simp
qed

section \<open>Discovery of the partition table\<close>

text \<open>
  C4. Let the constructor have reached the search for the partition table: the image is
  unpacked, the ramdisk root chosen, the properties loaded and the device information
  made. The candidates are the three fixed paths below the ramdisk root. When \<open>p\<close> is
  the first of them that is a regular file, the constructor probes the candidates up to
  \<open>p\<close>, reads \<open>p\<close> and probes nothing after it; it returns the object whose partition
  table is parsed from the content of \<open>p\<close>, or raises what the parser raises. When
  none of the three is a regular file, the constructor has probed the three and nothing
  else, and raises \<^verbatim>\<open>AssertionError("fstab not found")\<close>.
\<close>

theorem fstab_three_candidates:
  assumes img: "is_file f0 img" and un: "unpackimg e f0 img = Inr (info, f)"
    and sel: "select_ramdisk f info = Inr (ev1, rd)"
    and load: "load_build_prop e f [] (get_extended_buildprop_locations f rd) = (ev3, bp, True)"
    and di: "make_device_info e bp = Inr di"
  shows "map (joinpath rd) FSTAB_LOCATIONS =
           [Path (anchor rd) (parts rd @ [''etc'', ''recovery.fstab'']),
            Path (anchor rd) (parts rd @ [''system'', ''etc'', ''recovery.fstab'']),
            Path (anchor rd) (parts rd @ [''vendor'', ''etc'', ''recovery.fstab''])]
         \<and> (map (joinpath rd) FSTAB_LOCATIONS = pre @ p # post
              \<and> (\<forall>q\<in>set pre. \<not> is_file f q) \<and> f p = Some (File c m) \<longrightarrow>
            DeviceTree_init e f0 img =
              (ev1 @ [LOGD ''Getting device infos...'',
                  LOGD (''Searching for build.prop in ''
                        @ str_nat (length (get_extended_buildprop_locations f rd))
                        @ '' locations...'')] @ ev3
                 @ map Probe pre
                 @ [Probe p,
                    LOGD (''Generating fstab using '' @ path_str p @ '' as reference...''),
                    Read p],
               f,
               (case parse_fstab e c of
                  Inl err \<Rightarrow> Inl err
                | Inr tab \<Rightarrow>
                    Inr \<lparr> image = img, current_year = str_nat (now_year e), dt_image_info = info,
                    build_prop = bp, dt_device_info = di, dt_fstab = tab,
                    init_rcs = collect_init_rcs e f rd \<rparr>)))
         \<and> ((\<forall>q\<in>set (map (joinpath rd) FSTAB_LOCATIONS). \<not> is_file f q) \<longrightarrow>
            DeviceTree_init e f0 img =
              (ev1 @ [LOGD ''Getting device infos...'',
                  LOGD (''Searching for build.prop in ''
                        @ str_nat (length (get_extended_buildprop_locations f rd))
                        @ '' locations...'')] @ ev3
                 @ map Probe (map (joinpath rd) FSTAB_LOCATIONS),
               f, Inl (AssertionError ''fstab not found'')))"
proof -
  note i = init_found [OF img un sel load, unfolded di sum.case]
  have a: "map (joinpath rd) FSTAB_LOCATIONS =
           [Path (anchor rd) (parts rd @ [''etc'', ''recovery.fstab'']),
            Path (anchor rd) (parts rd @ [''system'', ''etc'', ''recovery.fstab'']),
            Path (anchor rd) (parts rd @ [''vendor'', ''etc'', ''recovery.fstab''])]"
    by (rule fstab_candidates)
  have b: "map (joinpath rd) FSTAB_LOCATIONS = pre @ p # post
              \<and> (\<forall>q\<in>set pre. \<not> is_file f q) \<and> f p = Some (File c m) \<longrightarrow>
            DeviceTree_init e f0 img =
              (ev1 @ [LOGD ''Getting device infos...'',
                  LOGD (''Searching for build.prop in ''
                        @ str_nat (length (get_extended_buildprop_locations f rd))
                        @ '' locations...'')] @ ev3
                 @ map Probe pre
                 @ [Probe p,
                    LOGD (''Generating fstab using '' @ path_str p @ '' as reference...''),
                    Read p],
               f,
               (case parse_fstab e c of
                  Inl err \<Rightarrow> Inl err
                | Inr tab \<Rightarrow>
                    Inr \<lparr> image = img, current_year = str_nat (now_year e), dt_image_info = info,
                    build_prop = bp, dt_device_info = di, dt_fstab = tab,
                    init_rcs = collect_init_rcs e f rd \<rparr>))"
  proof
    assume h: "map (joinpath rd) FSTAB_LOCATIONS = pre @ p # post
              \<and> (\<forall>q\<in>set pre. \<not> is_file f q) \<and> f p = Some (File c m)"
    have "find_fstab e f (map (joinpath rd) FSTAB_LOCATIONS) =
            (map Probe pre
             @ [Probe p,
                LOGD (''Generating fstab using '' @ path_str p @ '' as reference...''),
                Read p],
             (case parse_fstab e c of Inl err \<Rightarrow> Inl err | Inr tab \<Rightarrow> Inr (Some tab)))"
      using h find_fstab_hit [of pre f p c m e post] by simp
    then show "DeviceTree_init e f0 img =
              (ev1 @ [LOGD ''Getting device infos...'',
                  LOGD (''Searching for build.prop in ''
                        @ str_nat (length (get_extended_buildprop_locations f rd))
                        @ '' locations...'')] @ ev3
                 @ map Probe pre
                 @ [Probe p,
                    LOGD (''Generating fstab using '' @ path_str p @ '' as reference...''),
                    Read p],
               f,
               (case parse_fstab e c of
                  Inl err \<Rightarrow> Inl err
                | Inr tab \<Rightarrow>
                    Inr \<lparr> image = img, current_year = str_nat (now_year e), dt_image_info = info,
                    build_prop = bp, dt_device_info = di, dt_fstab = tab,
                    init_rcs = collect_init_rcs e f rd \<rparr>))"
      unfolding i by (simp split: sum.splits)
  qed
  have n: "(\<forall>q\<in>set (map (joinpath rd) FSTAB_LOCATIONS). \<not> is_file f q) \<longrightarrow>
            DeviceTree_init e f0 img =
              (ev1 @ [LOGD ''Getting device infos...'',
                  LOGD (''Searching for build.prop in ''
                        @ str_nat (length (get_extended_buildprop_locations f rd))
                        @ '' locations...'')] @ ev3
                 @ map Probe (map (joinpath rd) FSTAB_LOCATIONS),
               f, Inl (AssertionError ''fstab not found''))"
    using init_no_fstab [OF img un sel load di] by blast
  show ?thesis
    by (intro conjI) (fact a b n)+
qed

section \<open>The concrete run: the constructor\<close>

lemma demo_select:
  "select_ramdisk f (demo_info demo_image) =
     (if is_dir f demo_ramdisk then Inr ([LOGD ''Using standard ramdisk''], demo_ramdisk)
      else Inl (AssertionError ''No valid ramdisk found (neither ramdisk nor vendor_ramdisk)''))"
  by (simp add: select_ramdisk_def demo_info_def demo_image_def demo_ramdisk_def parent_def
        child_def)

lemma demo_fs_ramdisk: "is_dir demo_fs demo_ramdisk" "is_dir demo_fs_nofstab demo_ramdisk"
  by (simp_all add: is_dir_def demo_fs_def demo_fs_nofstab_def demo_ramdisk_def)

lemma demo_fs_image: "is_file demo_fs demo_image" "is_file demo_fs_nofstab demo_image"
  by (simp_all add: is_file_def demo_fs_def demo_fs_nofstab_def demo_image_def)

lemma demo_unpack: "unpackimg demo_env f demo_image = Inr (demo_info demo_image, f)"
  by (simp add: demo_env_def)

lemma demo_prop_default:
  "demo_fs (Path ''/'' [''tmp'', ''aik'', ''ramdisk'', ''prop.default'']) =
     Some (File ''ro.product.device=alpha'' 420)"
  "demo_fs_nofstab (Path ''/'' [''tmp'', ''aik'', ''ramdisk'', ''prop.default'']) =
     Some (File ''ro.product.device=alpha'' 420)"
  "\<not> is_file demo_fs (Path ''/'' [''tmp'', ''aik'', ''ramdisk'', ''default.prop''])"
  "\<not> is_file demo_fs_nofstab (Path ''/'' [''tmp'', ''aik'', ''ramdisk'', ''default.prop''])"
  by (simp_all add: demo_fs_def demo_fs_nofstab_def is_file_def)

lemma demo_load:
  assumes "f (Path ''/'' [''tmp'', ''aik'', ''ramdisk'', ''prop.default'']) =
             Some (File ''ro.product.device=alpha'' 420)"
    and "\<not> is_file f (Path ''/'' [''tmp'', ''aik'', ''ramdisk'', ''default.prop''])"
  shows "load_build_prop demo_env f [] (get_extended_buildprop_locations f demo_ramdisk) =
     ([Probe (Path ''/'' [''tmp'', ''aik'', ''ramdisk'', ''default.prop'']),
       Probe (Path ''/'' [''tmp'', ''aik'', ''ramdisk'', ''prop.default'']),
       LOGD ''Loading build.prop from /tmp/aik/ramdisk/prop.default'',
       Read (Path ''/'' [''tmp'', ''aik'', ''ramdisk'', ''prop.default''])],
      [(''ro.product.device'', ''alpha'')], True)"
proof -
  have a: "get_extended_buildprop_locations f demo_ramdisk =
             [Path ''/'' [''tmp'', ''aik'', ''ramdisk'', ''default.prop'']]
             @ Path ''/'' [''tmp'', ''aik'', ''ramdisk'', ''prop.default'']
             # drop 2 (get_extended_buildprop_locations f demo_ramdisk)"
    using locations_prefix [of f "''/''" "[''tmp'', ''aik'', ''ramdisk'']"]
    by (simp add: demo_ramdisk_def)
  have b: "\<forall>q\<in>set [Path ''/'' [''tmp'', ''aik'', ''ramdisk'', ''default.prop'']].
             \<not> is_file f q"
    using assms(2) by simp
  have "load_build_prop demo_env f []
          ([Path ''/'' [''tmp'', ''aik'', ''ramdisk'', ''default.prop'']]
             @ Path ''/'' [''tmp'', ''aik'', ''ramdisk'', ''prop.default'']
             # drop 2 (get_extended_buildprop_locations f demo_ramdisk)) =
     ([Probe (Path ''/'' [''tmp'', ''aik'', ''ramdisk'', ''default.prop'']),
       Probe (Path ''/'' [''tmp'', ''aik'', ''ramdisk'', ''prop.default'']),
       LOGD ''Loading build.prop from /tmp/aik/ramdisk/prop.default'',
       Read (Path ''/'' [''tmp'', ''aik'', ''ramdisk'', ''prop.default''])],
      [(''ro.product.device'', ''alpha'')], True)"
    using load_build_prop_hit [OF b assms(1), of demo_env "[]"]
    by (simp add: demo_env_def path_str_def)
  then show ?thesis
    by (subst a)
qed

lemma demo_length:
  assumes "exists_p f (Path ''/'' [''tmp'', ''aik''])" and "exists_p f (Path ''/'' [''tmp''])"
    and "exists_p f (Path ''/'' [])"
  shows "str_nat (length (get_extended_buildprop_locations f demo_ramdisk)) = ''57''"
proof -
  have "length (get_extended_buildprop_locations f demo_ramdisk) = 57"
    using assms by (simp add: locations_length parent_def demo_ramdisk_def)
  then show ?thesis
    by (simp add: str_nat.simps)
qed

lemma demo_exists:
  "exists_p demo_fs (Path ''/'' [''tmp'', ''aik''])" "exists_p demo_fs (Path ''/'' [''tmp''])"
  "exists_p demo_fs (Path ''/'' [])"
  "exists_p demo_fs_nofstab (Path ''/'' [''tmp'', ''aik''])"
  "exists_p demo_fs_nofstab (Path ''/'' [''tmp''])" "exists_p demo_fs_nofstab (Path ''/'' [])"
  "exists_p demo_fs_badfstab (Path ''/'' [''tmp'', ''aik''])"
  "exists_p demo_fs_badfstab (Path ''/'' [''tmp''])" "exists_p demo_fs_badfstab (Path ''/'' [])"
  by (simp_all add: exists_p_def demo_fs_def demo_fs_nofstab_def demo_fs_badfstab_def)

lemma demo_bad:
  "is_dir demo_fs_badfstab demo_ramdisk" "is_file demo_fs_badfstab demo_image"
  "demo_fs_badfstab (Path ''/'' [''tmp'', ''aik'', ''ramdisk'', ''prop.default'']) =
     Some (File ''ro.product.device=alpha'' 420)"
  "\<not> is_file demo_fs_badfstab (Path ''/'' [''tmp'', ''aik'', ''ramdisk'', ''default.prop''])"
  "demo_fs_badfstab (Path ''/'' [''tmp'', ''aik'', ''ramdisk'', ''etc'', ''recovery.fstab'']) =
     Some (File [] 420)"
  "is_file demo_fs_badfstab
     (Path ''/'' [''tmp'', ''aik'', ''ramdisk'', ''system'', ''etc'', ''recovery.fstab''])"
  by (simp_all add: is_dir_def is_file_def demo_fs_def demo_fs_badfstab_def demo_ramdisk_def
        demo_image_def)

lemma demo_device_info:
  "make_device_info demo_env [(''ro.product.device'', ''alpha'')] =
     Inr \<lparr> manufacturer = ''acme'', codename = ''alpha'' \<rparr>"
  by (simp add: demo_env_def)

lemma demo_fstab_files:
  "\<not> is_file demo_fs (Path ''/'' [''tmp'', ''aik'', ''ramdisk'', ''etc'', ''recovery.fstab''])"
  "demo_fs (Path ''/'' [''tmp'', ''aik'', ''ramdisk'', ''system'', ''etc'', ''recovery.fstab''])
     = Some (File ''/data ext4'' 420)"
  "is_file demo_fs (Path ''/'' [''tmp'', ''aik'', ''ramdisk'', ''vendor'', ''etc'', ''recovery.fstab''])"
  by (simp_all add: is_file_def demo_fs_def)

lemma demo_find_fstab:
  "find_fstab demo_env demo_fs (map (joinpath demo_ramdisk) FSTAB_LOCATIONS) =
     ([Probe (Path ''/'' [''tmp'', ''aik'', ''ramdisk'', ''etc'', ''recovery.fstab'']),
       Probe (Path ''/'' [''tmp'', ''aik'', ''ramdisk'', ''system'', ''etc'', ''recovery.fstab'']),
       LOGD ''Generating fstab using /tmp/aik/ramdisk/system/etc/recovery.fstab as reference...'',
       Read (Path ''/'' [''tmp'', ''aik'', ''ramdisk'', ''system'', ''etc'', ''recovery.fstab''])],
      Inr (Some [''/data ext4'']))"
  using demo_fstab_files(1)
    find_fstab_hit [where pre = "[Path ''/'' [''tmp'', ''aik'', ''ramdisk'', ''etc'', ''recovery.fstab'']]" and f = demo_fs
      and p = "Path ''/'' [''tmp'', ''aik'', ''ramdisk'', ''system'', ''etc'', ''recovery.fstab'']" and c = "''/data ext4''" and m = 420 and e = demo_env
      and post = "[Path ''/'' [''tmp'', ''aik'', ''ramdisk'', ''vendor'', ''etc'', ''recovery.fstab'']]"]
  by (simp add: fstab_candidates demo_ramdisk_def demo_fstab_files(2) path_str_def demo_env_def)

lemma demo_collect:
  "collect_init_rcs demo_env demo_fs demo_ramdisk =
     [Path ''/'' [''tmp'', ''aik'', ''ramdisk'', ''init.usb.rc''],
      Path ''/'' [''tmp'', ''aik'', ''ramdisk'', ''ueventd.rc''],
      Path ''/'' [''tmp'', ''aik'', ''ramdisk'', ''vendor'', ''etc'', ''init'', ''init.usb.rc'']]"
proof -
  have d: "map (joinpath demo_ramdisk) INIT_RC_LOCATIONS =
             [demo_ramdisk, Path ''/'' [''tmp'', ''aik'', ''ramdisk'', ''system'', ''etc'', ''init''],
              Path ''/'' [''tmp'', ''aik'', ''ramdisk'', ''vendor'', ''etc'', ''init'']]"
    by (simp add: INIT_RC_LOCATIONS_def join_str_plain child_def Path_empty_def joinpath_def
          demo_ramdisk_def)
  have r: "is_dir demo_fs demo_ramdisk"
    "\<not> is_dir demo_fs (Path ''/'' [''tmp'', ''aik'', ''ramdisk'', ''system'', ''etc'', ''init''])"
    "is_dir demo_fs (Path ''/'' [''tmp'', ''aik'', ''ramdisk'', ''vendor'', ''etc'', ''init''])"
    by (simp_all add: is_dir_def demo_fs_def demo_ramdisk_def)
  show ?thesis
    unfolding collect_init_rcs_def d
    by (simp add: r) (simp add: demo_env_def demo_ramdisk_def child_def name_of_def endswith_def)
qed

lemma demo_object:
  "\<lparr> image = demo_image, current_year = str_nat (now_year demo_env),
      dt_image_info = demo_info demo_image,
      build_prop = [(''ro.product.device'', ''alpha'')],
      dt_device_info = \<lparr> manufacturer = ''acme'', codename = ''alpha'' \<rparr>,
      dt_fstab = [''/data ext4''],
      init_rcs = collect_init_rcs demo_env demo_fs demo_ramdisk \<rparr> = demo_tree"
proof -
  have "str_nat (now_year demo_env) = ''2022''"
    by (simp add: demo_env_def str_nat.simps)
  then show ?thesis
    by (simp add: demo_tree_def demo_collect)
qed

text \<open>
  The theorem for Path ''/'' [''tmp'', ''aik'', ''ramdisk'', ''etc'', ''recovery.fstab''] on the concrete run. Property files exist at the second candidate
  (\<^verbatim>\<open>prop.default\<close>, codename alpha), at the third (\<^verbatim>\<open>system/build.prop\<close>, codename
  beta) and at a candidate of the dump directory (\<^verbatim>\<open>odm/build.prop\<close>, codename
  gamma). The constructor probes the first two candidates, reads the second and builds
  the object with the codename alpha.
\<close>

theorem property_file_first_match_witness:
  "fst (DeviceTree_init demo_env demo_fs demo_image) =
     [LOGD ''Using standard ramdisk'', LOGD ''Getting device infos...'',
       LOGD ''Searching for build.prop in 57 locations...'',
       Probe (Path ''/'' [''tmp'', ''aik'', ''ramdisk'', ''default.prop'']),
       Probe (Path ''/'' [''tmp'', ''aik'', ''ramdisk'', ''prop.default'']),
       LOGD ''Loading build.prop from /tmp/aik/ramdisk/prop.default'',
       Read (Path ''/'' [''tmp'', ''aik'', ''ramdisk'', ''prop.default'']),
       Probe (Path ''/'' [''tmp'', ''aik'', ''ramdisk'', ''etc'', ''recovery.fstab'']),
       Probe (Path ''/'' [''tmp'', ''aik'', ''ramdisk'', ''system'', ''etc'', ''recovery.fstab'']),
       LOGD ''Generating fstab using /tmp/aik/ramdisk/system/etc/recovery.fstab as reference...'',
       Read (Path ''/'' [''tmp'', ''aik'', ''ramdisk'', ''system'', ''etc'', ''recovery.fstab''])]
   \<and> snd (snd (DeviceTree_init demo_env demo_fs demo_image)) = Inr demo_tree
   \<and> build_prop demo_tree = [(''ro.product.device'', ''alpha'')]
   \<and> is_file demo_fs (Path ''/'' [''tmp'', ''aik'', ''ramdisk'', ''system'', ''build.prop''])
   \<and> is_file demo_fs (Path ''/'' [''tmp'', ''aik'', ''odm'', ''build.prop''])
   \<and> Path ''/'' [''tmp'', ''aik'', ''ramdisk'', ''system'', ''build.prop'']
        \<in> set (get_extended_buildprop_locations demo_fs demo_ramdisk)
   \<and> Path ''/'' [''tmp'', ''aik'', ''odm'', ''build.prop'']
        \<in> set (get_extended_buildprop_locations demo_fs demo_ramdisk)"
proof -
  have a: "get_extended_buildprop_locations demo_fs demo_ramdisk =
             [Path ''/'' [''tmp'', ''aik'', ''ramdisk'', ''default.prop'']]
             @ Path ''/'' [''tmp'', ''aik'', ''ramdisk'', ''prop.default'']
             # drop 2 (get_extended_buildprop_locations demo_fs demo_ramdisk)"
    using locations_prefix [of demo_fs "''/''" "[''tmp'', ''aik'', ''ramdisk'']"]
    by (simp add: demo_ramdisk_def)
  have b: "\<forall>q\<in>set [Path ''/'' [''tmp'', ''aik'', ''ramdisk'', ''default.prop'']].
             \<not> is_file demo_fs q"
    using demo_prop_default(3) by simp
  have s: "select_ramdisk demo_fs (demo_info demo_image) =
             Inr ([LOGD ''Using standard ramdisk''], demo_ramdisk)"
    by (simp add: demo_select demo_fs_ramdisk)
  have i: "import_props demo_env [] ''ro.product.device=alpha'' =
             [(''ro.product.device'', ''alpha'')]"
    by (simp add: demo_env_def)
  note t = property_file_first_match
             [OF demo_fs_image(1) demo_unpack s a b demo_prop_default(1),
              unfolded a [symmetric] i demo_device_info sum.case demo_find_fstab fst_conv
                snd_conv demo_length [OF demo_exists(1-3)]]
  have p: "path_str (Path ''/'' [''tmp'', ''aik'', ''ramdisk'', ''prop.default''])
             = ''/tmp/aik/ramdisk/prop.default''"
    by (simp add: path_str_def)
  have t1: "fst (DeviceTree_init demo_env demo_fs demo_image) =
     [LOGD ''Using standard ramdisk'', LOGD ''Getting device infos...'',
       LOGD ''Searching for build.prop in 57 locations...'',
       Probe (Path ''/'' [''tmp'', ''aik'', ''ramdisk'', ''default.prop'']),
       Probe (Path ''/'' [''tmp'', ''aik'', ''ramdisk'', ''prop.default'']),
       LOGD ''Loading build.prop from /tmp/aik/ramdisk/prop.default'',
       Read (Path ''/'' [''tmp'', ''aik'', ''ramdisk'', ''prop.default'']),
       Probe (Path ''/'' [''tmp'', ''aik'', ''ramdisk'', ''etc'', ''recovery.fstab'']),
       Probe (Path ''/'' [''tmp'', ''aik'', ''ramdisk'', ''system'', ''etc'', ''recovery.fstab'']),
       LOGD ''Generating fstab using /tmp/aik/ramdisk/system/etc/recovery.fstab as reference...'',
       Read (Path ''/'' [''tmp'', ''aik'', ''ramdisk'', ''system'', ''etc'', ''recovery.fstab''])]"
    using t [THEN conjunct1] by (simp add: p)
  have t3: "snd (snd (DeviceTree_init demo_env demo_fs demo_image)) = Inr demo_tree"
    using t [THEN conjunct2, THEN conjunct2, THEN conjunct1] by (simp add: demo_object)
  have bp: "build_prop demo_tree = [(''ro.product.device'', ''alpha'')]"
    by (simp add: demo_tree_def)
  have e: "is_file demo_fs (Path ''/'' [''tmp'', ''aik'', ''ramdisk'', ''system'', ''build.prop''])"
    "is_file demo_fs (Path ''/'' [''tmp'', ''aik'', ''odm'', ''build.prop''])"
    by (simp_all add: is_file_def demo_fs_def)
  have d: "Path ''/'' [''tmp'', ''aik'', ''ramdisk'', ''system'', ''build.prop'']
        \<in> set (get_extended_buildprop_locations demo_fs demo_ramdisk)"
    "Path ''/'' [''tmp'', ''aik'', ''odm'', ''build.prop'']
        \<in> set (get_extended_buildprop_locations demo_fs demo_ramdisk)"
    using demo_exists(1)
    by (simp_all add: locations_closed_form BUILDPROP_LOCATIONS_eq extended_locations_eq
          demo_ramdisk_def joinpath_def parent_def)
  show ?thesis
    by (intro conjI) (fact t1 t3 bp e d)+
qed

theorem extended_locations_order_witness:
  "length (get_extended_buildprop_locations bare_fs (Path ''/'' [''a'', ''ramdisk''])) = 57
   \<and> get_extended_buildprop_locations bare_fs (Path ''/'' [''a'', ''ramdisk'']) ! 5
       = Path ''/'' [''a'', ''ramdisk'', ''vendor'', ''etc'', ''build.prop'']
   \<and> get_extended_buildprop_locations bare_fs (Path ''/'' [''a'', ''ramdisk'']) ! 6
       = Path ''/'' [''a'', ''system'', ''system'', ''build.prop'']
   \<and> get_extended_buildprop_locations bare_fs (Path ''/'' [''a'', ''ramdisk'']) ! 23
       = Path ''/'' [''system'', ''system'', ''build.prop'']
   \<and> get_extended_buildprop_locations bare_fs (Path ''/'' [''a'', ''ramdisk'']) ! 56
       = Path ''/'' [''recovery'', ''ramdisk'', ''prop.default'']"
proof -
  have x: "exists_p bare_fs (Path ''/'' [''a''])" "exists_p bare_fs (Path ''/'' [])"
    by (simp_all add: exists_p_def bare_fs_def)
  show ?thesis
    using x extended_locations_order [of bare_fs "Path ''/'' [''a'', ''ramdisk'']"]
    by (simp add: BUILDPROP_LOCATIONS_eq joinpath_def parent_def)
qed

text \<open>
  Path ''/'' [''tmp'', ''aik'', ''ramdisk'', ''vendor'', ''etc'', ''recovery.fstab''] as stated fails. With the ramdisk root \<^verbatim>\<open>/a/b/ramdisk\<close> and every directory
  above it existing, no extended location below the ramdisk root itself is a candidate
  (\<^verbatim>\<open>/a/b/ramdisk/odm/build.prop\<close> is not in the list), and the extended locations
  below the third directory above it, here \<^verbatim>\<open>/\<close>, are candidates
  (\<^verbatim>\<open>/odm/build.prop\<close> is in the list).
\<close>

theorem extended_search_skips_ramdisk_root:
  "exists_p deep_fs (Path ''/'' [''a'', ''b'', ''ramdisk''])
   \<and> exists_p deep_fs (Path ''/'' [''a'', ''b''])
   \<and> exists_p deep_fs (Path ''/'' [''a''])
   \<and> exists_p deep_fs (Path ''/'' [])
   \<and> Path ''/'' [''a'', ''b'', ''ramdisk'', ''odm'', ''build.prop'']
       \<notin> set (get_extended_buildprop_locations deep_fs (Path ''/'' [''a'', ''b'', ''ramdisk'']))
   \<and> Path ''/'' [''a'', ''b'', ''odm'', ''build.prop'']
       \<in> set (get_extended_buildprop_locations deep_fs (Path ''/'' [''a'', ''b'', ''ramdisk'']))
   \<and> Path ''/'' [''a'', ''odm'', ''build.prop'']
       \<in> set (get_extended_buildprop_locations deep_fs (Path ''/'' [''a'', ''b'', ''ramdisk'']))
   \<and> Path ''/'' [''odm'', ''build.prop'']
       \<in> set (get_extended_buildprop_locations deep_fs (Path ''/'' [''a'', ''b'', ''ramdisk'']))"
proof -
  have x: "exists_p deep_fs (Path ''/'' [''a'', ''b'', ''ramdisk''])"
    "exists_p deep_fs (Path ''/'' [''a'', ''b''])"
    "exists_p deep_fs (Path ''/'' [''a''])"
    "exists_p deep_fs (Path ''/'' [])"
    by (simp_all add: exists_p_def deep_fs_def)
  have l: "Path ''/'' [''a'', ''b'', ''ramdisk'', ''odm'', ''build.prop'']
       \<notin> set (get_extended_buildprop_locations deep_fs (Path ''/'' [''a'', ''b'', ''ramdisk'']))"
    "Path ''/'' [''a'', ''b'', ''odm'', ''build.prop'']
       \<in> set (get_extended_buildprop_locations deep_fs (Path ''/'' [''a'', ''b'', ''ramdisk'']))"
    "Path ''/'' [''a'', ''odm'', ''build.prop'']
       \<in> set (get_extended_buildprop_locations deep_fs (Path ''/'' [''a'', ''b'', ''ramdisk'']))"
    "Path ''/'' [''odm'', ''build.prop'']
       \<in> set (get_extended_buildprop_locations deep_fs (Path ''/'' [''a'', ''b'', ''ramdisk'']))"
    using x(2-4)
    by (simp_all add: locations_closed_form BUILDPROP_LOCATIONS_eq extended_locations_eq
          joinpath_def parent_def)
  show ?thesis
    by (intro conjI) (fact x l)+
qed

text \<open>
  The theorem for C4 on three concrete runs. In the first the second and the third
  candidate are regular files: the constructor probes the first two, reads the second
  and builds the object with its partition table. In the second run none of the three
  exists. In the third the first candidate is an empty file the parser refuses: the
  constructor raises the parser's exception and tries no other candidate.
\<close>

theorem fstab_three_candidates_witness:
  "DeviceTree_init demo_env demo_fs demo_image =
     ([LOGD ''Using standard ramdisk'', LOGD ''Getting device infos...'',
       LOGD ''Searching for build.prop in 57 locations...'',
       Probe (Path ''/'' [''tmp'', ''aik'', ''ramdisk'', ''default.prop'']),
       Probe (Path ''/'' [''tmp'', ''aik'', ''ramdisk'', ''prop.default'']),
       LOGD ''Loading build.prop from /tmp/aik/ramdisk/prop.default'',
       Read (Path ''/'' [''tmp'', ''aik'', ''ramdisk'', ''prop.default'']),
       Probe (Path ''/'' [''tmp'', ''aik'', ''ramdisk'', ''etc'', ''recovery.fstab'']),
       Probe (Path ''/'' [''tmp'', ''aik'', ''ramdisk'', ''system'', ''etc'', ''recovery.fstab'']),
       LOGD ''Generating fstab using /tmp/aik/ramdisk/system/etc/recovery.fstab as reference...'',
       Read (Path ''/'' [''tmp'', ''aik'', ''ramdisk'', ''system'', ''etc'', ''recovery.fstab''])],
      demo_fs, Inr demo_tree)
   \<and> dt_fstab demo_tree = [''/data ext4'']
   \<and> is_file demo_fs (Path ''/'' [''tmp'', ''aik'', ''ramdisk'', ''vendor'', ''etc'', ''recovery.fstab''])
   \<and> DeviceTree_init demo_env demo_fs_nofstab demo_image =
     ([LOGD ''Using standard ramdisk'', LOGD ''Getting device infos...'',
       LOGD ''Searching for build.prop in 57 locations...'',
       Probe (Path ''/'' [''tmp'', ''aik'', ''ramdisk'', ''default.prop'']),
       Probe (Path ''/'' [''tmp'', ''aik'', ''ramdisk'', ''prop.default'']),
       LOGD ''Loading build.prop from /tmp/aik/ramdisk/prop.default'',
       Read (Path ''/'' [''tmp'', ''aik'', ''ramdisk'', ''prop.default'']),
       Probe (Path ''/'' [''tmp'', ''aik'', ''ramdisk'', ''etc'', ''recovery.fstab'']),
       Probe (Path ''/'' [''tmp'', ''aik'', ''ramdisk'', ''system'', ''etc'', ''recovery.fstab'']),
       Probe (Path ''/'' [''tmp'', ''aik'', ''ramdisk'', ''vendor'', ''etc'', ''recovery.fstab''])],
      demo_fs_nofstab, Inl (AssertionError ''fstab not found''))
   \<and> DeviceTree_init demo_env demo_fs_badfstab demo_image =
     ([LOGD ''Using standard ramdisk'', LOGD ''Getting device infos...'',
       LOGD ''Searching for build.prop in 57 locations...'',
       Probe (Path ''/'' [''tmp'', ''aik'', ''ramdisk'', ''default.prop'']),
       Probe (Path ''/'' [''tmp'', ''aik'', ''ramdisk'', ''prop.default'']),
       LOGD ''Loading build.prop from /tmp/aik/ramdisk/prop.default'',
       Read (Path ''/'' [''tmp'', ''aik'', ''ramdisk'', ''prop.default'']),
       Probe (Path ''/'' [''tmp'', ''aik'', ''ramdisk'', ''etc'', ''recovery.fstab'']),
       LOGD ''Generating fstab using /tmp/aik/ramdisk/etc/recovery.fstab as reference...'',
       Read (Path ''/'' [''tmp'', ''aik'', ''ramdisk'', ''etc'', ''recovery.fstab''])],
      demo_fs_badfstab, Inl (CollaboratorError ''empty fstab''))
   \<and> is_file demo_fs_badfstab (Path ''/'' [''tmp'', ''aik'', ''ramdisk'', ''system'', ''etc'', ''recovery.fstab''])"
proof -
  have s: "select_ramdisk demo_fs (demo_info demo_image) =
             Inr ([LOGD ''Using standard ramdisk''], demo_ramdisk)"
    "select_ramdisk demo_fs_nofstab (demo_info demo_image) =
             Inr ([LOGD ''Using standard ramdisk''], demo_ramdisk)"
    "select_ramdisk demo_fs_badfstab (demo_info demo_image) =
             Inr ([LOGD ''Using standard ramdisk''], demo_ramdisk)"
    by (simp_all add: demo_select demo_fs_ramdisk demo_bad(1))
  have c: "map (joinpath demo_ramdisk) FSTAB_LOCATIONS =
             [Path ''/'' [''tmp'', ''aik'', ''ramdisk'', ''etc'', ''recovery.fstab'']]
             @ Path ''/'' [''tmp'', ''aik'', ''ramdisk'', ''system'', ''etc'', ''recovery.fstab'']
             # [Path ''/'' [''tmp'', ''aik'', ''ramdisk'', ''vendor'', ''etc'', ''recovery.fstab'']]"
    "map (joinpath demo_ramdisk) FSTAB_LOCATIONS =
             []
             @ Path ''/'' [''tmp'', ''aik'', ''ramdisk'', ''etc'', ''recovery.fstab'']
             # [Path ''/'' [''tmp'', ''aik'', ''ramdisk'', ''system'', ''etc'', ''recovery.fstab''],
                Path ''/'' [''tmp'', ''aik'', ''ramdisk'', ''vendor'', ''etc'', ''recovery.fstab'']]"
    by (simp_all add: fstab_candidates demo_ramdisk_def)
  have ps: "path_str (Path ''/'' [''tmp'', ''aik'', ''ramdisk'', ''system'', ''etc'', ''recovery.fstab''])
              = ''/tmp/aik/ramdisk/system/etc/recovery.fstab''"
    "path_str (Path ''/'' [''tmp'', ''aik'', ''ramdisk'', ''etc'', ''recovery.fstab''])
              = ''/tmp/aik/ramdisk/etc/recovery.fstab''"
    by (simp_all add: path_str_def)
  have pf: "parse_fstab demo_env ''/data ext4'' = Inr [''/data ext4'']"
    "parse_fstab demo_env [] = Inl (CollaboratorError ''empty fstab'')"
    by (simp_all add: demo_env_def)
  note t1 = fstab_three_candidates
      [OF demo_fs_image(1) demo_unpack s(1)
          demo_load [OF demo_prop_default(1) demo_prop_default(3)] demo_device_info,
       THEN conjunct2, THEN conjunct1,
       of "[Path ''/'' [''tmp'', ''aik'', ''ramdisk'', ''etc'', ''recovery.fstab'']]" "Path ''/'' [''tmp'', ''aik'', ''ramdisk'', ''system'', ''etc'', ''recovery.fstab'']" "[Path ''/'' [''tmp'', ''aik'', ''ramdisk'', ''vendor'', ''etc'', ''recovery.fstab'']]" "''/data ext4''" 420]
  have a: "DeviceTree_init demo_env demo_fs demo_image =
     ([LOGD ''Using standard ramdisk'', LOGD ''Getting device infos...'',
       LOGD ''Searching for build.prop in 57 locations...'',
       Probe (Path ''/'' [''tmp'', ''aik'', ''ramdisk'', ''default.prop'']),
       Probe (Path ''/'' [''tmp'', ''aik'', ''ramdisk'', ''prop.default'']),
       LOGD ''Loading build.prop from /tmp/aik/ramdisk/prop.default'',
       Read (Path ''/'' [''tmp'', ''aik'', ''ramdisk'', ''prop.default'']),
       Probe (Path ''/'' [''tmp'', ''aik'', ''ramdisk'', ''etc'', ''recovery.fstab'']),
       Probe (Path ''/'' [''tmp'', ''aik'', ''ramdisk'', ''system'', ''etc'', ''recovery.fstab'']),
       LOGD ''Generating fstab using /tmp/aik/ramdisk/system/etc/recovery.fstab as reference...'',
       Read (Path ''/'' [''tmp'', ''aik'', ''ramdisk'', ''system'', ''etc'', ''recovery.fstab''])],
      demo_fs, Inr demo_tree)"
    using t1 c(1) demo_fstab_files(1,2)
    by (simp add: ps pf demo_length [OF demo_exists(1-3)] demo_object)
  have q: "\<forall>q\<in>set (map (joinpath demo_ramdisk) FSTAB_LOCATIONS). \<not> is_file demo_fs_nofstab q"
    by (simp add: fstab_candidates demo_ramdisk_def is_file_def demo_fs_def demo_fs_nofstab_def)
  note t2 = fstab_three_candidates
      [OF demo_fs_image(2) demo_unpack s(2)
          demo_load [OF demo_prop_default(2) demo_prop_default(4)] demo_device_info,
       THEN conjunct2, THEN conjunct2]
  have b: "DeviceTree_init demo_env demo_fs_nofstab demo_image =
     ([LOGD ''Using standard ramdisk'', LOGD ''Getting device infos...'',
       LOGD ''Searching for build.prop in 57 locations...'',
       Probe (Path ''/'' [''tmp'', ''aik'', ''ramdisk'', ''default.prop'']),
       Probe (Path ''/'' [''tmp'', ''aik'', ''ramdisk'', ''prop.default'']),
       LOGD ''Loading build.prop from /tmp/aik/ramdisk/prop.default'',
       Read (Path ''/'' [''tmp'', ''aik'', ''ramdisk'', ''prop.default'']),
       Probe (Path ''/'' [''tmp'', ''aik'', ''ramdisk'', ''etc'', ''recovery.fstab'']),
       Probe (Path ''/'' [''tmp'', ''aik'', ''ramdisk'', ''system'', ''etc'', ''recovery.fstab'']),
       Probe (Path ''/'' [''tmp'', ''aik'', ''ramdisk'', ''vendor'', ''etc'', ''recovery.fstab''])],
      demo_fs_nofstab, Inl (AssertionError ''fstab not found''))"
    using t2 q
    by (simp add: demo_length [OF demo_exists(4-6)] fstab_candidates)
       (simp add: demo_ramdisk_def)
  note t3 = fstab_three_candidates
      [OF demo_bad(2) demo_unpack s(3) demo_load [OF demo_bad(3) demo_bad(4)] demo_device_info,
       THEN conjunct2, THEN conjunct1,
       of "[]" "Path ''/'' [''tmp'', ''aik'', ''ramdisk'', ''etc'', ''recovery.fstab'']" "[Path ''/'' [''tmp'', ''aik'', ''ramdisk'', ''system'', ''etc'', ''recovery.fstab''],
                Path ''/'' [''tmp'', ''aik'', ''ramdisk'', ''vendor'', ''etc'', ''recovery.fstab'']]" "[]" 420]
  have d: "DeviceTree_init demo_env demo_fs_badfstab demo_image =
     ([LOGD ''Using standard ramdisk'', LOGD ''Getting device infos...'',
       LOGD ''Searching for build.prop in 57 locations...'',
       Probe (Path ''/'' [''tmp'', ''aik'', ''ramdisk'', ''default.prop'']),
       Probe (Path ''/'' [''tmp'', ''aik'', ''ramdisk'', ''prop.default'']),
       LOGD ''Loading build.prop from /tmp/aik/ramdisk/prop.default'',
       Read (Path ''/'' [''tmp'', ''aik'', ''ramdisk'', ''prop.default'']),
       Probe (Path ''/'' [''tmp'', ''aik'', ''ramdisk'', ''etc'', ''recovery.fstab'']),
       LOGD ''Generating fstab using /tmp/aik/ramdisk/etc/recovery.fstab as reference...'',
       Read (Path ''/'' [''tmp'', ''aik'', ''ramdisk'', ''etc'', ''recovery.fstab''])],
      demo_fs_badfstab, Inl (CollaboratorError ''empty fstab''))"
    using t3 c(2) demo_bad(5)
    by (simp add: ps pf demo_length [OF demo_exists(7-9)])
  have f: "dt_fstab demo_tree = [''/data ext4'']"
    by (simp add: demo_tree_def)
  show ?thesis
    by (intro conjI) (fact a f demo_fstab_files(3) b d demo_bad(6))+
qed

section \<open>What a failed discovery reports\<close>

lemma demo_select_any:
  "select_ramdisk f (demo_info img) =
     (if is_dir f (child (parent img) ''ramdisk'')
      then Inr ([LOGD ''Using standard ramdisk''], child (parent img) ''ramdisk'')
      else Inl (AssertionError ''No valid ramdisk found (neither ramdisk nor vendor_ramdisk)''))"
  by (simp add: select_ramdisk_def demo_info_def)

lemma bare_no_props:
  "\<forall>q\<in>set (get_extended_buildprop_locations bare_fs (Path ''/'' [''a'', ''ramdisk''])). \<not> is_file bare_fs q"
  "\<forall>q\<in>set (get_extended_buildprop_locations bare_fs (Path ''/'' [''b'', ''ramdisk''])). \<not> is_file bare_fs q"
  by (simp_all add: locations_closed_form BUILDPROP_LOCATIONS_eq extended_locations_eq
        joinpath_def parent_def exists_p_def is_file_def bare_fs_def)

lemma bare_no_fstab:
  "\<forall>q\<in>set (map (joinpath (Path ''/'' [''c'', ''ramdisk''])) FSTAB_LOCATIONS). \<not> is_file bare_fs q"
  "\<forall>q\<in>set (map (joinpath (Path ''/'' [''d'', ''ramdisk''])) FSTAB_LOCATIONS). \<not> is_file bare_fs q"
  by (simp_all add: FSTAB_LOCATIONS_eq joinpath_def is_file_def bare_fs_def)

lemma bare_select:
  "select_ramdisk bare_fs (demo_info (Path ''/'' [''a'', ''boot.img''])) = Inr ([LOGD ''Using standard ramdisk''], (Path ''/'' [''a'', ''ramdisk'']))"
  "select_ramdisk bare_fs (demo_info (Path ''/'' [''b'', ''boot.img''])) = Inr ([LOGD ''Using standard ramdisk''], (Path ''/'' [''b'', ''ramdisk'']))"
  "select_ramdisk bare_fs (demo_info (Path ''/'' [''c'', ''boot.img''])) = Inr ([LOGD ''Using standard ramdisk''], (Path ''/'' [''c'', ''ramdisk'']))"
  "select_ramdisk bare_fs (demo_info (Path ''/'' [''d'', ''boot.img''])) = Inr ([LOGD ''Using standard ramdisk''], (Path ''/'' [''d'', ''ramdisk'']))"
  by (simp_all add: demo_select_any child_def parent_def is_dir_def bare_fs_def)

lemma bare_image:
  "is_file bare_fs (Path ''/'' [''a'', ''boot.img''])" "is_file bare_fs (Path ''/'' [''b'', ''boot.img''])" "is_file bare_fs (Path ''/'' [''c'', ''boot.img''])" "is_file bare_fs (Path ''/'' [''d'', ''boot.img''])"
  by (simp_all add: is_file_def bare_fs_def)

lemma bare_unpack: "unpackimg demo_env f img = Inr (demo_info img, f)"
  by (simp add: demo_env_def)

lemma bare_load:
  "load_build_prop demo_env bare_fs [] (get_extended_buildprop_locations bare_fs (Path ''/'' [''c'', ''ramdisk''])) =
     ([Probe (Path ''/'' [''c'', ''ramdisk'', ''default.prop'']),
       LOGD ''Loading build.prop from /c/ramdisk/default.prop'',
       Read (Path ''/'' [''c'', ''ramdisk'', ''default.prop''])],
      [(''ro.product.device'', ''gamma'')], True)"
  "load_build_prop demo_env bare_fs [] (get_extended_buildprop_locations bare_fs (Path ''/'' [''d'', ''ramdisk''])) =
     ([Probe (Path ''/'' [''d'', ''ramdisk'', ''default.prop'']),
       LOGD ''Loading build.prop from /d/ramdisk/default.prop'',
       Read (Path ''/'' [''d'', ''ramdisk'', ''default.prop''])],
      [(''ro.product.device'', ''delta'')], True)"
proof -
  have c: "bare_fs (Path ''/'' [''c'', ''ramdisk'', ''default.prop'']) =
             Some (File ''ro.product.device=gamma'' 420)"
    "bare_fs (Path ''/'' [''d'', ''ramdisk'', ''default.prop'']) =
             Some (File ''ro.product.device=delta'' 420)"
    by (simp_all add: bare_fs_def)
  have e: "\<forall>q\<in>set []. \<not> is_file bare_fs q"
    by simp
  show "load_build_prop demo_env bare_fs [] (get_extended_buildprop_locations bare_fs (Path ''/'' [''c'', ''ramdisk''])) =
     ([Probe (Path ''/'' [''c'', ''ramdisk'', ''default.prop'']),
       LOGD ''Loading build.prop from /c/ramdisk/default.prop'',
       Read (Path ''/'' [''c'', ''ramdisk'', ''default.prop''])],
      [(''ro.product.device'', ''gamma'')], True)"
    using load_build_prop_hit [OF e c(1), of demo_env "[]"]
    by (subst locations_prefix) (simp add: demo_env_def path_str_def)
  show "load_build_prop demo_env bare_fs [] (get_extended_buildprop_locations bare_fs (Path ''/'' [''d'', ''ramdisk''])) =
     ([Probe (Path ''/'' [''d'', ''ramdisk'', ''default.prop'']),
       LOGD ''Loading build.prop from /d/ramdisk/default.prop'',
       Read (Path ''/'' [''d'', ''ramdisk'', ''default.prop''])],
      [(''ro.product.device'', ''delta'')], True)"
    using load_build_prop_hit [OF e c(2), of demo_env "[]"]
    by (subst locations_prefix) (simp add: demo_env_def path_str_def)
qed

lemma bare_device_info:
  "make_device_info demo_env [(''ro.product.device'', ''gamma'')] =
     Inr \<lparr> manufacturer = ''acme'', codename = ''gamma'' \<rparr>"
  "make_device_info demo_env [(''ro.product.device'', ''delta'')] =
     Inr \<lparr> manufacturer = ''acme'', codename = ''delta'' \<rparr>"
  by (simp_all add: demo_env_def)

text \<open>
  C5, as the code has it. When no candidate of the property-file search is a regular
  file, the constructor logs the attempted locations, one line each and in order, after
  the line \<^verbatim>\<open>Searched locations:\<close>, and raises an \<^verbatim>\<open>AssertionError\<close> whose only
  content is a fixed message. When none of the partition-table candidates is a regular
  file, it raises an \<^verbatim>\<open>AssertionError\<close> with the fixed message \<^verbatim>\<open>fstab not found\<close>,
  and logs no location. Neither exception carries the attempted locations.
\<close>

theorem discovery_failure_message:
  assumes "is_file f0 img" and "unpackimg e f0 img = Inr (info, f)"
    and "select_ramdisk f info = Inr (ev1, rd)"
  shows "((\<forall>q\<in>set (get_extended_buildprop_locations f rd). \<not> is_file f q) \<longrightarrow>
          DeviceTree_init e f0 img =
            (ev1 @ [LOGD ''Getting device infos...'',
                    LOGD (''Searching for build.prop in ''
                          @ str_nat (length (get_extended_buildprop_locations f rd))
                          @ '' locations...'')]
               @ map Probe (get_extended_buildprop_locations f rd)
               @ LOGD ''Searched locations:''
                 # map (searched_line f) (get_extended_buildprop_locations f rd),
             f, Inl (AssertionError ''No build.prop file found in any of the searched locations'')))
       \<and> (load_build_prop e f [] (get_extended_buildprop_locations f rd) = (ev3, bp, True)
           \<and> make_device_info e bp = Inr di
           \<and> (\<forall>q\<in>set (map (joinpath rd) FSTAB_LOCATIONS). \<not> is_file f q) \<longrightarrow>
          DeviceTree_init e f0 img =
            (ev1 @ [LOGD ''Getting device infos...'',
                    LOGD (''Searching for build.prop in ''
                          @ str_nat (length (get_extended_buildprop_locations f rd))
                          @ '' locations...'')]
               @ ev3 @ map Probe (map (joinpath rd) FSTAB_LOCATIONS),
             f, Inl (AssertionError ''fstab not found'')))"
  using init_no_build_prop [OF assms] init_no_fstab [OF assms, of ev3 bp di]
  by blast

theorem discovery_failure_message_witness:
  "DeviceTree_init demo_env bare_fs (Path ''/'' [''a'', ''boot.img'']) =
     ([LOGD ''Using standard ramdisk'', LOGD ''Getting device infos...'',
       LOGD ''Searching for build.prop in 57 locations...'']
        @ map Probe (get_extended_buildprop_locations bare_fs (Path ''/'' [''a'', ''ramdisk'']))
        @ LOGD ''Searched locations:''
          # map (searched_line bare_fs) (get_extended_buildprop_locations bare_fs (Path ''/'' [''a'', ''ramdisk''])),
      bare_fs, Inl (AssertionError ''No build.prop file found in any of the searched locations''))
   \<and> searched_line bare_fs (get_extended_buildprop_locations bare_fs (Path ''/'' [''a'', ''ramdisk'']) ! 0)
       = LOGD ''  - /a/ramdisk/default.prop (NOT FOUND)''
   \<and> DeviceTree_init demo_env bare_fs (Path ''/'' [''c'', ''boot.img'']) =
     ([LOGD ''Using standard ramdisk'', LOGD ''Getting device infos...'',
       LOGD ''Searching for build.prop in 57 locations...'',
       Probe (Path ''/'' [''c'', ''ramdisk'', ''default.prop'']),
       LOGD ''Loading build.prop from /c/ramdisk/default.prop'',
       Read (Path ''/'' [''c'', ''ramdisk'', ''default.prop'']),
       Probe (Path ''/'' [''c'', ''ramdisk'', ''etc'', ''recovery.fstab'']),
       Probe (Path ''/'' [''c'', ''ramdisk'', ''system'', ''etc'', ''recovery.fstab'']),
       Probe (Path ''/'' [''c'', ''ramdisk'', ''vendor'', ''etc'', ''recovery.fstab''])],
      bare_fs, Inl (AssertionError ''fstab not found''))"
proof -
  have x: "exists_p bare_fs (Path ''/'' [''a''])" "exists_p bare_fs (Path ''/'' [''c''])"
    "exists_p bare_fs (Path ''/'' [])"
    by (simp_all add: exists_p_def bare_fs_def)
  have n: "length (get_extended_buildprop_locations bare_fs (Path ''/'' [''a'', ''ramdisk''])) = 57"
    "length (get_extended_buildprop_locations bare_fs (Path ''/'' [''c'', ''ramdisk''])) = 57"
    using x by (simp_all add: locations_length parent_def)
  have k: "str_nat 57 = ''57''"
    by (simp add: str_nat.simps)
  have a: "DeviceTree_init demo_env bare_fs (Path ''/'' [''a'', ''boot.img'']) =
     ([LOGD ''Using standard ramdisk'', LOGD ''Getting device infos...'',
       LOGD ''Searching for build.prop in 57 locations...'']
        @ map Probe (get_extended_buildprop_locations bare_fs (Path ''/'' [''a'', ''ramdisk'']))
        @ LOGD ''Searched locations:''
          # map (searched_line bare_fs) (get_extended_buildprop_locations bare_fs (Path ''/'' [''a'', ''ramdisk''])),
      bare_fs, Inl (AssertionError ''No build.prop file found in any of the searched locations''))"
    using bare_no_props(1)
      discovery_failure_message [OF bare_image(1) bare_unpack bare_select(1)]
    by (simp add: n k)
  have l: "searched_line bare_fs (get_extended_buildprop_locations bare_fs (Path ''/'' [''a'', ''ramdisk'']) ! 0)
       = LOGD ''  - /a/ramdisk/default.prop (NOT FOUND)''"
    by (subst locations_prefix) (simp add: searched_line_def path_str_def exists_p_def bare_fs_def)
  have c: "DeviceTree_init demo_env bare_fs (Path ''/'' [''c'', ''boot.img'']) =
     ([LOGD ''Using standard ramdisk'', LOGD ''Getting device infos...'',
       LOGD ''Searching for build.prop in 57 locations...'',
       Probe (Path ''/'' [''c'', ''ramdisk'', ''default.prop'']),
       LOGD ''Loading build.prop from /c/ramdisk/default.prop'',
       Read (Path ''/'' [''c'', ''ramdisk'', ''default.prop'']),
       Probe (Path ''/'' [''c'', ''ramdisk'', ''etc'', ''recovery.fstab'']),
       Probe (Path ''/'' [''c'', ''ramdisk'', ''system'', ''etc'', ''recovery.fstab'']),
       Probe (Path ''/'' [''c'', ''ramdisk'', ''vendor'', ''etc'', ''recovery.fstab''])],
      bare_fs, Inl (AssertionError ''fstab not found''))"
    using bare_no_fstab(1) bare_load(1) bare_device_info(1)
      discovery_failure_message [OF bare_image(3) bare_unpack bare_select(3),
        of "[Probe (Path ''/'' [''c'', ''ramdisk'', ''default.prop'']),
             LOGD ''Loading build.prop from /c/ramdisk/default.prop'',
             Read (Path ''/'' [''c'', ''ramdisk'', ''default.prop''])]"
           "[(''ro.product.device'', ''gamma'')]"
           "\<lparr> manufacturer = ''acme'', codename = ''gamma'' \<rparr>"]
    by (simp add: n k fstab_candidates)
  show ?thesis
    using a l c by blast
qed

text \<open>
  C5 as stated fails. Two runs on different ramdisk roots attempt different lists of
  locations, and raise the same exception value: the value cannot tell the caller which
  locations were attempted. This holds for the property-file search (images \<^verbatim>\<open>/a\<close> and
  \<^verbatim>\<open>/b\<close>) and for the partition-table search (images \<^verbatim>\<open>/c\<close> and \<^verbatim>\<open>/d\<close>).
\<close>

theorem failure_carries_no_locations:
  "snd (snd (DeviceTree_init demo_env bare_fs (Path ''/'' [''a'', ''boot.img'']))) = Inl (AssertionError ''No build.prop file found in any of the searched locations'')
   \<and> snd (snd (DeviceTree_init demo_env bare_fs (Path ''/'' [''b'', ''boot.img'']))) = Inl (AssertionError ''No build.prop file found in any of the searched locations'')
   \<and> get_extended_buildprop_locations bare_fs (Path ''/'' [''a'', ''ramdisk'']) \<noteq> get_extended_buildprop_locations bare_fs (Path ''/'' [''b'', ''ramdisk''])
   \<and> snd (snd (DeviceTree_init demo_env bare_fs (Path ''/'' [''c'', ''boot.img'']))) = Inl (AssertionError ''fstab not found'')
   \<and> snd (snd (DeviceTree_init demo_env bare_fs (Path ''/'' [''d'', ''boot.img'']))) = Inl (AssertionError ''fstab not found'')
   \<and> map (joinpath (Path ''/'' [''c'', ''ramdisk''])) FSTAB_LOCATIONS \<noteq> map (joinpath (Path ''/'' [''d'', ''ramdisk''])) FSTAB_LOCATIONS"
proof -
  have a: "snd (snd (DeviceTree_init demo_env bare_fs (Path ''/'' [''a'', ''boot.img'']))) = Inl (AssertionError ''No build.prop file found in any of the searched locations'')"
    using init_no_build_prop [OF bare_image(1) bare_unpack bare_select(1) bare_no_props(1)]
    by simp
  have b: "snd (snd (DeviceTree_init demo_env bare_fs (Path ''/'' [''b'', ''boot.img'']))) = Inl (AssertionError ''No build.prop file found in any of the searched locations'')"
    using init_no_build_prop [OF bare_image(2) bare_unpack bare_select(2) bare_no_props(2)]
    by simp
  have ab: "get_extended_buildprop_locations bare_fs (Path ''/'' [''a'', ''ramdisk''])
              \<noteq> get_extended_buildprop_locations bare_fs (Path ''/'' [''b'', ''ramdisk''])"
    by (subst locations_prefix, subst (2) locations_prefix) simp
  have c: "snd (snd (DeviceTree_init demo_env bare_fs (Path ''/'' [''c'', ''boot.img'']))) =
             Inl (AssertionError ''fstab not found'')"
    using init_no_fstab [OF bare_image(3) bare_unpack bare_select(3) bare_load(1)
            bare_device_info(1) bare_no_fstab(1)]
    by simp
  have d: "snd (snd (DeviceTree_init demo_env bare_fs (Path ''/'' [''d'', ''boot.img'']))) =
             Inl (AssertionError ''fstab not found'')"
    using init_no_fstab [OF bare_image(4) bare_unpack bare_select(4) bare_load(2)
            bare_device_info(2) bare_no_fstab(2)]
    by simp
  have cd: "map (joinpath (Path ''/'' [''c'', ''ramdisk''])) FSTAB_LOCATIONS \<noteq> map (joinpath (Path ''/'' [''d'', ''ramdisk''])) FSTAB_LOCATIONS"
    by (simp add: fstab_candidates)
  show ?thesis
    using a b ab c d cd by blast
qed

section \<open>Paths below a directory\<close>

lemma beneath_refl: "beneath d d"
  by (simp add: beneath_def)

lemma beneath_len: "beneath d p \<Longrightarrow> length (parts d) \<le> length (parts p)"
proof -
  assume "beneath d p"
  then have "length (take (length (parts d)) (parts p)) = length (parts d)"
    by (simp add: beneath_def)
  then show ?thesis
    by simp
qed

lemma beneath_trans: "beneath a b \<Longrightarrow> beneath b c \<Longrightarrow> beneath a c"
proof -
  assume ab: "beneath a b" and bc: "beneath b c"
  have "take (length (parts a)) (parts c)
          = take (length (parts a)) (take (length (parts b)) (parts c))"
    using beneath_len [OF ab] by (simp add: min_def)
  also have "\<dots> = parts a"
    using ab bc by (simp add: beneath_def)
  finally show ?thesis
    using ab bc by (simp add: beneath_def)
qed

lemma beneath_antisym: "beneath a b \<Longrightarrow> beneath b a \<Longrightarrow> a = b"
proof -
  assume ab: "beneath a b" and ba: "beneath b a"
  have "length (parts a) = length (parts b)"
    using beneath_len [OF ab] beneath_len [OF ba] by simp
  then have "parts a = parts b"
    using ab by (simp add: beneath_def)
  then show ?thesis
    using ab by (cases a, cases b) (simp add: beneath_def)
qed

lemma parent_child: "parent (child d n) = d"
  by (cases d) (simp add: parent_def child_def)

lemma beneath_child: "beneath d (child d n)"
  by (simp add: beneath_def child_def)

lemma beneath_parent_self: "beneath (parent p) p"
  by (cases p) (simp add: beneath_def parent_def butlast_conv_take)

lemma child_neq: "child d n \<noteq> d"
  by (cases d) (simp add: child_def)

lemma child_inject: "child d n = child d' n' \<longleftrightarrow> d = d' \<and> n = n'"
  by (cases d, cases d') (auto simp: child_def)

lemma beneath_joinpath: "anchor q = [] \<Longrightarrow> beneath d (joinpath d q)"
  by (simp add: beneath_def joinpath_def)

lemma anchor_of_rel: "s = [] \<or> hd s \<noteq> CHR ''/'' \<Longrightarrow> anchor_of s = []"
  by (cases s) (auto simp: anchor_of_def)

lemma beneath_join_str: "s = [] \<or> hd s \<noteq> CHR ''/'' \<Longrightarrow> beneath d (join_str d s)"
  by (simp add: join_str_def beneath_joinpath parse_path_def anchor_of_rel)




lemma mkdir1_Inr:
  "mkdir1 md f p = Inr f' \<Longrightarrow> f p = None \<and> is_dir f (parent p) \<and> f' = f(p \<mapsto> Dir md)"
  by (auto simp: mkdir1_def is_dir_def split: option.splits node.splits)

lemma mkdir_noparents_Inr:
  "mkdir_noparents md ok f p = Inr f' \<Longrightarrow>
     (f p = None \<and> is_dir f (parent p) \<and> f' = f(p \<mapsto> Dir md)) \<or> (ok \<and> is_dir f p \<and> f' = f)"
  by (auto simp: mkdir_noparents_def dest: mkdir1_Inr split: sum.splits error.splits if_splits)

section \<open>What the operations on the file system do\<close>

lemma mkdir_parents_Inr:
  "mkdir_parents md ok f p = Inr f' \<Longrightarrow>
     (\<forall>q. f' q = f q \<or> (f q = None \<and> f' q = Some (Dir md) \<and> beneath q p))
     \<and> ((f p = None \<and> f' p = Some (Dir md) \<and> is_dir f' (parent p) \<and> parent p \<noteq> p)
         \<or> (ok \<and> is_dir f p \<and> f' = f))"
proof (induction md ok f p arbitrary: f' rule: mkdir_parents.induct)
  case (1 md exist_ok f p)
  show ?case
  proof (cases "mkdir1 md f p")
    case (Inr g)
    have "mkdir_parents md exist_ok f p = Inr g"
      using Inr by (subst mkdir_parents.simps) simp
    then have fg: "f' = g"
      using "1.prems" by simp
    have m: "f p = None" "is_dir f (parent p)" "g = f(p \<mapsto> Dir md)"
      using mkdir1_Inr [OF Inr] by simp_all
    have np: "parent p \<noteq> p"
      using m by (auto simp: is_dir_def)
    have d: "is_dir f' (parent p)"
      using m np fg by (simp add: is_dir_def)
    have a: "\<forall>q. f' q = f q \<or> (f q = None \<and> f' q = Some (Dir md) \<and> beneath q p)"
      using m fg by (simp add: beneath_refl)
    have b: "f' p = Some (Dir md)"
      using m fg by simp
    show ?thesis
      using a b d m(1) np by blast
  next
    case (Inl err)
    show ?thesis
    proof (cases "\<exists>m. err = FileNotFoundError m")
      case True
      then obtain m where e: "err = FileNotFoundError m"
        by blast
      have u: "mkdir_parents md exist_ok f p =
                 (if parent p = p then Inl (FileNotFoundError m)
                  else (case mkdir_parents md True f (parent p) of
                          Inl err \<Rightarrow> Inl err
                        | Inr f' \<Rightarrow> mkdir_noparents md exist_ok f' p))"
        using Inl e by (subst mkdir_parents.simps) simp
      have np: "parent p \<noteq> p"
        using u "1.prems" by (auto split: if_splits)
      obtain g where g: "mkdir_parents md True f (parent p) = Inr g"
        and h: "mkdir_noparents md exist_ok g p = Inr f'"
        using u np "1.prems" by (auto split: sum.splits)
      have fp: "f p = None"
        using Inl e by (auto simp: mkdir1_def split: option.splits node.splits)
      note ih = "1.IH" [OF Inl e np g]
      have up: "beneath (parent p) p"
        by (rule beneath_parent_self)
      have "\<not> beneath p (parent p)"
        using beneath_antisym [OF up] np by blast
      then have gp: "g p = None"
        using ih fp by (metis)
      from mkdir_noparents_Inr [OF h] gp
      have f': "f' = g(p \<mapsto> Dir md)" and pd: "is_dir g (parent p)"
        by (auto simp: is_dir_def)
      have a: "\<forall>q. f' q = f q \<or> (f q = None \<and> f' q = Some (Dir md) \<and> beneath q p)"
      proof
        fix q
        show "f' q = f q \<or> (f q = None \<and> f' q = Some (Dir md) \<and> beneath q p)"
        proof (cases "q = p")
          case True
          then show ?thesis using f' fp by (simp add: beneath_refl)
        next
          case False
          then have "f' q = g q" using f' by simp
          moreover have "g q = f q \<or> (f q = None \<and> g q = Some (Dir md) \<and> beneath q (parent p))"
            using ih by blast
          ultimately show ?thesis
            using beneath_trans [OF _ up] by auto
        qed
      qed
      have d: "is_dir f' (parent p)"
        using pd np f' by (simp add: is_dir_def)
      have b: "f' p = Some (Dir md)"
        using f' by simp
      show ?thesis
        using a b d fp np by blast
    next
      case False
      then have "mkdir_parents md exist_ok f p =
                   (if \<not> exist_ok \<or> \<not> is_dir f p then Inl err else Inr f)"
        using Inl by (subst mkdir_parents.simps, cases err) simp_all
      then show ?thesis
        using "1.prems" by (auto split: if_splits)
    qed
  qed
qed

lemma run_steps_append:
  "run_steps (a @ b) f =
     (case run_steps a f of (Some err, g) \<Rightarrow> (Some err, g) | (None, g) \<Rightarrow> run_steps b g)"
  by (induction a arbitrary: f) (auto split: sum.splits)

lemma run_steps_Cons_None:
  "run_steps (s # ss) f = (None, f') \<longleftrightarrow> (\<exists>g. s f = Inr g \<and> run_steps ss g = (None, f'))"
  by (auto split: sum.splits)

lemma assembly_split:
  "assembly e self d =
     (\<lambda>f. Inr (after_rmtree e f d))
     # (\<lambda>f. mkdir_parents (default_dir_mode e) False f d)
     # drop 2 (assembly e self d)"
  by (simp add: assembly_def Let_def after_rmtree_def)

lemma mkdir_parents_exists:
  "exists_p f p \<Longrightarrow> mkdir_parents md False f p = Inl (FileExistsError (path_str p))"
  by (subst mkdir_parents.simps) (auto simp: mkdir1_def exists_p_def split: option.splits)

lemma dump_target_exists:
  assumes "exists_p (after_rmtree e (files w) d) d"
    and "d = join_str (join_str output_path (manufacturer (dt_device_info self)))
               (codename (dt_device_info self))"
  shows "dump_to_folder e self w output_path git =
           (Inl (FileExistsError (path_str d)), w\<lparr>files := after_rmtree e (files w) d\<rparr>)"
proof -
  have "run_steps (assembly e self d) (files w) =
          (Some (FileExistsError (path_str d)), after_rmtree e (files w) d)"
    by (subst assembly_split) (simp add: mkdir_parents_exists [OF assms(1)])
  then show ?thesis
    by (simp add: dump_to_folder_def Let_def assms(2) [symmetric])
qed

lemma dump_success_created:
  assumes "dump_to_folder e self w output_path git = (Inr r, w')"
    and "d = join_str (join_str output_path (manufacturer (dt_device_info self)))
               (codename (dt_device_info self))"
  shows "\<not> exists_p (after_rmtree e (files w) d) d"
  using assms dump_target_exists [of e w d output_path self git] by auto

section \<open>Permission bits along a run\<close>












section \<open>The tree a run builds\<close>

lemma child_neq2: "d \<noteq> child d n"
  by (cases d) (simp add: child_def)

lemma beneath_grandchild: "beneath d (child (child d a) b)"
  by (simp add: beneath_def child_def)

lemma grandchild_neq: "child (child d a) b \<noteq> d" "d \<noteq> child (child d a) b"
  by (cases d, simp add: child_def)+

lemma grandchild_neq_child: "child (child d a) b \<noteq> child d n" "child d n \<noteq> child (child d a) b"
  by (cases d, simp add: child_def)+

lemma mkdir_parents_child:
  "f (child d n) = None \<Longrightarrow> is_dir f d \<Longrightarrow>
   mkdir_parents md ok f (child d n) = Inr (f(child d n \<mapsto> Dir md))"
  by (subst mkdir_parents.simps)
     (auto simp: mkdir1_def parent_child is_dir_def split: option.splits node.splits)

lemma mkdir_parents_grandchild:
  assumes "f (child (child d a) b) = None" and "f (child d a) = None" and "is_dir f d"
  shows "mkdir_parents md ok f (child (child d a) b) =
           Inr (f(child d a \<mapsto> Dir md, child (child d a) b \<mapsto> Dir md))"
proof -
  have 1: "mkdir1 md f (child (child d a) b) = Inl (FileNotFoundError (path_str (child (child d a) b)))"
    using assms by (simp add: mkdir1_def parent_child)
  have 2: "mkdir_parents md True f (child d a) = Inr (f(child d a \<mapsto> Dir md))"
    using assms by (simp add: mkdir_parents_child)
  have 3: "mkdir_noparents md ok (f(child d a \<mapsto> Dir md)) (child (child d a) b) =
             Inr (f(child d a \<mapsto> Dir md, child (child d a) b \<mapsto> Dir md))"
    using assms by (simp add: mkdir_noparents_def mkdir1_def parent_child child_neq child_neq2)
  show ?thesis
    by (subst mkdir_parents.simps) (simp add: 1 2 3 parent_child child_neq child_neq2)
qed

lemma head_steps:
  "take 14 (drop 2 (assembly e self d)) =
     [ (\<lambda>f. mkdir_parents (default_dir_mode e) False f (child d ''prebuilt'')),
       (\<lambda>f. mkdir_parents (default_dir_mode e) False f (child (child d ''recovery'') ''root'')),
       DeviceTree_render_template e self d ''Android.bp'' ''//'' [],
       DeviceTree_render_template e self d ''Android.mk'' ''#'' [],
       DeviceTree_render_template e self d ''AndroidProducts.mk'' ''#'' [],
       DeviceTree_render_template e self d ''BoardConfig.mk'' ''#'' [],
       DeviceTree_render_template e self d ''device.mk'' ''#'' [],
       DeviceTree_render_template e self d ''extract-files.sh'' ''#'' [],
       DeviceTree_render_template e self d ''omni_device.mk'' ''#''
         (''omni_'' @ codename (dt_device_info self) @ ''.mk''),
       DeviceTree_render_template e self d ''README.md'' ''#'' [],
       DeviceTree_render_template e self d ''setup-makefiles.sh'' ''#'' [],
       DeviceTree_render_template e self d ''vendorsetup.sh'' ''#'' [],
       (\<lambda>f. chmod f (child d ''extract-files.sh'') (S_IRWXU OR S_IRGRP OR S_IROTH)),
       (\<lambda>f. chmod f (child d ''setup-makefiles.sh'') (S_IRWXU OR S_IRGRP OR S_IROTH)) ]"
  by (simp add: assembly_def Let_def join_str_plain)

lemma render_fresh:
  assumes "plain out" and "f (child d out) = None" and "is_dir f d"
  shows "DeviceTree_render_template e self d t cp out f =
           Inr (f(child d out \<mapsto> File (render e t (make_ctx e self cp)) (default_file_mode e)))"
  using assms
  by (auto simp: DeviceTree_render_template_def render_template_def write_text_def plain_def
        join_str_plain parent_child is_dir_def split: option.splits node.splits)

lemma render_fresh_default:
  assumes "plain t" and "f (child d t) = None" and "is_dir f d"
  shows "DeviceTree_render_template e self d t cp [] f =
           Inr (f(child d t \<mapsto> File (render e t (make_ctx e self cp)) (default_file_mode e)))"
  using assms
  by (auto simp: DeviceTree_render_template_def render_template_def write_text_def plain_def
        join_str_plain parent_child is_dir_def split: option.splits node.splits)

lemma chmod_file:
  "f p = Some (File c m0) \<Longrightarrow> chmod f p m = Inr (f(p \<mapsto> File c m))"
  by (simp add: chmod_def)

lemma head_run:
  assumes d: "f d = Some (Dir m0)"
    and emp: "\<forall>q. beneath d q \<and> q \<noteq> d \<longrightarrow> f q = None"
    and cn: "CHR ''/'' \<notin> set (codename (dt_device_info self))"
  shows "run_steps (take 14 (drop 2 (assembly e self d))) f = (None, base_tree e self d f)"
proof -
  have c1: "\<And>n. f (child d n) = None"
    using emp beneath_child child_neq by blast
  have c2: "\<And>a b. f (child (child d a) b) = None"
    using emp beneath_grandchild grandchild_neq(1) by blast
  have dir: "is_dir f d"
    using d by (simp add: is_dir_def)
  have om: "plain (''omni_'' @ codename (dt_device_info self) @ ''.mk'')"
    using cn by (simp add: plain_def)
  show ?thesis
    unfolding head_steps base_tree_def
    using c1 c2 dir d om
    by (simp add: mkdir_parents_child mkdir_parents_grandchild render_fresh render_fresh_default
          chmod_file plain_def is_dir_def child_inject child_neq child_neq2
          grandchild_neq grandchild_neq_child fun_upd_twist)
qed

lemma outside_neq:
  "\<not> beneath d s \<Longrightarrow> beneath d t \<Longrightarrow> s \<noteq> t"
  by auto

lemma beneath_ggchild: "beneath d (child (child (child d a) b) c)"
  by (simp add: beneath_def child_def)

lemma outside_base:
  assumes "\<not> beneath d s"
  shows "base_tree e self d f s = f s"
proof -
  have "\<And>n. s \<noteq> child d n" "\<And>a b. s \<noteq> child (child d a) b"
    using assms beneath_child beneath_grandchild by blast+
  then show ?thesis
    by (simp add: base_tree_def)
qed

lemma opt_copy_step:
  assumes src: "\<forall>s. k = Some s \<longrightarrow> is_file f s \<and> \<not> beneath d s"
    and agree: "\<forall>s. \<not> beneath d s \<longrightarrow> g s = f s"
    and dst: "beneath d dst" "g dst = None" "is_dir g (parent dst)"
  shows "(case k of None \<Rightarrow> Inr g
          | Some s \<Rightarrow> copyfile (default_file_mode e) g s dst) =
           Inr (g(dst := artifact_node e f k))"
proof (cases k)
  case None
  then show ?thesis
    using dst(2) fun_upd_triv [of g dst] by (simp add: artifact_node_def)
next
  case (Some s)
  then have s: "is_file f s" "\<not> beneath d s"
    using src by simp_all
  then have gs: "g s = f s" and ne: "s \<noteq> dst"
    using agree dst(1) by auto
  from s(1) obtain c m where c: "f s = Some (File c m)"
    by (auto simp: is_file_def split: option.splits node.splits)
  show ?thesis
    using Some gs ne c dst(2,3)
    by (auto simp: copyfile_def write_text_def artifact_node_def content_of_def is_dir_def
          split: option.splits node.splits)
qed

lemma tail_steps:
  "drop 16 (assembly e self d) =
     [ (\<lambda>f. case kernel (dt_image_info self) of
               None \<Rightarrow> Inr f
             | Some src \<Rightarrow> copyfile (default_file_mode e) f src
                             (child (child d ''prebuilt'') ''kernel'')),
       (\<lambda>f. case dt (dt_image_info self) of
               None \<Rightarrow> Inr f
             | Some src \<Rightarrow> copyfile (default_file_mode e) f src
                             (child (child d ''prebuilt'') ''dt.img'')),
       (\<lambda>f. case dtb (dt_image_info self) of
               None \<Rightarrow> Inr f
             | Some src \<Rightarrow> copyfile (default_file_mode e) f src
                             (child (child d ''prebuilt'') ''dtb.img'')),
       (\<lambda>f. case dtbo (dt_image_info self) of
               None \<Rightarrow> Inr f
             | Some src \<Rightarrow> copyfile (default_file_mode e) f src
                             (child (child d ''prebuilt'') ''dtbo.img'')),
       (\<lambda>f. write_text (default_file_mode e) f (child d ''recovery.fstab'')
               (format_fstab e (dt_fstab self))) ]
     @ map (\<lambda>init_rc f.
              copyfile (default_file_mode e) f init_rc
                (join_str (child (child d ''recovery'') ''root'') (name_of init_rc)))
         (init_rcs self)"
  by (simp add: assembly_def Let_def join_str_plain cong: option.case_cong)

lemma prebuilts_run:
  assumes dd: "f d = Some (Dir m0)"
    and emp: "\<forall>q. beneath d q \<and> q \<noteq> d \<longrightarrow> f q = None"
    and k1: "\<forall>s. kernel (dt_image_info self) = Some s \<longrightarrow> is_file f s \<and> \<not> beneath d s"
    and k2: "\<forall>s. dt (dt_image_info self) = Some s \<longrightarrow> is_file f s \<and> \<not> beneath d s"
    and k3: "\<forall>s. dtb (dt_image_info self) = Some s \<longrightarrow> is_file f s \<and> \<not> beneath d s"
    and k4: "\<forall>s. dtbo (dt_image_info self) = Some s \<longrightarrow> is_file f s \<and> \<not> beneath d s"
  shows "run_steps (take 5 (drop 16 (assembly e self d))) (base_tree e self d f) =
           (None, with_fstab e self d (with_prebuilts e self d f (base_tree e self d f)))"
proof -
  let ?g0 = "base_tree e self d f"
  let ?P = "child d ''prebuilt''"
  let ?g1 = "?g0(child ?P ''kernel'' := artifact_node e f (kernel (dt_image_info self)))"
  let ?g2 = "?g1(child ?P ''dt.img'' := artifact_node e f (dt (dt_image_info self)))"
  let ?g3 = "?g2(child ?P ''dtb.img'' := artifact_node e f (dtb (dt_image_info self)))"
  let ?g4 = "?g3(child ?P ''dtbo.img'' := artifact_node e f (dtbo (dt_image_info self)))"
  have c2: "\<And>a b. f (child (child d a) b) = None"
    using emp beneath_grandchild grandchild_neq(1) by blast
  have c1: "\<And>n. f (child d n) = None"
    using emp beneath_child child_neq by blast
  have p0: "\<And>n. ?g0 (child ?P n) = None"
    by (simp add: base_tree_def c2 child_inject child_neq child_neq2)
  have d0: "is_dir ?g0 ?P"
    by (simp add: base_tree_def is_dir_def child_inject child_neq child_neq2)
  have a0: "\<forall>s. \<not> beneath d s \<longrightarrow> ?g0 s = f s"
    by (simp add: outside_base)
  have u: "\<And>n. beneath d (child ?P n)"
    by (rule beneath_grandchild)
  have a1: "\<forall>s. \<not> beneath d s \<longrightarrow> ?g1 s = f s"
    using a0 u by auto
  have a2: "\<forall>s. \<not> beneath d s \<longrightarrow> ?g2 s = f s"
    using a1 u by auto
  have a3: "\<forall>s. \<not> beneath d s \<longrightarrow> ?g3 s = f s"
    using a2 u by auto
  have p1: "?g1 (child ?P ''dt.img'') = None"
    using p0 by (simp add: child_inject)
  have p2: "?g2 (child ?P ''dtb.img'') = None"
    using p0 by (simp add: child_inject)
  have p3: "?g3 (child ?P ''dtbo.img'') = None"
    using p0 by (simp add: child_inject)
  have d1: "is_dir ?g1 ?P" "is_dir ?g2 ?P" "is_dir ?g3 ?P"
    using d0 by (simp_all add: is_dir_def child_neq child_neq2)
  have s1: "(case kernel (dt_image_info self) of None \<Rightarrow> Inr ?g0
             | Some s \<Rightarrow> copyfile (default_file_mode e) ?g0 s (child ?P ''kernel'')) = Inr ?g1"
    by (rule opt_copy_step [OF k1 a0 u p0]) (simp only: parent_child d0)
  have s2: "(case dt (dt_image_info self) of None \<Rightarrow> Inr ?g1
             | Some s \<Rightarrow> copyfile (default_file_mode e) ?g1 s (child ?P ''dt.img'')) = Inr ?g2"
    by (rule opt_copy_step [OF k2 a1 u p1]) (simp only: parent_child d1)
  have s3: "(case dtb (dt_image_info self) of None \<Rightarrow> Inr ?g2
             | Some s \<Rightarrow> copyfile (default_file_mode e) ?g2 s (child ?P ''dtb.img'')) = Inr ?g3"
    by (rule opt_copy_step [OF k3 a2 u p2]) (simp only: parent_child d1)
  have s4: "(case dtbo (dt_image_info self) of None \<Rightarrow> Inr ?g3
             | Some s \<Rightarrow> copyfile (default_file_mode e) ?g3 s (child ?P ''dtbo.img'')) = Inr ?g4"
    by (rule opt_copy_step [OF k4 a3 u p3]) (simp only: parent_child d1)
  have g4: "?g4 = with_prebuilts e self d f ?g0"
    by (simp add: with_prebuilts_def)
  have fd: "?g4 d = f d"
    by (simp add: base_tree_def child_neq child_neq2 grandchild_neq)
  have s5: "write_text (default_file_mode e) ?g4 (child d ''recovery.fstab'')
              (format_fstab e (dt_fstab self)) =
            Inr (?g4(child d ''recovery.fstab'' \<mapsto>
                   File (format_fstab e (dt_fstab self)) (default_file_mode e)))"
    using fd dd
    by (simp add: write_text_def parent_child base_tree_def c1 child_inject child_neq child_neq2)
  have t: "take 5 (drop 16 (assembly e self d)) =
     [ (\<lambda>f. case kernel (dt_image_info self) of
               None \<Rightarrow> Inr f
             | Some src \<Rightarrow> copyfile (default_file_mode e) f src (child ?P ''kernel'')),
       (\<lambda>f. case dt (dt_image_info self) of
               None \<Rightarrow> Inr f
             | Some src \<Rightarrow> copyfile (default_file_mode e) f src (child ?P ''dt.img'')),
       (\<lambda>f. case dtb (dt_image_info self) of
               None \<Rightarrow> Inr f
             | Some src \<Rightarrow> copyfile (default_file_mode e) f src (child ?P ''dtb.img'')),
       (\<lambda>f. case dtbo (dt_image_info self) of
               None \<Rightarrow> Inr f
             | Some src \<Rightarrow> copyfile (default_file_mode e) f src (child ?P ''dtbo.img'')),
       (\<lambda>f. write_text (default_file_mode e) f (child d ''recovery.fstab'')
               (format_fstab e (dt_fstab self))) ]"
    by (simp add: tail_steps)
  have r5: "run_steps [\<lambda>f. write_text (default_file_mode e) f (child d ''recovery.fstab'')
               (format_fstab e (dt_fstab self))] ?g4 =
            (None, with_fstab e self d (with_prebuilts e self d f ?g0))"
    by (simp only: run_steps.simps s5 sum.case g4 [symmetric] with_fstab_def)
  have r4: "run_steps [\<lambda>f. case dtbo (dt_image_info self) of
               None \<Rightarrow> Inr f
             | Some src \<Rightarrow> copyfile (default_file_mode e) f src (child ?P ''dtbo.img''),
             \<lambda>f. write_text (default_file_mode e) f (child d ''recovery.fstab'')
               (format_fstab e (dt_fstab self))] ?g3 =
            (None, with_fstab e self d (with_prebuilts e self d f ?g0))"
    by (subst run_steps.simps) (simp only: s4 sum.case r5)
  have r3: "run_steps [\<lambda>f. case dtb (dt_image_info self) of
               None \<Rightarrow> Inr f
             | Some src \<Rightarrow> copyfile (default_file_mode e) f src (child ?P ''dtb.img''),
             \<lambda>f. case dtbo (dt_image_info self) of
               None \<Rightarrow> Inr f
             | Some src \<Rightarrow> copyfile (default_file_mode e) f src (child ?P ''dtbo.img''),
             \<lambda>f. write_text (default_file_mode e) f (child d ''recovery.fstab'')
               (format_fstab e (dt_fstab self))] ?g2 =
            (None, with_fstab e self d (with_prebuilts e self d f ?g0))"
    by (subst run_steps.simps) (simp only: s3 sum.case r4)
  have r2: "run_steps [\<lambda>f. case dt (dt_image_info self) of
               None \<Rightarrow> Inr f
             | Some src \<Rightarrow> copyfile (default_file_mode e) f src (child ?P ''dt.img''),
             \<lambda>f. case dtb (dt_image_info self) of
               None \<Rightarrow> Inr f
             | Some src \<Rightarrow> copyfile (default_file_mode e) f src (child ?P ''dtb.img''),
             \<lambda>f. case dtbo (dt_image_info self) of
               None \<Rightarrow> Inr f
             | Some src \<Rightarrow> copyfile (default_file_mode e) f src (child ?P ''dtbo.img''),
             \<lambda>f. write_text (default_file_mode e) f (child d ''recovery.fstab'')
               (format_fstab e (dt_fstab self))] ?g1 =
            (None, with_fstab e self d (with_prebuilts e self d f ?g0))"
    by (subst run_steps.simps) (simp only: s2 sum.case r3)
  show ?thesis
    unfolding t by (subst run_steps.simps) (simp only: s1 sum.case r2)
qed

lemma scripts_run:
  assumes "is_dir g (child (child d ''recovery'') ''root'')"
    and "\<forall>n. g (child (child (child d ''recovery'') ''root'') n) = None
           \<or> (\<exists>c. g (child (child (child d ''recovery'') ''root'') n)
                   = Some (File c (default_file_mode e)))"
    and "\<forall>rc\<in>set rcs. is_file f rc \<and> \<not> beneath d rc \<and> plain (name_of rc)"
    and "\<forall>s. \<not> beneath d s \<longrightarrow> g s = f s"
  shows "run_steps
           (map (\<lambda>init_rc h.
                   copyfile (default_file_mode e) h init_rc
                     (join_str (child (child d ''recovery'') ''root'') (name_of init_rc)))
              rcs) g =
         (None, with_scripts e d f rcs g)"
  using assms
proof (induction rcs arbitrary: g)
  case Nil
  then show ?case by (simp add: with_scripts_def)
next
  case (Cons rc rcs)
  let ?R = "child (child d ''recovery'') ''root''"
  let ?dst = "child ?R (name_of rc)"
  let ?g = "g(?dst \<mapsto> File (content_of f rc) (default_file_mode e))"
  have rc: "is_file f rc" "\<not> beneath d rc" "plain (name_of rc)"
    using Cons.prems(3) by simp_all
  have j: "join_str ?R (name_of rc) = ?dst"
    using rc(3) by (simp add: plain_def join_str_plain)
  have ud: "beneath d ?dst"
    by (rule beneath_ggchild)
  then have ne: "rc \<noteq> ?dst"
    using rc(2) by auto
  have grc: "g rc = f rc"
    using Cons.prems(4) rc(2) by simp
  obtain c m where c: "f rc = Some (File c m)"
    using rc(1) by (auto simp: is_file_def split: option.splits node.splits)
  have step: "copyfile (default_file_mode e) g rc (join_str ?R (name_of rc)) = Inr ?g"
    using Cons.prems(1) Cons.prems(2) [rule_format, of "name_of rc"] ne grc c
    by (auto simp: j copyfile_def write_text_def content_of_def parent_child is_dir_def
          split: option.splits node.splits)
  have i1: "is_dir ?g ?R"
    using Cons.prems(1) by (simp add: is_dir_def child_neq child_neq2)
  have i2: "\<forall>n. ?g (child ?R n) = None \<or> (\<exists>c. ?g (child ?R n) = Some (File c (default_file_mode e)))"
    using Cons.prems(2) by simp
  have i3: "\<forall>rc\<in>set rcs. is_file f rc \<and> \<not> beneath d rc \<and> plain (name_of rc)"
    using Cons.prems(3) by simp
  have i4: "\<forall>s. \<not> beneath d s \<longrightarrow> ?g s = f s"
    using Cons.prems(4) ud by auto
  have "run_steps
           (map (\<lambda>init_rc h.
                   copyfile (default_file_mode e) h init_rc
                     (join_str ?R (name_of init_rc)))
              rcs) ?g =
         (None, with_scripts e d f rcs ?g)"
    by (rule Cons.IH [OF i1 i2 i3 i4])
  then show ?case
    using step by (simp add: with_scripts_def)
qed


lemma with_scripts_other:
  "\<forall>rc\<in>set rcs. child (child (child d ''recovery'') ''root'') (name_of rc) \<noteq> p
     \<Longrightarrow> with_scripts e d f rcs g p = g p"
  unfolding with_scripts_def
  by (induction rcs arbitrary: g) auto

lemma with_scripts_append:
  "with_scripts e d f (xs @ ys) g = with_scripts e d f ys (with_scripts e d f xs g)"
  by (simp add: with_scripts_def)

lemma with_scripts_last:
  assumes "rcs = pre @ rc # post" and "\<forall>r\<in>set post. name_of r \<noteq> name_of rc"
  shows "with_scripts e d f rcs g (child (child (child d ''recovery'') ''root'') (name_of rc)) =
           Some (File (content_of f rc) (default_file_mode e))"
proof -
  let ?p = "child (child (child d ''recovery'') ''root'') (name_of rc)"
  have "with_scripts e d f rcs g =
          with_scripts e d f post (with_scripts e d f [rc] (with_scripts e d f pre g))"
    by (simp add: assms(1) with_scripts_def)
  moreover have "\<forall>r\<in>set post. child (child (child d ''recovery'') ''root'') (name_of r) \<noteq> ?p"
    using assms(2) by (simp add: child_inject)
  ultimately have "with_scripts e d f rcs g ?p = with_scripts e d f [rc] (with_scripts e d f pre g) ?p"
    by (simp add: with_scripts_other)
  then show ?thesis
    by (simp add: with_scripts_def)
qed

lemma ggchild_neq: "child (child (child d a) b) c \<noteq> d"
  by (cases d) (simp add: child_def)

lemma with_scripts_shallow:
  "with_scripts e d f rcs g (child d n) = g (child d n)"
  "with_scripts e d f rcs g (child (child d a) b) = g (child (child d a) b)"
  "with_scripts e d f rcs g d = g d"
  by (simp_all add: with_scripts_other child_inject child_neq child_neq2 grandchild_neq
        ggchild_neq)

lemma with_scripts_outside:
  "\<not> beneath d s \<Longrightarrow> with_scripts e d f rcs g s = g s"
  using beneath_ggchild [of d] by (intro with_scripts_other) auto

lemma generated_outside:
  assumes "\<not> beneath d s"
  shows "generated e self d f s = f s"
proof -
  have "\<And>n. s \<noteq> child d n" "\<And>a b. s \<noteq> child (child d a) b"
    using assms beneath_child beneath_grandchild by blast+
  then show ?thesis
    using assms
    by (simp add: generated_def with_scripts_outside with_fstab_def with_prebuilts_def
          outside_base)
qed

lemma rest_run:
  assumes dd: "f d = Some (Dir m0)"
    and emp: "\<forall>q. beneath d q \<and> q \<noteq> d \<longrightarrow> f q = None"
    and cn: "CHR ''/'' \<notin> set (codename (dt_device_info self))"
    and k1: "\<forall>s. kernel (dt_image_info self) = Some s \<longrightarrow> is_file f s \<and> \<not> beneath d s"
    and k2: "\<forall>s. dt (dt_image_info self) = Some s \<longrightarrow> is_file f s \<and> \<not> beneath d s"
    and k3: "\<forall>s. dtb (dt_image_info self) = Some s \<longrightarrow> is_file f s \<and> \<not> beneath d s"
    and k4: "\<forall>s. dtbo (dt_image_info self) = Some s \<longrightarrow> is_file f s \<and> \<not> beneath d s"
    and rc: "\<forall>rc\<in>set (init_rcs self). is_file f rc \<and> \<not> beneath d rc \<and> plain (name_of rc)"
  shows "run_steps (drop 2 (assembly e self d)) f = (None, generated e self d f)"
proof -
  let ?A = "assembly e self d"
  let ?R = "child (child d ''recovery'') ''root''"
  let ?g = "with_fstab e self d (with_prebuilts e self d f (base_tree e self d f))"
  have sp: "drop 2 ?A = take 14 (drop 2 ?A) @ take 5 (drop 16 ?A) @ drop 21 ?A"
  proof -
    have "drop 2 ?A = take 14 (drop 2 ?A) @ drop 14 (drop 2 ?A)"
      by (rule append_take_drop_id [symmetric])
    moreover have "drop 14 (drop 2 ?A) = drop 16 ?A"
      by simp
    moreover have "drop 16 ?A = take 5 (drop 16 ?A) @ drop 5 (drop 16 ?A)"
      by (rule append_take_drop_id [symmetric])
    moreover have "drop 5 (drop 16 ?A) = drop 21 ?A"
      by simp
    ultimately show ?thesis
      by metis
  qed
  have t: "drop 21 ?A =
             map (\<lambda>init_rc h.
                    copyfile (default_file_mode e) h init_rc (join_str ?R (name_of init_rc)))
               (init_rcs self)"
  proof -
    have "drop 21 ?A = drop 5 (drop 16 ?A)"
      by simp
    then show ?thesis
      by (simp add: tail_steps)
  qed
  have c3: "\<And>n. f (child ?R n) = None"
    using emp beneath_ggchild ggchild_neq by blast
  have g1: "is_dir ?g ?R"
    by (simp add: with_fstab_def with_prebuilts_def base_tree_def is_dir_def child_inject
          child_neq child_neq2 grandchild_neq)
  have g2: "\<forall>n. ?g (child ?R n) = None
              \<or> (\<exists>c. ?g (child ?R n) = Some (File c (default_file_mode e)))"
    by (simp add: with_fstab_def with_prebuilts_def base_tree_def c3 child_inject child_neq
          child_neq2 grandchild_neq)
  have g3: "\<forall>s. \<not> beneath d s \<longrightarrow> ?g s = f s"
  proof (intro allI impI)
    fix s
    assume s: "\<not> beneath d s"
    then have "\<And>n. s \<noteq> child d n" "\<And>a b. s \<noteq> child (child d a) b"
      using beneath_child beneath_grandchild by blast+
    then show "?g s = f s"
      using s by (simp add: with_fstab_def with_prebuilts_def outside_base)
  qed
  have r1: "run_steps (take 14 (drop 2 ?A)) f = (None, base_tree e self d f)"
    by (rule head_run [OF dd emp cn])
  have r2: "run_steps (take 5 (drop 16 ?A)) (base_tree e self d f) = (None, ?g)"
    by (rule prebuilts_run [OF dd emp k1 k2 k3 k4])
  have r3: "run_steps (drop 21 ?A) ?g = (None, with_scripts e d f (init_rcs self) ?g)"
    unfolding t by (rule scripts_run [OF g1 g2 rc g3])
  have "run_steps (take 14 (drop 2 ?A) @ take 5 (drop 16 ?A) @ drop 21 ?A) f =
          (None, with_scripts e d f (init_rcs self) ?g)"
    by (simp only: run_steps_append r1 r2 r3 prod.case option.case)
  then show ?thesis
    using sp by (simp add: generated_def)
qed

lemma after_rmtree_outside: "\<not> beneath d s \<Longrightarrow> after_rmtree e f d s = f s"
  by (simp add: after_rmtree_def rmtree_ignore_errors_def)

lemma after_rmtree_empty:
  assumes "no_orphans f d" and "after_rmtree e f d d = None" and "beneath d q"
  shows "after_rmtree e f d q = None"
proof (cases "is_dir f d")
  case True
  then have fd: "f d \<noteq> None"
    by (auto simp: is_dir_def split: option.splits)
  have "\<not> list_ex (\<lambda>s. beneath d s \<and> exists_p f s) (undeletable e)"
    using assms(2) True fd by (auto simp: after_rmtree_def rmtree_ignore_errors_def beneath_refl)
  then have "\<not> list_ex (\<lambda>s. beneath q s \<and> exists_p f s) (undeletable e)"
    using beneath_trans [OF assms(3)] by (auto simp: list_ex_iff)
  then show ?thesis
    using True assms(3) by (simp add: after_rmtree_def rmtree_ignore_errors_def)
next
  case False
  then have "f d = None"
    using assms(2) by (simp add: after_rmtree_def)
  then have "f q = None"
    using assms(1,3) by (auto simp: no_orphans_def exists_p_def split: option.splits)
  then show ?thesis
    using False by (simp add: after_rmtree_def)
qed

lemma made_target:
  assumes no: "no_orphans f0 d"
    and mk: "mkdir_parents md False (after_rmtree e f0 d) d = Inr f2"
  shows "f2 d = Some (Dir md)"
    and "\<forall>q. beneath d q \<and> q \<noteq> d \<longrightarrow> f2 q = None"
    and "\<forall>s. \<not> beneath d s \<longrightarrow> f0 s \<noteq> None \<longrightarrow> f2 s = f0 s"
    and "is_dir f2 (parent d)" and "parent d \<noteq> d"
    and "\<forall>s. \<not> beneath s d \<longrightarrow> f2 s = after_rmtree e f0 d s"
proof -
  let ?f1 = "after_rmtree e f0 d"
  note m = mkdir_parents_Inr [OF mk]
  from m have a: "?f1 d = None" and b: "f2 d = Some (Dir md)"
    and c: "is_dir f2 (parent d)" "parent d \<noteq> d"
    by auto
  show "f2 d = Some (Dir md)" by (rule b)
  show "is_dir f2 (parent d)" "parent d \<noteq> d" by (rule c)+
  have ch: "\<And>q. f2 q = ?f1 q \<or> (?f1 q = None \<and> f2 q = Some (Dir md) \<and> beneath q d)"
    using m by blast
  show "\<forall>q. beneath d q \<and> q \<noteq> d \<longrightarrow> f2 q = None"
  proof (intro allI impI)
    fix q
    assume q: "beneath d q \<and> q \<noteq> d"
    then have "\<not> beneath q d"
      using beneath_antisym by blast
    then have "f2 q = ?f1 q"
      using ch by blast
    then show "f2 q = None"
      using after_rmtree_empty [OF no a] q by simp
  qed
  show "\<forall>s. \<not> beneath d s \<longrightarrow> f0 s \<noteq> None \<longrightarrow> f2 s = f0 s"
  proof (intro allI impI)
    fix s
    assume s: "\<not> beneath d s" "f0 s \<noteq> None"
    then have "?f1 s = f0 s"
      by (simp add: after_rmtree_outside)
    then show "f2 s = f0 s"
      using ch [of s] s(2) by auto
  qed
  show "\<forall>s. \<not> beneath s d \<longrightarrow> f2 s = ?f1 s"
    using ch by blast
qed


lemma run_None_snd: "run_steps ss f = (None, f') \<Longrightarrow> snd (run_steps ss f) = f'"
  by simp












lemma generated_self: "generated e self d f d = f d"
  by (simp add: generated_def with_scripts_shallow with_fstab_def with_prebuilts_def
        base_tree_def child_neq child_neq2 grandchild_neq)

lemma generated_child:
  "generated e self d f (child d n) =
     with_fstab e self d (base_tree e self d f) (child d n)"
  by (simp add: generated_def with_scripts_shallow with_fstab_def with_prebuilts_def
        child_inject child_neq child_neq2)

lemma generated_prebuilt:
  "generated e self d f (child (child d ''prebuilt'') n) =
     (if n = ''dtbo.img'' then artifact_node e f (dtbo (dt_image_info self))
      else if n = ''dtb.img'' then artifact_node e f (dtb (dt_image_info self))
      else if n = ''dt.img'' then artifact_node e f (dt (dt_image_info self))
      else if n = ''kernel'' then artifact_node e f (kernel (dt_image_info self))
      else f (child (child d ''prebuilt'') n))"
  by (simp add: generated_def with_scripts_shallow with_fstab_def with_prebuilts_def
        base_tree_def child_inject child_neq child_neq2)

lemma generated_root:
  assumes "init_rcs self = pre @ rc # post" and "\<forall>r\<in>set post. name_of r \<noteq> name_of rc"
  shows "generated e self d f (child (child (child d ''recovery'') ''root'') (name_of rc)) =
           Some (File (content_of f rc) (default_file_mode e))"
  by (simp add: generated_def with_scripts_last [OF assms])

lemma generated_changed:
  "generated e self d f p = f p \<or> (\<exists>n. p = child d n)
   \<or> (\<exists>n. p = child (child d ''prebuilt'') n)
   \<or> p = child (child d ''recovery'') ''root''
   \<or> (\<exists>n. p = child (child (child d ''recovery'') ''root'') n)"
proof (cases "(\<exists>n. p = child d n) \<or> (\<exists>n. p = child (child d ''prebuilt'') n)
   \<or> p = child (child d ''recovery'') ''root''
   \<or> (\<exists>n. p = child (child (child d ''recovery'') ''root'') n)")
  case True
  then show ?thesis by blast
next
  case False
  then have n: "\<And>n. p \<noteq> child d n" "\<And>n. p \<noteq> child (child d ''prebuilt'') n"
    "p \<noteq> child (child d ''recovery'') ''root''"
    "\<And>n. p \<noteq> child (child (child d ''recovery'') ''root'') n"
    by blast+
  have ws: "\<And>g. with_scripts e d f (init_rcs self) g p = g p"
    using n(4) by (intro with_scripts_other) auto
  have "generated e self d f p = f p"
    using n(1-3) by (simp add: generated_def ws with_fstab_def with_prebuilts_def base_tree_def)
  then show ?thesis by simp
qed

lemma beneath_prebuilt_cases:
  assumes "beneath (child d ''prebuilt'') p"
  shows "p \<noteq> child (child d ''recovery'') ''root''"
    and "p \<noteq> child (child (child d ''recovery'') ''root'') n"
    and "p = child d m \<Longrightarrow> p = child d ''prebuilt''"
  using assms by (auto simp: beneath_def child_def)

lemma beneath_child_trans: "beneath (child d n) p \<Longrightarrow> beneath d p"
  using beneath_trans [OF beneath_child] by blast

lemma generated_prebuilt_rest:
  assumes emp: "\<forall>q. beneath d q \<and> q \<noteq> d \<longrightarrow> f q = None"
    and p: "beneath (child d ''prebuilt'') p"
    and n: "p \<noteq> child d ''prebuilt''"
      "p \<noteq> child (child d ''prebuilt'') ''kernel''"
      "p \<noteq> child (child d ''prebuilt'') ''dt.img''"
      "p \<noteq> child (child d ''prebuilt'') ''dtb.img''"
      "p \<noteq> child (child d ''prebuilt'') ''dtbo.img''"
  shows "generated e self d f p = None"
proof -
  have bd: "beneath d p"
    using p by (rule beneath_child_trans)
  have pd: "p \<noteq> d"
    using p beneath_antisym [OF beneath_child, of d "''prebuilt''"] child_neq by metis
  have fp: "f p = None"
    using emp bd pd by blast
  from generated_changed [of e self d f p] show ?thesis
  proof (elim disjE exE)
    assume "generated e self d f p = f p"
    then show ?thesis using fp by simp
  next
    fix m assume "p = child d m"
    then show ?thesis using beneath_prebuilt_cases(3) [OF p] n(1) by blast
  next
    fix m assume m: "p = child (child d ''prebuilt'') m"
    then have "generated e self d f p = f p"
      using n by (auto simp: generated_prebuilt)
    then show ?thesis using fp by simp
  next
    assume "p = child (child d ''recovery'') ''root''"
    then show ?thesis using beneath_prebuilt_cases(1) [OF p] by blast
  next
    fix m assume "p = child (child (child d ''recovery'') ''root'') m"
    then show ?thesis using beneath_prebuilt_cases(2) [OF p] by blast
  qed
qed

lemma generated_git:
  assumes "\<forall>q. beneath d q \<and> q \<noteq> d \<longrightarrow> f q = None"
  shows "generated e self d f (child d ''.git'') = None"
proof -
  have "f (child d ''.git'') = None"
    using assms beneath_child child_neq by blast
  then show ?thesis
    by (simp add: generated_child with_fstab_def base_tree_def child_inject)
qed

lemma git_snapshot_fresh:
  assumes "files w (child d ''.git'') = None"
  shows "\<exists>w'. git_snapshot e self d w = (Inr d, w')
           \<and> files w' = (files w)(child d ''.git'' \<mapsto> Dir (default_dir_mode e))"
proof -
  have j: "join_str d ''.git'' = child d ''.git''"
    by (simp add: join_str_plain)
  have b: "\<And>u s o' v. files (set_value u d s o' v) = files u"
    by (simp add: set_value_def split: option.splits)
  have c: "\<And>u m. files (index_commit u d m) = files u"
    by (simp add: index_commit_def split: option.splits)
  show ?thesis
    using assms
    by (auto simp: git_snapshot_def Repo_init_def j Let_def b c split: prod.splits)
qed

lemma assembly_generated:
  assumes no: "no_orphans f0 d"
    and mk: "mkdir_parents (default_dir_mode e) False (after_rmtree e f0 d) d = Inr f2"
    and cn: "CHR ''/'' \<notin> set (codename (dt_device_info self))"
    and k1: "\<forall>s. kernel (dt_image_info self) = Some s \<longrightarrow> is_file f0 s \<and> \<not> beneath d s"
    and k2: "\<forall>s. dt (dt_image_info self) = Some s \<longrightarrow> is_file f0 s \<and> \<not> beneath d s"
    and k3: "\<forall>s. dtb (dt_image_info self) = Some s \<longrightarrow> is_file f0 s \<and> \<not> beneath d s"
    and k4: "\<forall>s. dtbo (dt_image_info self) = Some s \<longrightarrow> is_file f0 s \<and> \<not> beneath d s"
    and rc: "\<forall>rc\<in>set (init_rcs self). is_file f0 rc \<and> \<not> beneath d rc \<and> plain (name_of rc)"
  shows "run_steps (assembly e self d) f0 = (None, generated e self d f2)"
proof -
  note t = made_target [OF no mk]
  have tr: "\<And>s. is_file f0 s \<and> \<not> beneath d s \<Longrightarrow> is_file f2 s \<and> \<not> beneath d s"
    using t(3) by (auto simp: is_file_def split: option.splits node.splits)
  have r: "run_steps (drop 2 (assembly e self d)) f2 = (None, generated e self d f2)"
    by (rule rest_run [OF t(1) t(2) cn]) (use k1 k2 k3 k4 rc tr in blast)+
  show ?thesis
    by (subst assembly_split) (simp add: mk r)
qed

lemma moved_content:
  assumes no: "no_orphans f0 d"
    and mk: "mkdir_parents (default_dir_mode e) False (after_rmtree e f0 d) d = Inr f2"
    and s: "is_file f0 s" "\<not> beneath d s"
  shows "content_of f2 s = content_of f0 s"
  using made_target(3) [OF no mk] s
  by (auto simp: content_of_def is_file_def split: option.splits node.splits)

lemma dump_generated:
  assumes dd: "d = join_str (join_str output_path (manufacturer (dt_device_info self)))
               (codename (dt_device_info self))"
    and no: "no_orphans (files w) d"
    and mk: "mkdir_parents (default_dir_mode e) False (after_rmtree e (files w) d) d = Inr f2"
    and cn: "CHR ''/'' \<notin> set (codename (dt_device_info self))"
    and k1: "\<forall>s. kernel (dt_image_info self) = Some s \<longrightarrow> is_file (files w) s \<and> \<not> beneath d s"
    and k2: "\<forall>s. dt (dt_image_info self) = Some s \<longrightarrow> is_file (files w) s \<and> \<not> beneath d s"
    and k3: "\<forall>s. dtb (dt_image_info self) = Some s \<longrightarrow> is_file (files w) s \<and> \<not> beneath d s"
    and k4: "\<forall>s. dtbo (dt_image_info self) = Some s \<longrightarrow> is_file (files w) s \<and> \<not> beneath d s"
    and rc: "\<forall>rc\<in>set (init_rcs self).
               is_file (files w) rc \<and> \<not> beneath d rc \<and> plain (name_of rc)"
  shows "dump_to_folder e self w output_path False =
           (Inr d, w\<lparr>files := generated e self d f2\<rparr>)"
    and "\<exists>w'. dump_to_folder e self w output_path git = (Inr d, w')
           \<and> (\<forall>p. p \<noteq> child d ''.git'' \<longrightarrow> files w' p = generated e self d f2 p)"
proof -
  have r: "run_steps (assembly e self d) (files w) = (None, generated e self d f2)"
    by (rule assembly_generated [OF no mk cn k1 k2 k3 k4 rc])
  show a: "dump_to_folder e self w output_path False =
           (Inr d, w\<lparr>files := generated e self d f2\<rparr>)"
    using r by (simp add: dump_to_folder_def Let_def dd [symmetric])
  show "\<exists>w'. dump_to_folder e self w output_path git = (Inr d, w')
           \<and> (\<forall>p. p \<noteq> child d ''.git'' \<longrightarrow> files w' p = generated e self d f2 p)"
  proof (cases git)
    case False
    then show ?thesis using a by simp
  next
    case True
    have "files (w\<lparr>files := generated e self d f2\<rparr>) (child d ''.git'') = None"
      using generated_git [OF made_target(2) [OF no mk]] by simp
    from git_snapshot_fresh [OF this, of e self]
    obtain w' where "git_snapshot e self d (w\<lparr>files := generated e self d f2\<rparr>) = (Inr d, w')"
      and "files w' = (generated e self d f2)(child d ''.git'' \<mapsto> Dir (default_dir_mode e))"
      by auto
    then show ?thesis
      using True r by (simp add: dump_to_folder_def Let_def dd [symmetric])
  qed
qed

lemma artifact_node_moved:
  assumes no: "no_orphans f0 d"
    and mk: "mkdir_parents (default_dir_mode e) False (after_rmtree e f0 d) d = Inr f2"
    and k: "\<forall>s. k = Some s \<longrightarrow> is_file f0 s \<and> \<not> beneath d s"
  shows "artifact_node e f2 k =
           (case k of None \<Rightarrow> None
            | Some src \<Rightarrow> Some (File (content_of f0 src) (default_file_mode e)))"
  using k moved_content [OF no mk]
  by (cases k) (simp_all add: artifact_node_def)

lemma after_rmtree_clean:
  assumes "is_dir f d" and "\<forall>q\<in>set (undeletable e). \<not> beneath d q"
  shows "after_rmtree e f d = (\<lambda>p. if beneath d p then None else f p)"
proof
  fix p
  have "beneath d p \<Longrightarrow> \<not> list_ex (\<lambda>q. beneath p q \<and> exists_p f q) (undeletable e)"
    using assms(2) beneath_trans by (auto simp: list_ex_iff)
  then show "after_rmtree e f d p = (if beneath d p then None else f p)"
    using assms(1) by (simp add: after_rmtree_def rmtree_ignore_errors_def)
qed

lemma no_orphans_dir: "is_dir f d \<Longrightarrow> no_orphans f d"
  by (auto simp: no_orphans_def is_dir_def exists_p_def split: option.splits)

lemma remake_target:
  assumes no: "no_orphans f0 d"
    and mk: "mkdir_parents (default_dir_mode e) False (after_rmtree e f0 d) d = Inr f2"
    and st: "\<forall>q\<in>set (undeletable e). \<not> beneath d q"
  shows "mkdir_parents (default_dir_mode e) False
           (after_rmtree e (generated e self d f2) d) d = Inr f2"
proof -
  note t = made_target [OF no mk]
  let ?G = "generated e self d f2"
  have gd: "is_dir ?G d"
    using t(1) by (simp add: is_dir_def generated_self)
  have a: "after_rmtree e ?G d = f2(d := None)"
  proof
    fix p
    show "after_rmtree e ?G d p = (f2(d := None)) p"
      using t(2) by (auto simp: after_rmtree_clean [OF gd st] generated_outside beneath_refl)
  qed
  have "mkdir1 (default_dir_mode e) (f2(d := None)) d = Inr (f2(d := None, d \<mapsto> Dir (default_dir_mode e)))"
    using t(4) t(5) by (auto simp: mkdir1_def is_dir_def split: option.splits node.splits)
  moreover have "f2(d := None, d \<mapsto> Dir (default_dir_mode e)) = f2"
    using t(1) by (simp add: fun_upd_idem)
  ultimately show ?thesis
    unfolding a by (subst mkdir_parents.simps) simp
qed

lemma Repo_init_repo:
  "Repo_init e w d = Inr w1 \<Longrightarrow> \<exists>r. repos w1 d = Some r"
  by (auto simp: Repo_init_def split: option.splits node.splits)

lemma with_scripts_file:
  "rc \<in> set rcs \<Longrightarrow>
   \<exists>c. with_scripts e d f rcs g (child (child (child d ''recovery'') ''root'') (name_of rc)) =
         Some (File c (default_file_mode e))"
proof (induction rcs rule: rev_induct)
  case Nil
  then show ?case by simp
next
  case (snoc x xs)
  show ?case
  proof (cases "name_of x = name_of rc")
    case True
    then show ?thesis
      by (simp add: with_scripts_append) (simp add: with_scripts_def)
  next
    case False
    then have "rc \<in> set xs"
      using snoc.prems by auto
    then show ?thesis
      using snoc.IH False
      by (simp add: with_scripts_append) (simp add: with_scripts_def child_inject)
  qed
qed

lemma generated_script:
  "rc \<in> set (init_rcs self) \<Longrightarrow>
   \<exists>c. generated e self d f (child (child (child d ''recovery'') ''root'') (name_of rc)) =
         Some (File c (default_file_mode e))"
  by (simp add: generated_def with_scripts_file)

lemma omni_name:
  "''omni_'' @ cn @ ''.mk'' \<noteq> []" "''omni_'' @ cn @ ''.mk'' \<noteq> ''.''"
  "CHR ''/'' \<notin> set cn \<Longrightarrow> CHR ''/'' \<notin> set (''omni_'' @ cn @ ''.mk'')"
  by simp_all

lemma generated_top:
  "generated e self d f (child d ''prebuilt'') = Some (Dir (default_dir_mode e))"
  "generated e self d f (child d ''recovery'') = Some (Dir (default_dir_mode e))"
  "generated e self d f (child (child d ''recovery'') ''root'') = Some (Dir (default_dir_mode e))"
  "generated e self d f (child d ''Android.bp'') =
     Some (File (render e ''Android.bp'' (make_ctx e self ''//'')) (default_file_mode e))"
  "generated e self d f (child d ''Android.mk'') =
     Some (File (render e ''Android.mk'' (make_ctx e self ''#'')) (default_file_mode e))"
  "generated e self d f (child d ''AndroidProducts.mk'') =
     Some (File (render e ''AndroidProducts.mk'' (make_ctx e self ''#'')) (default_file_mode e))"
  "generated e self d f (child d ''BoardConfig.mk'') =
     Some (File (render e ''BoardConfig.mk'' (make_ctx e self ''#'')) (default_file_mode e))"
  "generated e self d f (child d ''device.mk'') =
     Some (File (render e ''device.mk'' (make_ctx e self ''#'')) (default_file_mode e))"
  "generated e self d f (child d ''extract-files.sh'') =
     Some (File (render e ''extract-files.sh'' (make_ctx e self ''#''))
             (S_IRWXU OR S_IRGRP OR S_IROTH))"
  "generated e self d f (child d (''omni_'' @ codename (dt_device_info self) @ ''.mk'')) =
     Some (File (render e ''omni_device.mk'' (make_ctx e self ''#'')) (default_file_mode e))"
  "generated e self d f (child d ''README.md'') =
     Some (File (render e ''README.md'' (make_ctx e self ''#'')) (default_file_mode e))"
  "generated e self d f (child d ''setup-makefiles.sh'') =
     Some (File (render e ''setup-makefiles.sh'' (make_ctx e self ''#''))
             (S_IRWXU OR S_IRGRP OR S_IROTH))"
  "generated e self d f (child d ''vendorsetup.sh'') =
     Some (File (render e ''vendorsetup.sh'' (make_ctx e self ''#'')) (default_file_mode e))"
  "generated e self d f (child d ''recovery.fstab'') =
     Some (File (format_fstab e (dt_fstab self)) (default_file_mode e))"
proof -
  show "generated e self d f (child (child d ''recovery'') ''root'') = Some (Dir (default_dir_mode e))"
    by (simp add: generated_def with_scripts_shallow with_fstab_def with_prebuilts_def
          base_tree_def child_inject child_neq child_neq2 grandchild_neq_child)
qed (simp_all add: generated_child with_fstab_def base_tree_def child_inject)

lemma generated_absent:
  assumes emp: "\<forall>q. beneath d q \<and> q \<noteq> d \<longrightarrow> f q = None"
    and b: "beneath d p" and pd: "p \<noteq> d"
    and top: "p \<notin> child d ` set [''prebuilt'', ''recovery'', ''Android.bp'', ''Android.mk'',
                ''AndroidProducts.mk'', ''BoardConfig.mk'', ''device.mk'', ''extract-files.sh'',
                ''omni_'' @ codename (dt_device_info self) @ ''.mk'', ''README.md'',
                ''setup-makefiles.sh'', ''vendorsetup.sh'', ''recovery.fstab'']"
    and pre: "p \<notin> child (child d ''prebuilt'') ` set [''kernel'', ''dt.img'', ''dtb.img'', ''dtbo.img'']"
    and root: "p \<noteq> child (child d ''recovery'') ''root''"
    and scr: "p \<notin> (\<lambda>rc. child (child (child d ''recovery'') ''root'') (name_of rc))
                     ` set (init_rcs self)"
  shows "generated e self d f p = None"
proof -
  have fp: "f p = None"
    using emp b pd by blast
  from generated_changed [of e self d f p] show ?thesis
  proof (elim disjE exE)
    assume "generated e self d f p = f p"
    then show ?thesis using fp by simp
  next
    fix n assume n: "p = child d n"
    have "generated e self d f (child d n) = f (child d n)"
      using top unfolding n
      by (simp add: generated_child with_fstab_def base_tree_def child_inject image_iff
            child_neq child_neq2 grandchild_neq_child)
    then show ?thesis using fp n by simp
  next
    fix n assume n: "p = child (child d ''prebuilt'') n"
    have "generated e self d f (child (child d ''prebuilt'') n) = f (child (child d ''prebuilt'') n)"
      using pre unfolding n by (simp add: generated_prebuilt child_inject image_iff)
    then show ?thesis using fp n by simp
  next
    assume "p = child (child d ''recovery'') ''root''"
    then show ?thesis using root by blast
  next
    fix n assume n: "p = child (child (child d ''recovery'') ''root'') n"
    have "\<forall>rc\<in>set (init_rcs self). child (child (child d ''recovery'') ''root'') (name_of rc) \<noteq> p"
      using scr by (auto simp: image_iff)
    then have "generated e self d f p =
                 with_fstab e self d (with_prebuilts e self d f (base_tree e self d f)) p"
      by (simp add: generated_def with_scripts_other)
    also have "\<dots> = f p"
      unfolding n
      by (simp add: with_fstab_def with_prebuilts_def base_tree_def child_inject
            ggchild_neq grandchild_neq grandchild_neq_child child_neq child_neq2)
    finally show ?thesis using fp by simp
  qed
qed

section \<open>An existing target directory\<close>

text \<open>
  C10. The deletion attempt raises nothing, whatever the operating system refuses to
  remove. When the target directory still exists after it, \<^verbatim>\<open>mkdir\<close> raises
  \<^verbatim>\<open>FileExistsError\<close> and the run ends there: the file system is the one the deletion
  attempt left, nothing has been rendered or copied. So a run that returns has created
  the directory it filled.
\<close>

theorem existing_target_not_populated:
  assumes "d = join_str (join_str output_path (manufacturer (dt_device_info self)))
               (codename (dt_device_info self))"
  shows "(exists_p (after_rmtree e (files w) d) d \<longrightarrow>
            dump_to_folder e self w output_path git =
              (Inl (FileExistsError (path_str d)), w\<lparr>files := after_rmtree e (files w) d\<rparr>))
         \<and> (\<forall>r w'. dump_to_folder e self w output_path git = (Inr r, w') \<longrightarrow>
               \<not> exists_p (after_rmtree e (files w) d) d)"
  using dump_target_exists [of e w d output_path self git]
    dump_success_created [of e self w output_path git _ _ d] assms
  by blast

section \<open>Permission bits of the generated files\<close>


section \<open>The binary artifacts\<close>

text \<open>
  C7. Let the target directory be creatable, the codename hold no slash, and the present
  artifacts and the boot scripts be regular files outside the target directory. Then the
  run returns, with or without the snapshot, and for each of the four artifacts the
  entry of \<^verbatim>\<open>prebuilt\<close> with its fixed name exists exactly when the artifact is present
  in the image information: it is then a regular file with the content of the source.
  Nothing else exists below \<^verbatim>\<open>prebuilt\<close>. In particular, when the four artifacts are
  absent the run returns and \<^verbatim>\<open>prebuilt\<close> is an empty directory.
\<close>

theorem prebuilt_artifacts:
  assumes dd: "d = join_str (join_str output_path (manufacturer (dt_device_info self)))
               (codename (dt_device_info self))"
    and no: "no_orphans (files w) d"
    and mk: "mkdir_parents (default_dir_mode e) False (after_rmtree e (files w) d) d = Inr f2"
    and cn: "CHR ''/'' \<notin> set (codename (dt_device_info self))"
    and k1: "\<forall>s. kernel (dt_image_info self) = Some s \<longrightarrow> is_file (files w) s \<and> \<not> beneath d s"
    and k2: "\<forall>s. dt (dt_image_info self) = Some s \<longrightarrow> is_file (files w) s \<and> \<not> beneath d s"
    and k3: "\<forall>s. dtb (dt_image_info self) = Some s \<longrightarrow> is_file (files w) s \<and> \<not> beneath d s"
    and k4: "\<forall>s. dtbo (dt_image_info self) = Some s \<longrightarrow> is_file (files w) s \<and> \<not> beneath d s"
    and rc: "\<forall>rc\<in>set (init_rcs self).
               is_file (files w) rc \<and> \<not> beneath d rc \<and> plain (name_of rc)"
  shows "\<exists>w'. dump_to_folder e self w output_path git = (Inr d, w')
           \<and> is_dir (files w') (join_str d ''prebuilt'')
           \<and> files w' (join_str (join_str d ''prebuilt'') ''kernel'') =
               (case kernel (dt_image_info self) of
                  None \<Rightarrow> None
                | Some src \<Rightarrow> Some (File (content_of (files w) src) (default_file_mode e)))
           \<and> files w' (join_str (join_str d ''prebuilt'') ''dt.img'') =
               (case dt (dt_image_info self) of
                  None \<Rightarrow> None
                | Some src \<Rightarrow> Some (File (content_of (files w) src) (default_file_mode e)))
           \<and> files w' (join_str (join_str d ''prebuilt'') ''dtb.img'') =
               (case dtb (dt_image_info self) of
                  None \<Rightarrow> None
                | Some src \<Rightarrow> Some (File (content_of (files w) src) (default_file_mode e)))
           \<and> files w' (join_str (join_str d ''prebuilt'') ''dtbo.img'') =
               (case dtbo (dt_image_info self) of
                  None \<Rightarrow> None
                | Some src \<Rightarrow> Some (File (content_of (files w) src) (default_file_mode e)))
           \<and> (\<forall>p. beneath (join_str d ''prebuilt'') p
                  \<and> p \<noteq> join_str d ''prebuilt''
                  \<and> p \<noteq> join_str (join_str d ''prebuilt'') ''kernel''
                  \<and> p \<noteq> join_str (join_str d ''prebuilt'') ''dt.img''
                  \<and> p \<noteq> join_str (join_str d ''prebuilt'') ''dtb.img''
                  \<and> p \<noteq> join_str (join_str d ''prebuilt'') ''dtbo.img''
                  \<longrightarrow> files w' p = None)"
proof -
  obtain w' where r: "dump_to_folder e self w output_path git = (Inr d, w')"
    and g: "\<forall>p. p \<noteq> child d ''.git'' \<longrightarrow> files w' p = generated e self d f2 p"
    using dump_generated(2) [OF dd no mk cn k1 k2 k3 k4 rc] by blast
  note t = made_target [OF no mk]
  have j: "join_str d ''prebuilt'' = child d ''prebuilt''"
    "\<And>n. CHR ''/'' \<notin> set n \<Longrightarrow> n \<noteq> [] \<Longrightarrow> n \<noteq> ''.'' \<Longrightarrow>
       join_str (child d ''prebuilt'') n = child (child d ''prebuilt'') n"
    by (simp_all add: join_str_plain)
  have ng: "\<And>p. beneath (child d ''prebuilt'') p \<Longrightarrow> p \<noteq> child d ''.git''"
    by (auto simp: beneath_def child_def)
  have pb: "\<And>n. files w' (child (child d ''prebuilt'') n) =
                 generated e self d f2 (child (child d ''prebuilt'') n)"
    using g ng [OF beneath_child] by blast
  have dir: "is_dir (files w') (child d ''prebuilt'')"
    using g ng [OF beneath_refl]
    by (simp add: is_dir_def generated_child with_fstab_def base_tree_def child_inject)
  have a0: "files w' (child (child d ''prebuilt'') ''kernel'') =
               (case kernel (dt_image_info self) of
                  None \<Rightarrow> None
                | Some src \<Rightarrow> Some (File (content_of (files w) src) (default_file_mode e)))"
    by (simp add: pb generated_prebuilt artifact_node_moved [OF no mk k1])
  have a1: "files w' (child (child d ''prebuilt'') ''dt.img'') =
               (case dt (dt_image_info self) of
                  None \<Rightarrow> None
                | Some src \<Rightarrow> Some (File (content_of (files w) src) (default_file_mode e)))"
    by (simp add: pb generated_prebuilt artifact_node_moved [OF no mk k2])
  have a2: "files w' (child (child d ''prebuilt'') ''dtb.img'') =
               (case dtb (dt_image_info self) of
                  None \<Rightarrow> None
                | Some src \<Rightarrow> Some (File (content_of (files w) src) (default_file_mode e)))"
    by (simp add: pb generated_prebuilt artifact_node_moved [OF no mk k3])
  have a3: "files w' (child (child d ''prebuilt'') ''dtbo.img'') =
               (case dtbo (dt_image_info self) of
                  None \<Rightarrow> None
                | Some src \<Rightarrow> Some (File (content_of (files w) src) (default_file_mode e)))"
    by (simp add: pb generated_prebuilt artifact_node_moved [OF no mk k4])
  have rest: "\<forall>p. beneath (child d ''prebuilt'') p
                  \<and> p \<noteq> child d ''prebuilt''
                  \<and> p \<noteq> child (child d ''prebuilt'') ''kernel''
                  \<and> p \<noteq> child (child d ''prebuilt'') ''dt.img''
                  \<and> p \<noteq> child (child d ''prebuilt'') ''dtb.img''
                  \<and> p \<noteq> child (child d ''prebuilt'') ''dtbo.img''
                  \<longrightarrow> files w' p = None"
  proof (intro allI impI)
    fix p
    assume h: "beneath (child d ''prebuilt'') p
                  \<and> p \<noteq> child d ''prebuilt''
                  \<and> p \<noteq> child (child d ''prebuilt'') ''kernel''
                  \<and> p \<noteq> child (child d ''prebuilt'') ''dt.img''
                  \<and> p \<noteq> child (child d ''prebuilt'') ''dtb.img''
                  \<and> p \<noteq> child (child d ''prebuilt'') ''dtbo.img''"
    then have "p \<noteq> child d ''.git''"
      using ng by blast
    then have "files w' p = generated e self d f2 p"
      using g by blast
    then show "files w' p = None"
      using generated_prebuilt_rest [OF t(2), of p e self] h by simp
  qed
  have jk: "join_str (child d ''prebuilt'') ''kernel'' = child (child d ''prebuilt'') ''kernel''"
    "join_str (child d ''prebuilt'') ''dt.img'' = child (child d ''prebuilt'') ''dt.img''"
    "join_str (child d ''prebuilt'') ''dtb.img'' = child (child d ''prebuilt'') ''dtb.img''"
    "join_str (child d ''prebuilt'') ''dtbo.img'' = child (child d ''prebuilt'') ''dtbo.img''"
    by (simp_all add: join_str_plain)
  show ?thesis
    unfolding j(1) jk
    by (intro exI [of _ w'] conjI) (fact r dir a0 a1 a2 a3 rest)+
qed

section \<open>Running twice\<close>

text \<open>
  C2. The statement is about the assembly, the run without the snapshot. Let the target
  directory exist, nothing below it be undeletable, and the run on it return (the target
  directory can be created again, the codename holds no slash, the present artifacts
  and the boot scripts are regular files outside the target directory). Then the run
  first deletes the directory with everything below it, and
  returns the path of the directory with the file system \<open>w1\<close> in which
  \<^item> the directory, \<^verbatim>\<open>prebuilt\<close>, \<^verbatim>\<open>recovery\<close> and \<^verbatim>\<open>recovery/root\<close> are
    directories made by this run,
  \<^item> the ten rendered files and \<^verbatim>\<open>recovery.fstab\<close> hold the text rendered in this
    run,
  \<^item> the present artifacts and the boot scripts are copied,
  \<^item> nothing else exists below the directory, whatever it held before,
  \<^item> and what existed outside the directory is as it was.

  A second run, on the world the first one left, returns the same path and leaves the
  world as it is: the same entries with the same contents. And the tree does not depend
  on what the directory held before: from any world that differs from the first one
  only below the target directory, the run leaves the same file system.
\<close>

theorem rerun_identical:
  assumes dd: "d = join_str (join_str output_path (manufacturer (dt_device_info self)))
               (codename (dt_device_info self))"
    and ex: "is_dir (files w) d"
    and st: "\<forall>q\<in>set (undeletable e). \<not> beneath d q"
    and mk: "mkdir_parents (default_dir_mode e) False (after_rmtree e (files w) d) d = Inr f2"
    and cn: "CHR ''/'' \<notin> set (codename (dt_device_info self))"
    and k1: "\<forall>s. kernel (dt_image_info self) = Some s \<longrightarrow> is_file (files w) s \<and> \<not> beneath d s"
    and k2: "\<forall>s. dt (dt_image_info self) = Some s \<longrightarrow> is_file (files w) s \<and> \<not> beneath d s"
    and k3: "\<forall>s. dtb (dt_image_info self) = Some s \<longrightarrow> is_file (files w) s \<and> \<not> beneath d s"
    and k4: "\<forall>s. dtbo (dt_image_info self) = Some s \<longrightarrow> is_file (files w) s \<and> \<not> beneath d s"
    and rc: "\<forall>rc\<in>set (init_rcs self).
               is_file (files w) rc \<and> \<not> beneath d rc \<and> plain (name_of rc)"
  shows "\<exists>w1. dump_to_folder e self w output_path False = (Inr d, w1)
           \<and> dump_to_folder e self w1 output_path False = (Inr d, w1)
           \<and> (\<forall>p. beneath d p \<longrightarrow> after_rmtree e (files w) d p = None)
           \<and> files w1 d = Some (Dir (default_dir_mode e))
           \<and> files w1 (join_str d ''prebuilt'') = Some (Dir (default_dir_mode e))
           \<and> files w1 (join_str d ''recovery'') = Some (Dir (default_dir_mode e))
           \<and> files w1 (join_str (join_str d ''recovery'') ''root'') = Some (Dir (default_dir_mode e))
           \<and> files w1 (join_str d ''Android.bp'') =
               Some (File (render e ''Android.bp'' (make_ctx e self ''//'')) (default_file_mode e))
           \<and> files w1 (join_str d ''Android.mk'') =
               Some (File (render e ''Android.mk'' (make_ctx e self ''#'')) (default_file_mode e))
           \<and> files w1 (join_str d ''AndroidProducts.mk'') =
               Some (File (render e ''AndroidProducts.mk'' (make_ctx e self ''#'')) (default_file_mode e))
           \<and> files w1 (join_str d ''BoardConfig.mk'') =
               Some (File (render e ''BoardConfig.mk'' (make_ctx e self ''#'')) (default_file_mode e))
           \<and> files w1 (join_str d ''device.mk'') =
               Some (File (render e ''device.mk'' (make_ctx e self ''#'')) (default_file_mode e))
           \<and> files w1 (join_str d ''extract-files.sh'') =
               Some (File (render e ''extract-files.sh'' (make_ctx e self ''#'')) (S_IRWXU OR S_IRGRP OR S_IROTH))
           \<and> files w1 (join_str d (''omni_'' @ codename (dt_device_info self) @ ''.mk'')) =
               Some (File (render e ''omni_device.mk'' (make_ctx e self ''#'')) (default_file_mode e))
           \<and> files w1 (join_str d ''README.md'') =
               Some (File (render e ''README.md'' (make_ctx e self ''#'')) (default_file_mode e))
           \<and> files w1 (join_str d ''setup-makefiles.sh'') =
               Some (File (render e ''setup-makefiles.sh'' (make_ctx e self ''#'')) (S_IRWXU OR S_IRGRP OR S_IROTH))
           \<and> files w1 (join_str d ''vendorsetup.sh'') =
               Some (File (render e ''vendorsetup.sh'' (make_ctx e self ''#'')) (default_file_mode e))
           \<and> files w1 (join_str d ''recovery.fstab'') =
               Some (File (format_fstab e (dt_fstab self)) (default_file_mode e))
           \<and> files w1 (join_str (join_str d ''prebuilt'') ''kernel'') =
               (case kernel (dt_image_info self) of
                  None \<Rightarrow> None
                | Some src \<Rightarrow> Some (File (content_of (files w) src) (default_file_mode e)))
           \<and> files w1 (join_str (join_str d ''prebuilt'') ''dt.img'') =
               (case dt (dt_image_info self) of
                  None \<Rightarrow> None
                | Some src \<Rightarrow> Some (File (content_of (files w) src) (default_file_mode e)))
           \<and> files w1 (join_str (join_str d ''prebuilt'') ''dtb.img'') =
               (case dtb (dt_image_info self) of
                  None \<Rightarrow> None
                | Some src \<Rightarrow> Some (File (content_of (files w) src) (default_file_mode e)))
           \<and> files w1 (join_str (join_str d ''prebuilt'') ''dtbo.img'') =
               (case dtbo (dt_image_info self) of
                  None \<Rightarrow> None
                | Some src \<Rightarrow> Some (File (content_of (files w) src) (default_file_mode e)))
           \<and> (\<forall>rc\<in>set (init_rcs self).
               \<exists>c. files w1 (join_str (join_str (join_str d ''recovery'') ''root'') (name_of rc)) =
                     Some (File c (default_file_mode e)))
           \<and> (\<forall>p. beneath d p \<and> p \<noteq> d
               \<and> p \<notin> join_str d ` set [''prebuilt'', ''recovery'', ''Android.bp'', ''Android.mk'',
                    ''AndroidProducts.mk'', ''BoardConfig.mk'', ''device.mk'',
                    ''extract-files.sh'', ''omni_'' @ codename (dt_device_info self) @ ''.mk'',
                    ''README.md'', ''setup-makefiles.sh'', ''vendorsetup.sh'',
                    ''recovery.fstab'']
               \<and> p \<notin> join_str (join_str d ''prebuilt'')
                        ` set [''kernel'', ''dt.img'', ''dtb.img'', ''dtbo.img'']
               \<and> p \<noteq> join_str (join_str d ''recovery'') ''root''
               \<and> p \<notin> (\<lambda>rc. join_str (join_str (join_str d ''recovery'') ''root'')
                                 (name_of rc)) ` set (init_rcs self)
               \<longrightarrow> files w1 p = None)
           \<and> (\<forall>p. \<not> beneath d p \<and> files w p \<noteq> None \<longrightarrow> files w1 p = files w p)
           \<and> (\<forall>w2::world. is_dir (files w2) d \<and> (\<forall>p. \<not> beneath d p \<longrightarrow> files w2 p = files w p)
               \<longrightarrow> files (snd (dump_to_folder e self w2 output_path False)) = files w1)"
proof -
  let ?G = "generated e self d f2"
  let ?w1 = "w\<lparr>files := ?G\<rparr>"
  have no: "no_orphans (files w) d"
    using ex by (rule no_orphans_dir)
  note t = made_target [OF no mk]
  have fw: "files ?w1 = ?G"
    by simp
  have r1: "dump_to_folder e self w output_path False = (Inr d, ?w1)"
    by (rule dump_generated(1) [OF dd no mk cn k1 k2 k3 k4 rc])
  have out: "\<And>s. \<not> beneath d s \<Longrightarrow> is_file (files w) s \<Longrightarrow> ?G s = files w s"
    using t(3) by (auto simp: generated_outside is_file_def split: option.splits)
  have keep: "\<And>s. is_file (files w) s \<and> \<not> beneath d s \<Longrightarrow> is_file ?G s \<and> \<not> beneath d s"
    using out by (auto simp: is_file_def)
  have gd: "is_dir ?G d"
    using t(1) by (simp add: is_dir_def generated_self)
  have no1: "no_orphans (files ?w1) d"
    using gd by (simp add: no_orphans_dir)
  have mk1: "mkdir_parents (default_dir_mode e) False (after_rmtree e (files ?w1) d) d = Inr f2"
    using remake_target [OF no mk st] by simp
  have r2: "dump_to_folder e self ?w1 output_path False = (Inr d, ?w1)"
    using dump_generated(1) [OF dd no1 mk1 cn] k1 k2 k3 k4 rc keep by auto
  have del: "\<forall>p. beneath d p \<longrightarrow> after_rmtree e (files w) d p = None"
    by (simp add: after_rmtree_clean [OF ex st])
  have j: "join_str d ''prebuilt'' = child d ''prebuilt''"
    "join_str d ''recovery'' = child d ''recovery''"
    "join_str (child d ''recovery'') ''root'' = child (child d ''recovery'') ''root''"
    "join_str d ''Android.bp'' = child d ''Android.bp''"
    "join_str d ''Android.mk'' = child d ''Android.mk''"
    "join_str d ''AndroidProducts.mk'' = child d ''AndroidProducts.mk''"
    "join_str d ''BoardConfig.mk'' = child d ''BoardConfig.mk''"
    "join_str d ''device.mk'' = child d ''device.mk''"
    "join_str d ''extract-files.sh'' = child d ''extract-files.sh''"
    "join_str d (''omni_'' @ codename (dt_device_info self) @ ''.mk'')
       = child d (''omni_'' @ codename (dt_device_info self) @ ''.mk'')"
    "join_str d ''README.md'' = child d ''README.md''"
    "join_str d ''setup-makefiles.sh'' = child d ''setup-makefiles.sh''"
    "join_str d ''vendorsetup.sh'' = child d ''vendorsetup.sh''"
    "join_str d ''recovery.fstab'' = child d ''recovery.fstab''"
    "join_str (child d ''prebuilt'') ''kernel'' = child (child d ''prebuilt'') ''kernel''"
    "join_str (child d ''prebuilt'') ''dt.img'' = child (child d ''prebuilt'') ''dt.img''"
    "join_str (child d ''prebuilt'') ''dtb.img'' = child (child d ''prebuilt'') ''dtb.img''"
    "join_str (child d ''prebuilt'') ''dtbo.img'' = child (child d ''prebuilt'') ''dtbo.img''"
    using cn by (simp_all add: join_str_plain)
  have jr: "\<And>r. r \<in> set (init_rcs self) \<Longrightarrow>
              join_str (child (child d ''recovery'') ''root'') (name_of r)
                = child (child (child d ''recovery'') ''root'') (name_of r)"
    using rc by (simp add: join_str_plain plain_def)
  have top: "files ?w1 d = Some (Dir (default_dir_mode e))"
    using t(1) by (simp add: generated_self)
  have tree:
    "files ?w1 (join_str d ''prebuilt'') = Some (Dir (default_dir_mode e))"
    "files ?w1 (join_str d ''recovery'') = Some (Dir (default_dir_mode e))"
    "files ?w1 (join_str (join_str d ''recovery'') ''root'') = Some (Dir (default_dir_mode e))"
    "files ?w1 (join_str d ''Android.bp'') =
               Some (File (render e ''Android.bp'' (make_ctx e self ''//'')) (default_file_mode e))"
    "files ?w1 (join_str d ''Android.mk'') =
               Some (File (render e ''Android.mk'' (make_ctx e self ''#'')) (default_file_mode e))"
    "files ?w1 (join_str d ''AndroidProducts.mk'') =
               Some (File (render e ''AndroidProducts.mk'' (make_ctx e self ''#'')) (default_file_mode e))"
    "files ?w1 (join_str d ''BoardConfig.mk'') =
               Some (File (render e ''BoardConfig.mk'' (make_ctx e self ''#'')) (default_file_mode e))"
    "files ?w1 (join_str d ''device.mk'') =
               Some (File (render e ''device.mk'' (make_ctx e self ''#'')) (default_file_mode e))"
    "files ?w1 (join_str d ''extract-files.sh'') =
               Some (File (render e ''extract-files.sh'' (make_ctx e self ''#'')) (S_IRWXU OR S_IRGRP OR S_IROTH))"
    "files ?w1 (join_str d (''omni_'' @ codename (dt_device_info self) @ ''.mk'')) =
               Some (File (render e ''omni_device.mk'' (make_ctx e self ''#'')) (default_file_mode e))"
    "files ?w1 (join_str d ''README.md'') =
               Some (File (render e ''README.md'' (make_ctx e self ''#'')) (default_file_mode e))"
    "files ?w1 (join_str d ''setup-makefiles.sh'') =
               Some (File (render e ''setup-makefiles.sh'' (make_ctx e self ''#'')) (S_IRWXU OR S_IRGRP OR S_IROTH))"
    "files ?w1 (join_str d ''vendorsetup.sh'') =
               Some (File (render e ''vendorsetup.sh'' (make_ctx e self ''#'')) (default_file_mode e))"
    "files ?w1 (join_str d ''recovery.fstab'') =
               Some (File (format_fstab e (dt_fstab self)) (default_file_mode e))"
    unfolding fw j by (rule generated_top)+
  have arts:
    "files ?w1 (join_str (join_str d ''prebuilt'') ''kernel'') =
               (case kernel (dt_image_info self) of
                  None \<Rightarrow> None
                | Some src \<Rightarrow> Some (File (content_of (files w) src) (default_file_mode e)))"
    "files ?w1 (join_str (join_str d ''prebuilt'') ''dt.img'') =
               (case dt (dt_image_info self) of
                  None \<Rightarrow> None
                | Some src \<Rightarrow> Some (File (content_of (files w) src) (default_file_mode e)))"
    "files ?w1 (join_str (join_str d ''prebuilt'') ''dtb.img'') =
               (case dtb (dt_image_info self) of
                  None \<Rightarrow> None
                | Some src \<Rightarrow> Some (File (content_of (files w) src) (default_file_mode e)))"
    "files ?w1 (join_str (join_str d ''prebuilt'') ''dtbo.img'') =
               (case dtbo (dt_image_info self) of
                  None \<Rightarrow> None
                | Some src \<Rightarrow> Some (File (content_of (files w) src) (default_file_mode e)))"
    unfolding fw j
    by (simp_all add: generated_prebuilt artifact_node_moved [OF no mk k1]
          artifact_node_moved [OF no mk k2] artifact_node_moved [OF no mk k3]
          artifact_node_moved [OF no mk k4])
  have scripts: "\<forall>rc\<in>set (init_rcs self).
               \<exists>c. files ?w1 (join_str (join_str (join_str d ''recovery'') ''root'') (name_of rc)) =
                     Some (File c (default_file_mode e))"
    unfolding fw j using jr generated_script [of _ self e d f2] by simp
  have i1: "join_str d ` set [''prebuilt'', ''recovery'', ''Android.bp'', ''Android.mk'',
                    ''AndroidProducts.mk'', ''BoardConfig.mk'', ''device.mk'',
                    ''extract-files.sh'', ''omni_'' @ codename (dt_device_info self) @ ''.mk'',
                    ''README.md'', ''setup-makefiles.sh'', ''vendorsetup.sh'',
                    ''recovery.fstab''] = child d ` set [''prebuilt'', ''recovery'', ''Android.bp'', ''Android.mk'',
                    ''AndroidProducts.mk'', ''BoardConfig.mk'', ''device.mk'',
                    ''extract-files.sh'', ''omni_'' @ codename (dt_device_info self) @ ''.mk'',
                    ''README.md'', ''setup-makefiles.sh'', ''vendorsetup.sh'',
                    ''recovery.fstab'']"
    using cn by (simp add: join_str_plain)
  have i2: "join_str (child d ''prebuilt'') ` set [''kernel'', ''dt.img'', ''dtb.img'', ''dtbo.img'']
              = child (child d ''prebuilt'') ` set [''kernel'', ''dt.img'', ''dtb.img'', ''dtbo.img'']"
    by (simp add: join_str_plain)
  have i3: "(\<lambda>rc. join_str (child (child d ''recovery'') ''root'') (name_of rc)) ` set (init_rcs self)
              = (\<lambda>rc. child (child (child d ''recovery'') ''root'') (name_of rc)) ` set (init_rcs self)"
    using jr by (intro image_cong refl) simp
  have rest: "(\<forall>p. beneath d p \<and> p \<noteq> d
               \<and> p \<notin> join_str d ` set [''prebuilt'', ''recovery'', ''Android.bp'', ''Android.mk'',
                    ''AndroidProducts.mk'', ''BoardConfig.mk'', ''device.mk'',
                    ''extract-files.sh'', ''omni_'' @ codename (dt_device_info self) @ ''.mk'',
                    ''README.md'', ''setup-makefiles.sh'', ''vendorsetup.sh'',
                    ''recovery.fstab'']
               \<and> p \<notin> join_str (join_str d ''prebuilt'')
                        ` set [''kernel'', ''dt.img'', ''dtb.img'', ''dtbo.img'']
               \<and> p \<noteq> join_str (join_str d ''recovery'') ''root''
               \<and> p \<notin> (\<lambda>rc. join_str (join_str (join_str d ''recovery'') ''root'')
                                 (name_of rc)) ` set (init_rcs self)
               \<longrightarrow> files ?w1 p = None)"
    unfolding fw j i1 i2 i3 using generated_absent [OF t(2)] by blast
  have outside: "\<forall>p. \<not> beneath d p \<and> files w p \<noteq> None \<longrightarrow> files ?w1 p = files w p"
    using t(3) by (simp add: generated_outside)
  have ind: "\<forall>w2::world. is_dir (files w2) d \<and> (\<forall>p. \<not> beneath d p \<longrightarrow> files w2 p = files w p)
               \<longrightarrow> files (snd (dump_to_folder e self w2 output_path False)) = files ?w1"
  proof (intro allI impI)
    fix w2 :: world
    assume h: "is_dir (files w2) d \<and> (\<forall>p. \<not> beneath d p \<longrightarrow> files w2 p = files w p)"
    have e2: "after_rmtree e (files w2) d = after_rmtree e (files w) d"
      using h by (auto simp: after_rmtree_clean [OF _ st] after_rmtree_clean [OF ex st])
    have no2: "no_orphans (files w2) d"
      using h by (simp add: no_orphans_dir)
    have mk2: "mkdir_parents (default_dir_mode e) False (after_rmtree e (files w2) d) d = Inr f2"
      using mk e2 by simp
    have keep2: "\<And>s. is_file (files w) s \<and> \<not> beneath d s
                   \<Longrightarrow> is_file (files w2) s \<and> \<not> beneath d s"
      using h by (auto simp: is_file_def)
    have "dump_to_folder e self w2 output_path False = (Inr d, w2\<lparr>files := ?G\<rparr>)"
      by (rule dump_generated(1) [OF dd no2 mk2 cn]) (use k1 k2 k3 k4 rc keep2 in auto)
    then show "files (snd (dump_to_folder e self w2 output_path False)) = files ?w1"
      by simp
  qed
  show ?thesis
    by (intro exI [of _ ?w1] conjI)
       (fact r1 r2 del top tree arts scripts rest outside ind)+
qed

section \<open>The identity of the snapshot\<close>

text \<open>
  C8, as the code has it. With the snapshot requested, once the statements on the file
  system have run and the repository is initialised, the recorder reads the configured
  email and name. When both are configured nothing is written: the repository's
  configuration is as the initialisation left it and both values read as before. When
  either one is unset, both the fallback email and the fallback name are written to the
  repository's configuration, and they are what is read afterwards, also for the one
  that was configured.
\<close>

theorem snapshot_identity:
  assumes dd: "d = join_str (join_str output_path (manufacturer (dt_device_info self)))
               (codename (dt_device_info self))"
    and run: "run_steps (assembly e self d) (files w) = (None, f')"
    and init: "Repo_init e (w\<lparr>files := f'\<rparr>) d = Inr w1"
  shows "fst (dump_to_folder e self w output_path True) = Inr d
         \<and> (get_value w1 d ''user'' ''email'' = Inr em
              \<and> get_value w1 d ''user'' ''name'' = Inr nm \<longrightarrow>
            get_value (snd (dump_to_folder e self w output_path True)) d ''user'' ''email''
              = Inr em
            \<and> get_value (snd (dump_to_folder e self w output_path True)) d ''user'' ''name''
              = Inr nm
            \<and> map_option repo_config
                 (repos (snd (dump_to_folder e self w output_path True)) d)
              = map_option repo_config (repos w1 d))
         \<and> ((\<exists>x. get_value w1 d ''user'' ''email'' = Inl x)
              \<or> (\<exists>x. get_value w1 d ''user'' ''name'' = Inl x) \<longrightarrow>
            get_value (snd (dump_to_folder e self w output_path True)) d ''user'' ''email''
              = Inr ''barezzisebastiano@gmail.com''
            \<and> get_value (snd (dump_to_folder e self w output_path True)) d ''user'' ''name''
              = Inr ''Sebastiano Barezzi'')"
proof -
  obtain r where r: "repos w1 d = Some r"
    using Repo_init_repo [OF init] by blast
  have dump: "dump_to_folder e self w output_path True =
                git_snapshot e self d (w\<lparr>files := f'\<rparr>)"
    using run by (simp add: dump_to_folder_def Let_def dd [symmetric])
  have a: "fst (dump_to_folder e self w output_path True) = Inr d"
    by (simp add: dump git_snapshot_def init Let_def split: prod.splits)
  have b: "get_value w1 d ''user'' ''email'' = Inr em
              \<and> get_value w1 d ''user'' ''name'' = Inr nm \<longrightarrow>
            get_value (snd (dump_to_folder e self w output_path True)) d ''user'' ''email''
              = Inr em
            \<and> get_value (snd (dump_to_folder e self w output_path True)) d ''user'' ''name''
              = Inr nm
            \<and> map_option repo_config
                 (repos (snd (dump_to_folder e self w output_path True)) d)
              = map_option repo_config (repos w1 d)"
    using r
    by (auto simp: dump git_snapshot_def init Let_def read_identity_def index_commit_def
          get_value_def split: option.splits)
  have c: "(\<exists>x. get_value w1 d ''user'' ''email'' = Inl x)
              \<or> (\<exists>x. get_value w1 d ''user'' ''name'' = Inl x) \<longrightarrow>
            get_value (snd (dump_to_folder e self w output_path True)) d ''user'' ''email''
              = Inr ''barezzisebastiano@gmail.com''
            \<and> get_value (snd (dump_to_folder e self w output_path True)) d ''user'' ''name''
              = Inr ''Sebastiano Barezzi''"
    using r
    by (auto simp: dump git_snapshot_def init Let_def read_identity_def index_commit_def
          set_value_def get_value_def split: option.splits sum.splits)
  show ?thesis
    using a b c by blast
qed

lemma INIT_RC_LOCATIONS_eq:
  "INIT_RC_LOCATIONS =
     [Path [] [], Path [] [''system'', ''etc'', ''init''], Path [] [''vendor'', ''etc'', ''init'']]"
  by (simp add: INIT_RC_LOCATIONS_def join_str_plain child_def Path_empty_def)

lemma name_of_child: "name_of (child d n) = n"
  by (simp add: name_of_def child_def)

lemma collect_closed_form:
  "collect_init_rcs e f rd =
     concat (map (\<lambda>dir. filter (\<lambda>init_rc. endswith (name_of init_rc) ''.rc''
                                      \<and> name_of init_rc \<noteq> ''init.rc'')
                           (map (child dir) (iterdir e dir)))
               (filter (is_dir f) (map (joinpath rd) INIT_RC_LOCATIONS)))"
  unfolding collect_init_rcs_def foldl_extend_filter by simp

lemma last_named:
  assumes "x \<in> set L" and "\<forall>r\<in>set L. name_of r = name_of x \<longrightarrow> r = x"
  shows "\<exists>a b. L = a @ x # b \<and> (\<forall>r\<in>set b. name_of r \<noteq> name_of x)"
proof -
  obtain a b where s: "L = a @ x # b" and n: "x \<notin> set b"
    using split_list_last [OF assms(1)] by blast
  have "\<forall>r\<in>set b. name_of r \<noteq> name_of x"
    using assms(2) s n by auto
  then show ?thesis
    using s by blast
qed

lemma scan_last:
  assumes ds: "Ds = map (joinpath rd) INIT_RC_LOCATIONS"
    and ij: "i < j" "j < 3"
    and di: "is_dir f (Ds ! i)" and dj: "is_dir f (Ds ! j)"
    and ni: "n \<in> set (iterdir e (Ds ! i))" and nj: "n \<in> set (iterdir e (Ds ! j))"
    and rc: "endswith n ''.rc''" "n \<noteq> ''init.rc''"
    and lst: "\<forall>k. j < k \<and> k < 3 \<and> is_dir f (Ds ! k) \<longrightarrow> n \<notin> set (iterdir e (Ds ! k))"
  shows "child (Ds ! i) n \<in> set (collect_init_rcs e f rd)"
    and "\<exists>pre post. collect_init_rcs e f rd = pre @ child (Ds ! j) n # post
           \<and> (\<forall>r\<in>set post. name_of r \<noteq> n)"
proof -
  let ?P = "\<lambda>init_rc. endswith (name_of init_rc) ''.rc'' \<and> name_of init_rc \<noteq> ''init.rc''"
  let ?L = "\<lambda>dir. if is_dir f dir then filter ?P (map (child dir) (iterdir e dir)) else []"
  obtain D0 D1 D2 where D: "Ds = [D0, D1, D2]"
    using ds by (simp add: INIT_RC_LOCATIONS_eq)
  have m: "map (joinpath rd) INIT_RC_LOCATIONS = [D0, D1, D2]"
    using ds D by simp
  have c: "collect_init_rcs e f rd = ?L D0 @ ?L D1 @ ?L D2"
    by (simp add: collect_closed_form m)
  have mem: "\<And>dir. is_dir f dir \<Longrightarrow> n \<in> set (iterdir e dir) \<Longrightarrow> child dir n \<in> set (?L dir)"
    using rc by (simp add: name_of_child)
  have uniq: "\<And>dir. \<forall>r\<in>set (?L dir). name_of r = name_of (child dir n) \<longrightarrow> r = child dir n"
    by (auto simp: name_of_child)
  have none: "\<And>dir. (is_dir f dir \<longrightarrow> n \<notin> set (iterdir e dir))
                \<Longrightarrow> \<forall>r\<in>set (?L dir). name_of r \<noteq> n"
    by (auto simp: name_of_child)
  have cases: "(i = 0 \<and> j = 1) \<or> (i = 0 \<and> j = 2) \<or> (i = 1 \<and> j = 2)"
    using ij by auto
  show "child (Ds ! i) n \<in> set (collect_init_rcs e f rd)"
    using cases mem [OF di ni] D c by auto
  from last_named [OF mem [OF dj nj] uniq]
  obtain a b where s: "?L (Ds ! j) = a @ child (Ds ! j) n # b"
    and nb: "\<forall>r\<in>set b. name_of r \<noteq> n"
    by (auto simp: name_of_child)
  show "\<exists>pre post. collect_init_rcs e f rd = pre @ child (Ds ! j) n # post
           \<and> (\<forall>r\<in>set post. name_of r \<noteq> n)"
  proof (cases "j = 1")
    case True
    then have l2: "\<forall>r\<in>set (?L D2). name_of r \<noteq> n"
      using lst D by (intro none) auto
    have e: "Ds ! j = D1"
      using True D by simp
    have "collect_init_rcs e f rd = (?L D0 @ a) @ child (Ds ! j) n # (b @ ?L D2)"
      unfolding c using s unfolding e by simp
    moreover have "\<forall>r\<in>set (b @ ?L D2). name_of r \<noteq> n"
      using nb l2 by auto
    ultimately show ?thesis
      by blast
  next
    case False
    then have j2: "j = 2"
      using cases by auto
    have e: "Ds ! j = D2"
      using j2 D by simp
    have "collect_init_rcs e f rd = (?L D0 @ ?L D1 @ a) @ child (Ds ! j) n # b"
      unfolding c using s unfolding e by simp
    then show ?thesis
      using nb by blast
  qed
qed

section \<open>Boot scripts with the same name\<close>

text \<open>
  C9. Let the boot scripts of the object be those the constructor's scan collected, and
  let two of the three scanned directories, the \<open>i\<close>-th and the \<open>j\<close>-th with \<open>i < j\<close>,
  both list a script named \<open>n\<close>, no directory scanned after the \<open>j\<close>-th listing that
  name. Then both entries are among the scripts to copy and have the same destination
  \<^verbatim>\<open>recovery/root/n\<close>. Under the conditions for a run to return (the target directory
  can be created, the codename holds no slash, the present artifacts and the scripts
  are regular files outside the target directory), the run returns, and the file at the
  destination has the content of the entry of the \<open>j\<close>-th directory, the one scanned
  last.
\<close>

theorem same_name_last_scanned_wins:
  assumes dd: "d = join_str (join_str output_path (manufacturer (dt_device_info self)))
               (codename (dt_device_info self))"
    and no: "no_orphans (files w) d"
    and mk: "mkdir_parents (default_dir_mode e) False (after_rmtree e (files w) d) d = Inr f2"
    and cn: "CHR ''/'' \<notin> set (codename (dt_device_info self))"
    and k1: "\<forall>s. kernel (dt_image_info self) = Some s \<longrightarrow> is_file (files w) s \<and> \<not> beneath d s"
    and k2: "\<forall>s. dt (dt_image_info self) = Some s \<longrightarrow> is_file (files w) s \<and> \<not> beneath d s"
    and k3: "\<forall>s. dtb (dt_image_info self) = Some s \<longrightarrow> is_file (files w) s \<and> \<not> beneath d s"
    and k4: "\<forall>s. dtbo (dt_image_info self) = Some s \<longrightarrow> is_file (files w) s \<and> \<not> beneath d s"
    and rc: "\<forall>rc\<in>set (init_rcs self).
               is_file (files w) rc \<and> \<not> beneath d rc \<and> plain (name_of rc)"
    and scan: "init_rcs self = collect_init_rcs e0 fi rd"
    and ds: "Ds = map (joinpath rd) INIT_RC_LOCATIONS"
    and ij: "i < j" "j < 3"
    and di: "is_dir fi (Ds ! i)" and dj: "is_dir fi (Ds ! j)"
    and ni: "n \<in> set (iterdir e0 (Ds ! i))" and nj: "n \<in> set (iterdir e0 (Ds ! j))"
    and sfx: "endswith n ''.rc''" "n \<noteq> ''init.rc''"
    and lst: "\<forall>k. j < k \<and> k < 3 \<and> is_dir fi (Ds ! k) \<longrightarrow> n \<notin> set (iterdir e0 (Ds ! k))"
  shows "child (Ds ! i) n \<in> set (init_rcs self)
         \<and> child (Ds ! j) n \<in> set (init_rcs self)
         \<and> child (Ds ! i) n \<noteq> child (Ds ! j) n
         \<and> join_str (join_str (join_str d ''recovery'') ''root'') (name_of (child (Ds ! i) n))
             = join_str (join_str (join_str d ''recovery'') ''root'') n
         \<and> join_str (join_str (join_str d ''recovery'') ''root'') (name_of (child (Ds ! j) n))
             = join_str (join_str (join_str d ''recovery'') ''root'') n
         \<and> (\<exists>w'. dump_to_folder e self w output_path git = (Inr d, w')
               \<and> files w' (join_str (join_str (join_str d ''recovery'') ''root'') n) =
                   Some (File (content_of (files w) (child (Ds ! j) n)) (default_file_mode e)))"
proof -
  let ?R = "child (child d ''recovery'') ''root''"
  note sl = scan_last [OF ds ij di dj ni nj sfx lst]
  have mi: "child (Ds ! i) n \<in> set (init_rcs self)"
    using sl(1) scan by simp
  obtain pre post where sp: "init_rcs self = pre @ child (Ds ! j) n # post"
    and np: "\<forall>r\<in>set post. name_of r \<noteq> name_of (child (Ds ! j) n)"
    using sl(2) scan by (auto simp: name_of_child)
  have mj: "child (Ds ! j) n \<in> set (init_rcs self)"
    using sp by simp
  have ne: "child (Ds ! i) n \<noteq> child (Ds ! j) n"
  proof -
    have D: "Ds = [rd, Path (anchor rd) (parts rd @ [''system'', ''etc'', ''init'']),
                   Path (anchor rd) (parts rd @ [''vendor'', ''etc'', ''init''])]"
      using ds by (simp add: INIT_RC_LOCATIONS_eq joinpath_def)
    have cs: "(i = 0 \<and> j = 1) \<or> (i = 0 \<and> j = 2) \<or> (i = 1 \<and> j = 2)"
      using ij by auto
    have "Ds ! i \<noteq> Ds ! j"
      using cs D by (cases rd) auto
    then show ?thesis
      by (simp add: child_inject)
  qed
  have pj: "is_file (files w) (child (Ds ! j) n)" "\<not> beneath d (child (Ds ! j) n)" "plain n"
    using rc mj by (auto simp: name_of_child)
  have jr: "join_str (join_str (join_str d ''recovery'') ''root'') n = child ?R n"
    using pj(3) by (simp add: join_str_plain plain_def)
  obtain w' where r: "dump_to_folder e self w output_path git = (Inr d, w')"
    and g: "\<forall>p. p \<noteq> child d ''.git'' \<longrightarrow> files w' p = generated e self d f2 p"
    using dump_generated(2) [OF dd no mk cn k1 k2 k3 k4 rc] by blast
  have "child ?R n \<noteq> child d ''.git''"
    by (simp add: child_inject grandchild_neq)
  then have "files w' (child ?R n) = generated e self d f2 (child ?R n)"
    using g by blast
  also have "\<dots> = Some (File (content_of f2 (child (Ds ! j) n)) (default_file_mode e))"
    using generated_root [OF sp np, of e d f2] by (simp add: name_of_child)
  also have "content_of f2 (child (Ds ! j) n) = content_of (files w) (child (Ds ! j) n)"
    by (rule moved_content [OF no mk pj(1) pj(2)])
  finally have c: "files w' (child ?R n) =
                     Some (File (content_of (files w) (child (Ds ! j) n)) (default_file_mode e))" .
  show ?thesis
    unfolding name_of_child jr
    by (intro conjI exI [of _ w'] refl) (fact mi mj ne r c)+
qed

section \<open>The theorems on concrete runs\<close>

lemma demo_modes: "default_dir_mode demo_env = 493" "default_file_mode demo_env = 420"
  "default_dir_mode stuck_env = 493" "default_file_mode stuck_env = 420"
  by (simp_all add: default_dir_mode_def default_file_mode_def demo_env_def stuck_env_def)

lemma demo_target:
  "demo_folder =
     join_str (join_str demo_out (manufacturer (dt_device_info demo_tree)))
       (codename (dt_device_info demo_tree))"
  "demo_folder =
     join_str (join_str demo_out (manufacturer (dt_device_info no_artifacts_tree)))
       (codename (dt_device_info no_artifacts_tree))"
  by (simp_all add: demo_folder_def demo_out_def demo_tree_def no_artifacts_tree_def
        join_str_plain child_def)

lemma demo_folder_child: "demo_folder = child (Path ''/'' [''out'', ''acme'']) ''alpha''"
  by (simp add: demo_folder_def child_def)

lemma demo_fs_keys:
  "demo_fs p \<noteq> None \<Longrightarrow> take 1 (parts p) = [''tmp''] \<or> p = Path ''/'' []"
  by (simp add: demo_fs_def split: if_splits)

lemma demo_outside: "demo_fs p \<noteq> None \<Longrightarrow> \<not> beneath demo_folder p"
proof
  assume a: "demo_fs p \<noteq> None" and b: "beneath demo_folder p"
  obtain an ps where p: "p = Path an ps" by (cases p)
  from b p have t: "take 3 ps = [''out'', ''acme'', ''alpha'']"
    by (simp add: beneath_def demo_folder_def numeral_3_eq_3)
  have "take 1 (take 3 ps) = take 1 ps" by (simp add: min_def)
  with t have "take 1 ps = [''out'']" by simp
  moreover from t have "ps \<noteq> []" by auto
  ultimately show False using demo_fs_keys [OF a] p by auto
qed

lemma demo_no_orphans: "no_orphans demo_fs demo_folder"
  using demo_outside by (auto simp: no_orphans_def exists_p_def split: option.splits)

lemma demo_after: "after_rmtree e demo_fs demo_folder = demo_fs"
  by (simp add: after_rmtree_def is_dir_def demo_fs_def demo_folder_def)

lemma demo_mk:
  "mkdir_parents 493 False demo_fs demo_folder = Inr demo_made"
  by (simp add: mkdir_parents.simps mkdir_noparents_def mkdir1_def parent_def demo_folder_def
        demo_made_def is_dir_def demo_fs_def)

lemma demo_cn: "CHR ''/'' \<notin> set (codename (dt_device_info demo_tree))"
  "CHR ''/'' \<notin> set (codename (dt_device_info no_artifacts_tree))"
  by (simp_all add: demo_tree_def no_artifacts_tree_def)

lemma demo_artifacts:
  "\<forall>s. kernel (dt_image_info demo_tree) = Some s \<longrightarrow> is_file demo_fs s \<and> \<not> beneath demo_folder s"
  "\<forall>s. dt (dt_image_info demo_tree) = Some s \<longrightarrow> is_file demo_fs s \<and> \<not> beneath demo_folder s"
  "\<forall>s. dtb (dt_image_info demo_tree) = Some s \<longrightarrow> is_file demo_fs s \<and> \<not> beneath demo_folder s"
  "\<forall>s. dtbo (dt_image_info demo_tree) = Some s \<longrightarrow> is_file demo_fs s \<and> \<not> beneath demo_folder s"
  by (simp_all add: demo_tree_def demo_info_def demo_image_def parent_def child_def is_file_def
        demo_fs_def beneath_def demo_folder_def)

lemma demo_scripts:
  "\<forall>rc\<in>set (init_rcs demo_tree).
     is_file demo_fs rc \<and> \<not> beneath demo_folder rc \<and> plain (name_of rc)"
  by (simp add: demo_tree_def is_file_def demo_fs_def beneath_def demo_folder_def plain_def
        name_of_def)

lemma stale_dir: "is_dir stale_fs demo_folder"
  by (simp add: stale_fs_def demo_folder_def is_dir_def)

lemma demo_world_files: "files (demo_world f) = f"
  by (simp add: demo_world_def)

lemma between_child:
  assumes "beneath d p" and "beneath p (child d n)"
  shows "p = d \<or> p = child d n"
proof -
  obtain a ds where d: "d = Path a ds" by (cases d)
  obtain b ps where p: "p = Path b ps" by (cases p)
  from assms d p have ab: "a = b" and t1: "take (length ds) ps = ds"
    and t2: "take (length ps) (ds @ [n]) = ps"
    by (simp_all add: beneath_def child_def)
  have "length (take (length ds) ps) = length ds" by (simp only: t1)
  then have l1: "length ds \<le> length ps" by simp
  have "length (take (length ps) (ds @ [n])) = length ps" by (simp only: t2)
  then have l2: "length ps \<le> length ds + 1" by simp
  from l1 l2 consider "length ps = length ds" | "length ps = length ds + 1" by linarith
  then show ?thesis
  proof cases
    case 1
    with t1 have "ps = ds" by simp
    with ab d p show ?thesis by simp
  next
    case 2
    with t2 have "ps = ds @ [n]" by simp
    with ab d p show ?thesis by (simp add: child_def)
  qed
qed

lemma stuck_after:
  "after_rmtree stuck_env stale_fs demo_folder p =
     (if p = demo_folder then Some (Dir 493)
      else if p = child demo_folder ''stale.txt'' then Some (File ''old'' 420)
      else if beneath demo_folder p then None else stale_fs p)"
proof -
  have s: "exists_p stale_fs (child demo_folder ''stale.txt'')"
    by (simp add: exists_p_def stale_fs_def demo_folder_def child_def)
  have u: "undeletable stuck_env = [child demo_folder ''stale.txt'']"
    by (simp add: stuck_env_def demo_folder_def child_def)
  have b: "beneath p (child demo_folder ''stale.txt'') \<and> beneath demo_folder p
             \<longleftrightarrow> p = demo_folder \<or> p = child demo_folder ''stale.txt''"
    using between_child [of demo_folder p "''stale.txt''"]
      beneath_child [of demo_folder "''stale.txt''"] beneath_refl
    by blast
  have v: "stale_fs demo_folder = Some (Dir 493)"
    "stale_fs (child demo_folder ''stale.txt'') = Some (File ''old'' 420)"
    by (simp_all add: stale_fs_def demo_folder_def child_def)
  have r: "after_rmtree stuck_env stale_fs demo_folder p =
       (if beneath demo_folder p \<and> \<not> beneath p (child demo_folder ''stale.txt'') then None
        else stale_fs p)"
    using s stale_dir by (simp add: after_rmtree_def rmtree_ignore_errors_def u)
  consider "p = demo_folder" | "p = child demo_folder ''stale.txt''"
    | "p \<noteq> demo_folder" "p \<noteq> child demo_folder ''stale.txt''"
    by blast
  then show ?thesis
  proof cases
    case 1
    then show ?thesis using b v r by simp
  next
    case 2
    then show ?thesis using b v r by (simp add: child_neq)
  next
    case 3
    then show ?thesis using b r by auto
  qed
qed

text \<open>
  The theorem for C10 on a concrete run: the target holds a file that cannot be deleted,
  the run raises, and the tree holds the old file and none of the generated ones.
\<close>

theorem existing_target_not_populated_witness:
  "exists_p (after_rmtree stuck_env stale_fs demo_folder) demo_folder
   \<and> dump_to_folder stuck_env demo_tree (demo_world stale_fs) demo_out True =
       (Inl (FileExistsError ''/out/acme/alpha''),
        (demo_world stale_fs)\<lparr>files := after_rmtree stuck_env stale_fs demo_folder\<rparr>)
   \<and> after_rmtree stuck_env stale_fs demo_folder (child demo_folder ''stale.txt'')
       = Some (File ''old'' 420)
   \<and> after_rmtree stuck_env stale_fs demo_folder (child demo_folder ''Android.mk'') = None"
proof -
  have a: "exists_p (after_rmtree stuck_env stale_fs demo_folder) demo_folder"
    by (simp add: exists_p_def stuck_after)
  have s: "path_str demo_folder = ''/out/acme/alpha''"
    by (simp add: path_str_def demo_folder_def)
  have n: "child demo_folder ''Android.mk'' \<noteq> child demo_folder ''stale.txt''"
    "child demo_folder ''Android.mk'' \<noteq> demo_folder"
    by (simp_all add: child_def demo_folder_def)
  have k: "after_rmtree stuck_env stale_fs demo_folder (child demo_folder ''Android.mk'') = None"
    using n beneath_child [of demo_folder "''Android.mk''"]
    by (simp add: stuck_after beneath_refl)
  have m: "after_rmtree stuck_env stale_fs demo_folder (child demo_folder ''stale.txt'')
       = Some (File ''old'' 420)"
    by (simp add: stuck_after child_neq)
  show ?thesis
    using existing_target_not_populated
      [OF demo_target(1), where e = stuck_env and w = "demo_world stale_fs" and git = True]
      a k m
    by (simp add: demo_world_files s)
qed

lemma demo_assembly:
  "files u = demo_fs \<Longrightarrow>
   run_steps (assembly demo_env demo_tree demo_folder) (files u) =
     (None, generated demo_env demo_tree demo_folder demo_made)"
  using assembly_generated
    [where e = demo_env and self = demo_tree and d = demo_folder and ?f0.0 = demo_fs
       and ?f2.0 = demo_made,
     unfolded demo_modes demo_after,
     OF demo_no_orphans demo_mk demo_cn(1) demo_artifacts demo_scripts]
  by simp





lemma demo_kernel:
  "kernel (dt_image_info demo_tree) = Some (Path ''/'' [''tmp'', ''aik'', ''kernel.bin''])"
  "dt (dt_image_info demo_tree) = None" "dtb (dt_image_info demo_tree) = None"
  "dtbo (dt_image_info demo_tree) = None"
  "content_of demo_fs (Path ''/'' [''tmp'', ''aik'', ''kernel.bin'']) = ''zImage''"
  by (simp_all add: demo_tree_def demo_info_def demo_image_def parent_def child_def
        content_of_def demo_fs_def)

lemma no_artifacts:
  "kernel (dt_image_info no_artifacts_tree) = None" "dt (dt_image_info no_artifacts_tree) = None"
  "dtb (dt_image_info no_artifacts_tree) = None" "dtbo (dt_image_info no_artifacts_tree) = None"
  "init_rcs no_artifacts_tree = init_rcs demo_tree"
  by (simp_all add: no_artifacts_tree_def)

lemma prebuilt_names:
  "join_str d ''prebuilt'' = child d ''prebuilt''"
  "join_str (child d ''prebuilt'') ''kernel'' = child (child d ''prebuilt'') ''kernel''"
  "join_str (child d ''prebuilt'') ''dt.img'' = child (child d ''prebuilt'') ''dt.img''"
  "join_str (child d ''prebuilt'') ''dtb.img'' = child (child d ''prebuilt'') ''dtb.img''"
  "join_str (child d ''prebuilt'') ''dtbo.img'' = child (child d ''prebuilt'') ''dtbo.img''"
  by (simp_all add: join_str_plain)

text \<open>
  The theorem for C7 on two concrete runs: an image with a kernel only, and an image
  with none of the four artifacts.
\<close>

theorem prebuilt_artifacts_witness:
  "fst (dump_to_folder demo_env demo_tree (demo_world demo_fs) demo_out False) = Inr demo_folder
   \<and> files (snd (dump_to_folder demo_env demo_tree (demo_world demo_fs) demo_out False))
       (child (child demo_folder ''prebuilt'') ''kernel'') = Some (File ''zImage'' 420)
   \<and> files (snd (dump_to_folder demo_env demo_tree (demo_world demo_fs) demo_out False))
       (child (child demo_folder ''prebuilt'') ''dt.img'') = None
   \<and> files (snd (dump_to_folder demo_env demo_tree (demo_world demo_fs) demo_out False))
       (child (child demo_folder ''prebuilt'') ''dtb.img'') = None
   \<and> files (snd (dump_to_folder demo_env demo_tree (demo_world demo_fs) demo_out False))
       (child (child demo_folder ''prebuilt'') ''dtbo.img'') = None
   \<and> fst (dump_to_folder demo_env no_artifacts_tree (demo_world demo_fs) demo_out False)
       = Inr demo_folder
   \<and> is_dir (files (snd (dump_to_folder demo_env no_artifacts_tree (demo_world demo_fs)
                           demo_out False)))
       (child demo_folder ''prebuilt'')
   \<and> files (snd (dump_to_folder demo_env no_artifacts_tree (demo_world demo_fs) demo_out False))
       (child (child demo_folder ''prebuilt'') ''kernel'') = None
   \<and> files (snd (dump_to_folder demo_env no_artifacts_tree (demo_world demo_fs) demo_out False))
       (child (child demo_folder ''prebuilt'') ''dt.img'') = None
   \<and> files (snd (dump_to_folder demo_env no_artifacts_tree (demo_world demo_fs) demo_out False))
       (child (child demo_folder ''prebuilt'') ''dtb.img'') = None
   \<and> files (snd (dump_to_folder demo_env no_artifacts_tree (demo_world demo_fs) demo_out False))
       (child (child demo_folder ''prebuilt'') ''dtbo.img'') = None"
proof -
  note a = prebuilt_artifacts
    [where e = demo_env and self = demo_tree and w = "demo_world demo_fs"
       and output_path = demo_out and d = demo_folder and ?f2.0 = demo_made and git = False,
     unfolded demo_world_files demo_modes demo_after prebuilt_names demo_kernel,
     OF demo_target(1) demo_no_orphans demo_mk demo_cn(1)]
  have n: "\<forall>s::path. None = Some s \<longrightarrow> is_file demo_fs s \<and> \<not> beneath demo_folder s"
    by simp
  note b = prebuilt_artifacts
    [where e = demo_env and self = no_artifacts_tree and w = "demo_world demo_fs"
       and output_path = demo_out and d = demo_folder and ?f2.0 = demo_made and git = False,
     unfolded demo_world_files demo_modes demo_after prebuilt_names no_artifacts,
     OF demo_target(2) demo_no_orphans demo_mk demo_cn(2) n n n n demo_scripts]
  have k: "\<forall>s. Some (Path ''/'' [''tmp'', ''aik'', ''kernel.bin'']) = Some s \<longrightarrow>
             is_file demo_fs s \<and> \<not> beneath demo_folder s"
    using demo_artifacts(1) unfolding demo_kernel .
  from a [OF k n n n demo_scripts] obtain w1 where
    w1: "dump_to_folder demo_env demo_tree (demo_world demo_fs) demo_out False
           = (Inr demo_folder, w1)"
      "files w1 (child (child demo_folder ''prebuilt'') ''kernel'') = Some (File ''zImage'' 420)"
      "files w1 (child (child demo_folder ''prebuilt'') ''dt.img'') = None"
      "files w1 (child (child demo_folder ''prebuilt'') ''dtb.img'') = None"
      "files w1 (child (child demo_folder ''prebuilt'') ''dtbo.img'') = None"
    by (auto simp: demo_kernel(5))
  from b obtain w2 where
    w2: "dump_to_folder demo_env no_artifacts_tree (demo_world demo_fs) demo_out False
           = (Inr demo_folder, w2)"
      "is_dir (files w2) (child demo_folder ''prebuilt'')"
      "files w2 (child (child demo_folder ''prebuilt'') ''kernel'') = None"
      "files w2 (child (child demo_folder ''prebuilt'') ''dt.img'') = None"
      "files w2 (child (child demo_folder ''prebuilt'') ''dtb.img'') = None"
      "files w2 (child (child demo_folder ''prebuilt'') ''dtbo.img'') = None"
    by auto
  show ?thesis
    unfolding w1(1) w2(1) fst_conv snd_conv
    by (intro conjI refl w1 w2)
qed

lemma demo_undeletable: "\<forall>q\<in>set (undeletable demo_env). \<not> beneath demo_folder q"
  by (simp add: demo_env_def)

lemma stale_after:
  "after_rmtree demo_env stale_fs demo_folder =
     (\<lambda>p. if beneath demo_folder p then None else stale_fs p)"
  by (rule after_rmtree_clean [OF stale_dir demo_undeletable])

lemma stale_mk:
  "mkdir_parents 493 False (after_rmtree demo_env stale_fs demo_folder) demo_folder
     = Inr stale_made"
proof -
  have a: "after_rmtree demo_env stale_fs demo_folder
             (child (Path ''/'' [''out'', ''acme'']) ''alpha'') = None"
    by (simp add: stale_after demo_folder_child [symmetric] beneath_refl)
  have b: "is_dir (after_rmtree demo_env stale_fs demo_folder) (Path ''/'' [''out'', ''acme''])"
  proof -
    have "\<not> beneath demo_folder (Path ''/'' [''out'', ''acme''])"
      by (simp add: beneath_def demo_folder_def)
    moreover have "stale_fs (Path ''/'' [''out'', ''acme'']) = Some (Dir 493)"
      by (simp add: stale_fs_def)
    ultimately show ?thesis
      by (simp add: stale_after is_dir_def)
  qed
  show ?thesis
    using mkdir_parents_child [OF a b, of 493 False]
    by (simp add: stale_made_def demo_folder_child [symmetric])
qed

lemma stale_artifacts:
  "\<forall>s. kernel (dt_image_info demo_tree) = Some s \<longrightarrow> is_file stale_fs s \<and> \<not> beneath demo_folder s"
  "\<forall>s. dt (dt_image_info demo_tree) = Some s \<longrightarrow> is_file stale_fs s \<and> \<not> beneath demo_folder s"
  "\<forall>s. dtb (dt_image_info demo_tree) = Some s \<longrightarrow> is_file stale_fs s \<and> \<not> beneath demo_folder s"
  "\<forall>s. dtbo (dt_image_info demo_tree) = Some s \<longrightarrow> is_file stale_fs s \<and> \<not> beneath demo_folder s"
  by (simp_all add: demo_tree_def demo_info_def demo_image_def parent_def child_def is_file_def
        demo_fs_def stale_fs_def beneath_def demo_folder_def)

lemma stale_scripts:
  "\<forall>rc\<in>set (init_rcs demo_tree).
     is_file stale_fs rc \<and> \<not> beneath demo_folder rc \<and> plain (name_of rc)"
  by (simp add: demo_tree_def is_file_def demo_fs_def stale_fs_def beneath_def demo_folder_def
        plain_def name_of_def)

text \<open>
  The theorem for C2 on a concrete run over a target that holds a stale file: after the
  run the stale file is gone, the directory and the generated files are there, and a
  second run changes nothing.
\<close>

theorem rerun_identical_witness:
  "fst (dump_to_folder demo_env demo_tree (demo_world stale_fs) demo_out False) = Inr demo_folder
   \<and> dump_to_folder demo_env demo_tree (snd (dump_to_folder demo_env demo_tree (demo_world stale_fs) demo_out False)) demo_out False = dump_to_folder demo_env demo_tree (demo_world stale_fs) demo_out False
   \<and> stale_fs (child demo_folder ''stale.txt'') = Some (File ''old'' 420)
   \<and> after_rmtree demo_env stale_fs demo_folder (child demo_folder ''stale.txt'') = None
   \<and> files (snd (dump_to_folder demo_env demo_tree (demo_world stale_fs) demo_out False)) (child demo_folder ''stale.txt'') = None
   \<and> files (snd (dump_to_folder demo_env demo_tree (demo_world stale_fs) demo_out False)) demo_folder = Some (Dir 493)
   \<and> files (snd (dump_to_folder demo_env demo_tree (demo_world stale_fs) demo_out False)) (child demo_folder ''Android.mk'') = Some (File ''# Android.mk'' 420)
   \<and> files (snd (dump_to_folder demo_env demo_tree (demo_world stale_fs) demo_out False)) (child demo_folder ''recovery.fstab'') = Some (File ''/data ext4'' 420)
   \<and> files (snd (dump_to_folder demo_env demo_tree
                   (demo_world (stale_fs(child demo_folder ''stale.txt'' := None)))
                   demo_out False))
       = files (snd (dump_to_folder demo_env demo_tree (demo_world stale_fs) demo_out False))"
proof -
  note t = rerun_identical
    [where e = demo_env and self = demo_tree and w = "demo_world stale_fs"
       and output_path = demo_out and d = demo_folder and ?f2.0 = stale_made,
     unfolded demo_world_files demo_modes,
     OF demo_target(1) stale_dir demo_undeletable stale_mk demo_cn(1) stale_artifacts
        stale_scripts]
  have s: "stale_fs (child demo_folder ''stale.txt'') = Some (File ''old'' 420)"
    by (simp add: stale_fs_def demo_folder_def child_def)
  have b: "beneath demo_folder (child demo_folder ''stale.txt'')"
    by (rule beneath_child)
  have d: "is_dir (files (demo_world (stale_fs(child demo_folder ''stale.txt'' := None))))
             demo_folder"
    using stale_dir by (simp add: demo_world_files is_dir_def child_neq2)
  have o: "\<forall>p. \<not> beneath demo_folder p \<longrightarrow>
             files (demo_world (stale_fs(child demo_folder ''stale.txt'' := None))) p = stale_fs p"
    using b by (auto simp: demo_world_files)
  have n: "child demo_folder ''stale.txt'' \<noteq> demo_folder"
    "child demo_folder ''stale.txt'' \<notin> join_str demo_folder ` set [''prebuilt'', ''recovery'', ''Android.bp'', ''Android.mk'',
                    ''AndroidProducts.mk'', ''BoardConfig.mk'', ''device.mk'',
                    ''extract-files.sh'', ''omni_'' @ codename (dt_device_info demo_tree) @ ''.mk'',
                    ''README.md'', ''setup-makefiles.sh'', ''vendorsetup.sh'',
                    ''recovery.fstab'']"
    "child demo_folder ''stale.txt'' \<notin> join_str (join_str demo_folder ''prebuilt'')
                        ` set [''kernel'', ''dt.img'', ''dtb.img'', ''dtbo.img'']"
    "child demo_folder ''stale.txt'' \<noteq> join_str (join_str demo_folder ''recovery'') ''root''"
    "child demo_folder ''stale.txt'' \<notin> (\<lambda>rc. join_str (join_str (join_str demo_folder ''recovery'') ''root'')
                                 (name_of rc)) ` set (init_rcs demo_tree)"
    by (simp_all add: join_str_plain child_inject child_neq child_neq2 grandchild_neq_child
          demo_tree_def name_of_def image_iff)
  have j: "join_str demo_folder ''Android.mk'' = child demo_folder ''Android.mk''"
    "join_str demo_folder ''recovery.fstab'' = child demo_folder ''recovery.fstab''"
    by (simp_all add: join_str_plain)
  have v: "render demo_env ''Android.mk'' (make_ctx demo_env demo_tree ''#'') = ''# Android.mk''"
    "format_fstab demo_env (dt_fstab demo_tree) = ''/data ext4''"
    by (simp_all add: demo_env_def make_ctx_def demo_tree_def)
  from t obtain w1 where
    r: "dump_to_folder demo_env demo_tree (demo_world stale_fs) demo_out False = (Inr demo_folder, w1)"
    and r2: "dump_to_folder demo_env demo_tree w1 demo_out False = (Inr demo_folder, w1)"
    and del: "\<forall>p. beneath demo_folder p \<longrightarrow> after_rmtree demo_env stale_fs demo_folder p = None"
    and top: "files w1 demo_folder = Some (Dir 493)"
    and mk: "files w1 (join_str demo_folder ''Android.mk'') =
               Some (File (render demo_env ''Android.mk'' (make_ctx demo_env demo_tree ''#'')) 420)"
    and fs: "files w1 (join_str demo_folder ''recovery.fstab'') =
               Some (File (format_fstab demo_env (dt_fstab demo_tree)) 420)"
    and rest: "\<forall>p. beneath demo_folder p \<and> p \<noteq> demo_folder
               \<and> p \<notin> join_str demo_folder ` set [''prebuilt'', ''recovery'', ''Android.bp'', ''Android.mk'',
                    ''AndroidProducts.mk'', ''BoardConfig.mk'', ''device.mk'',
                    ''extract-files.sh'', ''omni_'' @ codename (dt_device_info demo_tree) @ ''.mk'',
                    ''README.md'', ''setup-makefiles.sh'', ''vendorsetup.sh'',
                    ''recovery.fstab'']
               \<and> p \<notin> join_str (join_str demo_folder ''prebuilt'')
                        ` set [''kernel'', ''dt.img'', ''dtb.img'', ''dtbo.img'']
               \<and> p \<noteq> join_str (join_str demo_folder ''recovery'') ''root''
               \<and> p \<notin> (\<lambda>rc. join_str (join_str (join_str demo_folder ''recovery'') ''root'')
                                 (name_of rc)) ` set (init_rcs demo_tree)
               \<longrightarrow> files w1 p = None"
    and ind: "\<forall>w2::world. is_dir (files w2) demo_folder
                 \<and> (\<forall>p. \<not> beneath demo_folder p \<longrightarrow> files w2 p = stale_fs p)
               \<longrightarrow> files (snd (dump_to_folder demo_env demo_tree w2 demo_out False)) = files w1"
    by blast
  have c1: "fst (dump_to_folder demo_env demo_tree (demo_world stale_fs) demo_out False) = Inr demo_folder"
    by (simp add: r)
  have c2: "dump_to_folder demo_env demo_tree (snd (dump_to_folder demo_env demo_tree (demo_world stale_fs) demo_out False)) demo_out False = dump_to_folder demo_env demo_tree (demo_world stale_fs) demo_out False"
    by (simp add: r r2)
  have c4: "after_rmtree demo_env stale_fs demo_folder (child demo_folder ''stale.txt'') = None"
    using del b by blast
  have c5: "files (snd (dump_to_folder demo_env demo_tree (demo_world stale_fs) demo_out False)) (child demo_folder ''stale.txt'') = None"
    using rest b n by (simp add: r)
  have c6: "files (snd (dump_to_folder demo_env demo_tree (demo_world stale_fs) demo_out False)) demo_folder = Some (Dir 493)"
    by (simp add: r top)
  have c7: "files (snd (dump_to_folder demo_env demo_tree (demo_world stale_fs) demo_out False)) (child demo_folder ''Android.mk'') = Some (File ''# Android.mk'' 420)"
    using mk by (simp add: r j v)
  have c8: "files (snd (dump_to_folder demo_env demo_tree (demo_world stale_fs) demo_out False)) (child demo_folder ''recovery.fstab'') = Some (File ''/data ext4'' 420)"
    using fs by (simp add: r j v)
  have c9: "files (snd (dump_to_folder demo_env demo_tree
                   (demo_world (stale_fs(child demo_folder ''stale.txt'' := None)))
                   demo_out False))
       = files (snd (dump_to_folder demo_env demo_tree (demo_world stale_fs) demo_out False))"
    using ind d o by (simp add: r)
  show ?thesis
    by (intro conjI) (fact c1 c2 s c4 c5 c6 c7 c8 c9)+
qed

lemma demo_scan: "init_rcs demo_tree = collect_init_rcs demo_env demo_fs demo_ramdisk"
proof -
  have d: "map (joinpath demo_ramdisk) INIT_RC_LOCATIONS =
             [demo_ramdisk, Path ''/'' [''tmp'', ''aik'', ''ramdisk'', ''system'', ''etc'', ''init''],
              Path ''/'' [''tmp'', ''aik'', ''ramdisk'', ''vendor'', ''etc'', ''init'']]"
    by (simp add: INIT_RC_LOCATIONS_eq joinpath_def demo_ramdisk_def)
  have f: "filter (is_dir demo_fs) (map (joinpath demo_ramdisk) INIT_RC_LOCATIONS) =
             [demo_ramdisk, Path ''/'' [''tmp'', ''aik'', ''ramdisk'', ''vendor'', ''etc'', ''init'']]"
    unfolding d by (simp add: is_dir_def demo_fs_def demo_ramdisk_def)
  show ?thesis
    unfolding collect_closed_form f
    by (simp add: demo_tree_def demo_env_def demo_ramdisk_def child_def name_of_def endswith_def)
qed

lemma demo_dirs:
  "map (joinpath demo_ramdisk) INIT_RC_LOCATIONS ! 0 = demo_ramdisk"
  "map (joinpath demo_ramdisk) INIT_RC_LOCATIONS ! 2 =
     Path ''/'' [''tmp'', ''aik'', ''ramdisk'', ''vendor'', ''etc'', ''init'']"
  by (simp_all add: INIT_RC_LOCATIONS_eq joinpath_def demo_ramdisk_def)

text \<open>
  The theorem for C9 on the concrete run: \<^verbatim>\<open>init.usb.rc\<close> is listed in the ramdisk root
  and in \<^verbatim>\<open>vendor/etc/init\<close>; the copy in the tree is the one of \<^verbatim>\<open>vendor/etc/init\<close>.
\<close>

theorem same_name_last_scanned_wins_witness:
  "child demo_ramdisk ''init.usb.rc'' \<in> set (init_rcs demo_tree)
   \<and> child (Path ''/'' [''tmp'', ''aik'', ''ramdisk'', ''vendor'', ''etc'', ''init''])
         ''init.usb.rc'' \<in> set (init_rcs demo_tree)
   \<and> fst (dump_to_folder demo_env demo_tree (demo_world demo_fs) demo_out False)
       = Inr demo_folder
   \<and> files (snd (dump_to_folder demo_env demo_tree (demo_world demo_fs) demo_out False))
       (child (child (child demo_folder ''recovery'') ''root'') ''init.usb.rc'')
       = Some (File ''usb vendor'' 420)
   \<and> content_of demo_fs (child demo_ramdisk ''init.usb.rc'') = ''usb root''"
proof -
  have di: "is_dir demo_fs (map (joinpath demo_ramdisk) INIT_RC_LOCATIONS ! 0)"
    and dj: "is_dir demo_fs (map (joinpath demo_ramdisk) INIT_RC_LOCATIONS ! 2)"
    unfolding demo_dirs by (simp_all add: is_dir_def demo_fs_def demo_ramdisk_def)
  have ni: "''init.usb.rc'' \<in> set (iterdir demo_env (map (joinpath demo_ramdisk) INIT_RC_LOCATIONS ! 0))"
    and nj: "''init.usb.rc'' \<in> set (iterdir demo_env (map (joinpath demo_ramdisk) INIT_RC_LOCATIONS ! 2))"
    unfolding demo_dirs by (simp_all add: demo_env_def demo_ramdisk_def)
  have sfx: "endswith ''init.usb.rc'' ''.rc''" "''init.usb.rc'' \<noteq> ''init.rc''"
    by (simp_all add: endswith_def)
  have lst: "\<forall>k. 2 < k \<and> k < 3 \<and> is_dir demo_fs (map (joinpath demo_ramdisk) INIT_RC_LOCATIONS ! k)
               \<longrightarrow> ''init.usb.rc'' \<notin> set (iterdir demo_env (map (joinpath demo_ramdisk) INIT_RC_LOCATIONS ! k))"
  proof (intro allI impI)
    fix k :: nat
    assume "2 < k \<and> k < 3 \<and> is_dir demo_fs (map (joinpath demo_ramdisk) INIT_RC_LOCATIONS ! k)"
    then have False by linarith
    then show "''init.usb.rc'' \<notin> set (iterdir demo_env (map (joinpath demo_ramdisk) INIT_RC_LOCATIONS ! k))"
      ..
  qed
  have ij: "(0::nat) < 2" "(2::nat) < 3" by simp_all
  note t = same_name_last_scanned_wins
    [where e = demo_env and self = demo_tree and w = "demo_world demo_fs"
       and output_path = demo_out and d = demo_folder and ?f2.0 = demo_made and git = False
       and ?e0.0 = demo_env and fi = demo_fs and rd = demo_ramdisk
       and Ds = "map (joinpath demo_ramdisk) INIT_RC_LOCATIONS"
       and i = 0 and j = 2 and n = "''init.usb.rc''",
     unfolded demo_world_files demo_modes demo_after,
     OF demo_target(1) demo_no_orphans demo_mk demo_cn(1) demo_artifacts demo_scripts
        demo_scan refl ij di dj ni nj sfx lst]
  have j: "join_str (join_str (join_str demo_folder ''recovery'') ''root'') ''init.usb.rc''
             = child (child (child demo_folder ''recovery'') ''root'') ''init.usb.rc''"
    by (simp add: join_str_plain)
  have c: "content_of demo_fs
             (child (Path ''/'' [''tmp'', ''aik'', ''ramdisk'', ''vendor'', ''etc'', ''init''])
                ''init.usb.rc'') = ''usb vendor''"
    "content_of demo_fs (child demo_ramdisk ''init.usb.rc'') = ''usb root''"
    by (simp_all add: content_of_def demo_fs_def child_def demo_ramdisk_def)
  from t show ?thesis
    unfolding demo_dirs j c by auto
qed

lemma demo_made_empty: "\<forall>q. beneath demo_folder q \<and> q \<noteq> demo_folder \<longrightarrow> demo_made q = None"
  using made_target(2) [OF demo_no_orphans, of 493 demo_env demo_made] demo_mk
  by (simp add: demo_after)

lemma demo_no_git:
  "generated demo_env demo_tree demo_folder demo_made (join_str demo_folder ''.git'') = None"
  using generated_git [OF demo_made_empty] by (simp add: join_str_plain)

lemma demo_git_run:
  "files u = demo_fs \<Longrightarrow>
   dump_to_folder demo_env demo_tree u demo_out True =
     git_snapshot demo_env demo_tree demo_folder
       (u\<lparr>files := generated demo_env demo_tree demo_folder demo_made\<rparr>)"
  using demo_assembly [of u]
  by (simp add: dump_to_folder_def demo_target(1) [symmetric])

lemma demo_repo_init:
  "files u = demo_fs \<Longrightarrow>
   Repo_init demo_env (u\<lparr>files := generated demo_env demo_tree demo_folder demo_made\<rparr>)
       demo_folder =
     Inr (u\<lparr>files := (generated demo_env demo_tree demo_folder demo_made)
                        (join_str demo_folder ''.git'' \<mapsto> Dir (default_dir_mode demo_env)),
            repos := (repos u)(demo_folder \<mapsto> empty_repo)\<rparr>)"
  by (simp add: Repo_init_def demo_no_git)

text \<open>
  The theorem for C8 on two concrete runs: with both values configured they are kept,
  with none configured the fallback identity is in force.
\<close>

theorem snapshot_identity_witness:
  "fst (dump_to_folder demo_env demo_tree configured_world demo_out True) = Inr demo_folder
   \<and> get_value (snd (dump_to_folder demo_env demo_tree configured_world demo_out True))
       demo_folder ''user'' ''email'' = Inr ''dev@example.org''
   \<and> get_value (snd (dump_to_folder demo_env demo_tree configured_world demo_out True))
       demo_folder ''user'' ''name'' = Inr ''Dev''
   \<and> fst (dump_to_folder demo_env demo_tree (demo_world demo_fs) demo_out True) = Inr demo_folder
   \<and> get_value (snd (dump_to_folder demo_env demo_tree (demo_world demo_fs) demo_out True))
       demo_folder ''user'' ''email'' = Inr ''barezzisebastiano@gmail.com''
   \<and> get_value (snd (dump_to_folder demo_env demo_tree (demo_world demo_fs) demo_out True))
       demo_folder ''user'' ''name'' = Inr ''Sebastiano Barezzi''"
proof -
  have fc: "files configured_world = demo_fs" by (simp add: configured_world_def)
  have fd: "files (demo_world demo_fs) = demo_fs" by (simp add: demo_world_def)
  note a = snapshot_identity
    [where e = demo_env and self = demo_tree and w = configured_world
       and output_path = demo_out and d = demo_folder
       and em = "''dev@example.org''" and nm = "''Dev''",
     OF demo_target(1) demo_assembly [OF fc] demo_repo_init [OF fc]]
  note b = snapshot_identity
    [where e = demo_env and self = demo_tree and w = "demo_world demo_fs"
       and output_path = demo_out and d = demo_folder,
     OF demo_target(1) demo_assembly [OF fd] demo_repo_init [OF fd]]
  have ga: "get_value
              (configured_world
                 \<lparr>files := (generated demo_env demo_tree demo_folder demo_made)
                             (join_str demo_folder ''.git'' \<mapsto> Dir (default_dir_mode demo_env)),
                  repos := (repos configured_world)(demo_folder \<mapsto> empty_repo)\<rparr>)
              demo_folder ''user'' ''email'' = Inr ''dev@example.org''"
    "get_value
              (configured_world
                 \<lparr>files := (generated demo_env demo_tree demo_folder demo_made)
                             (join_str demo_folder ''.git'' \<mapsto> Dir (default_dir_mode demo_env)),
                  repos := (repos configured_world)(demo_folder \<mapsto> empty_repo)\<rparr>)
              demo_folder ''user'' ''name'' = Inr ''Dev''"
    by (simp_all add: get_value_def configured_world_def empty_repo_def)
  have gb: "\<exists>x. get_value
              (demo_world demo_fs
                 \<lparr>files := (generated demo_env demo_tree demo_folder demo_made)
                             (join_str demo_folder ''.git'' \<mapsto> Dir (default_dir_mode demo_env)),
                  repos := (repos (demo_world demo_fs))(demo_folder \<mapsto> empty_repo)\<rparr>)
              demo_folder ''user'' ''email'' = Inl x"
    by (simp add: get_value_def demo_world_def empty_repo_def)
  from a ga have
    "fst (dump_to_folder demo_env demo_tree configured_world demo_out True) = Inr demo_folder
     \<and> get_value (snd (dump_to_folder demo_env demo_tree configured_world demo_out True))
         demo_folder ''user'' ''email'' = Inr ''dev@example.org''
     \<and> get_value (snd (dump_to_folder demo_env demo_tree configured_world demo_out True))
         demo_folder ''user'' ''name'' = Inr ''Dev''"
    by blast
  moreover from b gb have
    "fst (dump_to_folder demo_env demo_tree (demo_world demo_fs) demo_out True) = Inr demo_folder
     \<and> get_value (snd (dump_to_folder demo_env demo_tree (demo_world demo_fs) demo_out True))
         demo_folder ''user'' ''email'' = Inr ''barezzisebastiano@gmail.com''
     \<and> get_value (snd (dump_to_folder demo_env demo_tree (demo_world demo_fs) demo_out True))
         demo_folder ''user'' ''name'' = Inr ''Sebastiano Barezzi''"
    by blast
  ultimately show ?thesis by blast
qed

text \<open>
  C8 as stated fails. In a world where \<^verbatim>\<open>user.email\<close> is configured outside the
  repository and \<^verbatim>\<open>user.name\<close> is not, the read of the name raises, both variables are
  set to \<^verbatim>\<open>None\<close>, and both fallback values are written: after the run the effective
  email of the repository is the fallback one, not the configured one.
\<close>

theorem configured_email_is_replaced:
  "get_value partial_world demo_folder ''user'' ''email'' = Inr ''dev@example.org''
   \<and> fst (dump_to_folder demo_env demo_tree partial_world demo_out True) = Inr demo_folder
   \<and> get_value (snd (dump_to_folder demo_env demo_tree partial_world demo_out True))
       demo_folder ''user'' ''email'' = Inr ''barezzisebastiano@gmail.com''"
proof -
  have fp: "files partial_world = demo_fs" by (simp add: partial_world_def)
  have g: "get_value partial_world demo_folder ''user'' ''email'' = Inr ''dev@example.org''"
    by (simp add: get_value_def partial_world_def)
  have r: "read_identity
             (partial_world
                \<lparr>files := (generated demo_env demo_tree demo_folder demo_made)
                            (join_str demo_folder ''.git'' \<mapsto> Dir (default_dir_mode demo_env)),
                 repos := (repos partial_world)(demo_folder \<mapsto> empty_repo)\<rparr>)
             demo_folder = (None, None)"
    by (simp add: read_identity_def get_value_def partial_world_def empty_repo_def)
  have s: "git_snapshot demo_env demo_tree demo_folder
             (partial_world\<lparr>files := generated demo_env demo_tree demo_folder demo_made\<rparr>)
           = (Inr demo_folder,
              index_commit
                (set_value
                   (set_value
                      (partial_world
                         \<lparr>files := (generated demo_env demo_tree demo_folder demo_made)
                            (join_str demo_folder ''.git'' \<mapsto> Dir (default_dir_mode demo_env)),
                          repos := (repos partial_world)(demo_folder \<mapsto> empty_repo)\<rparr>)
                      demo_folder ''user'' ''email'' ''barezzisebastiano@gmail.com'')
                   demo_folder ''user'' ''name'' ''Sebastiano Barezzi'')
                demo_folder
                (render_template_text demo_env ''commit_message''
                   (make_ctx demo_env demo_tree ''#'')))"
    by (simp add: git_snapshot_def demo_repo_init [OF fp] r)
  have a: "fst (dump_to_folder demo_env demo_tree partial_world demo_out True) = Inr demo_folder"
    unfolding demo_git_run [OF fp] s by simp
  have b: "get_value (snd (dump_to_folder demo_env demo_tree partial_world demo_out True))
       demo_folder ''user'' ''email'' = Inr ''barezzisebastiano@gmail.com''"
    unfolding demo_git_run [OF fp] s
    by (simp add: get_value_def index_commit_def set_value_def)
  show ?thesis
    by (intro conjI) (fact g a b)+
qed

end
